theory Spec2Isabelle
  imports Complex_Main
begin

section \<open>Numbers and vectors\<close>

text \<open>
  JavaScript numbers are modelled as real numbers. The only place in the modelled code
  where a division by zero can be reached is the score of \<open>updateObjectSelection\<close>;
  there the model writes out the NaN that JavaScript produces. Everywhere else the
  source guards the divisor.

  \<open>Vector3\<close> is the vector class of the three.js library, which the repository
  imports. Its arithmetic is modelled by value: a method that mutates its receiver
  becomes a function returning the new vector, and every place where the source keeps
  using a mutated receiver is modelled with the mutated value.
\<close>

datatype vec3 = Vector3 (vx: real) (vy: real) (vz: real)

definition addV :: "vec3 \<Rightarrow> vec3 \<Rightarrow> vec3" where
  "addV a b = Vector3 (vx a + vx b) (vy a + vy b) (vz a + vz b)"

definition subV :: "vec3 \<Rightarrow> vec3 \<Rightarrow> vec3" where
  "subV a b = Vector3 (vx a - vx b) (vy a - vy b) (vz a - vz b)"

definition multiplyScalar :: "vec3 \<Rightarrow> real \<Rightarrow> vec3" where
  "multiplyScalar a s = Vector3 (vx a * s) (vy a * s) (vz a * s)"

definition divideScalar :: "vec3 \<Rightarrow> real \<Rightarrow> vec3" where
  "divideScalar a s = multiplyScalar a (1 / s)"

definition dotV :: "vec3 \<Rightarrow> vec3 \<Rightarrow> real" where
  "dotV a b = vx a * vx b + vy a * vy b + vz a * vz b"

definition lengthSq :: "vec3 \<Rightarrow> real" where
  "lengthSq a = vx a * vx a + vy a * vy a + vz a * vz a"

definition lengthV :: "vec3 \<Rightarrow> real" where
  "lengthV a = sqrt (lengthSq a)"

text \<open>\<open>normalize()\<close> divides by \<open>length() || 1\<close>: the zero vector stays zero.\<close>

definition normalizeV :: "vec3 \<Rightarrow> vec3" where
  "normalizeV a = divideScalar a (if lengthV a = 0 then 1 else lengthV a)"

definition clampLength :: "vec3 \<Rightarrow> real \<Rightarrow> real \<Rightarrow> vec3" where
  "clampLength a lo hi =
     (let len = lengthV a
      in multiplyScalar (divideScalar a (if len = 0 then 1 else len)) (max lo (min hi len)))"

definition distanceToSquared :: "vec3 \<Rightarrow> vec3 \<Rightarrow> real" where
  "distanceToSquared a b =
     (let dx = vx a - vx b; dy = vy a - vy b; dz = vz a - vz b
      in dx * dx + dy * dy + dz * dz)"

definition distanceTo :: "vec3 \<Rightarrow> vec3 \<Rightarrow> real" where
  "distanceTo a b = sqrt (distanceToSquared a b)"

definition lerpV :: "vec3 \<Rightarrow> vec3 \<Rightarrow> real \<Rightarrow> vec3" where
  "lerpV a b alpha =
     Vector3 (vx a + (vx b - vx a) * alpha) (vy a + (vy b - vy a) * alpha)
       (vz a + (vz b - vz a) * alpha)"

definition setX :: "vec3 \<Rightarrow> real \<Rightarrow> vec3" where
  "setX a v = Vector3 v (vy a) (vz a)"

definition setY :: "vec3 \<Rightarrow> real \<Rightarrow> vec3" where
  "setY a v = Vector3 (vx a) v (vz a)"

definition setZ :: "vec3 \<Rightarrow> real \<Rightarrow> vec3" where
  "setZ a v = Vector3 (vx a) (vy a) v"

text \<open>\<open>Math.atan2 y x\<close> on real arguments (signed zeros are not modelled).\<close>

definition atan2 :: "real \<Rightarrow> real \<Rightarrow> real" where
  "atan2 y x =
     (if 0 < x then arctan (y / x)
      else if x < 0 then (if 0 \<le> y then arctan (y / x) + pi else arctan (y / x) - pi)
      else if 0 < y then pi / 2
      else if y < 0 then - (pi / 2)
      else 0)"

text \<open>The shortest signed angular difference, as written three times in \<open>frog.js\<close>.\<close>

definition wrapDiff :: "real \<Rightarrow> real" where
  "wrapDiff d = (if \<bar>d\<bar> > pi then (if d > 0 then d - 2 * pi else d + 2 * pi) else d)"

section \<open>Data model\<close>

text \<open>
  An \<open>object3d\<close> is a three.js scene node reduced to what the code reads: its position
  and its Euler rotation. three.js keeps a node's quaternion in step with its rotation,
  so the orientation of a node is represented by \<open>rotation\<close>, and the library
  operations that take \<open>node.quaternion\<close> take the node's \<open>rotation\<close> here.
\<close>

record object3d =
  position :: vec3
  rotation :: vec3

text \<open>
  The operations of three.js whose result depends on quaternion and matrix algebra are
  parameters of the model: rotating a vector by a node's orientation, the orientation a
  camera gets from \<open>lookAt\<close>, the depth of a point projected by a camera, and the
  camera's viewing direction.
\<close>

record three =
  applyQuaternion :: "vec3 \<Rightarrow> vec3 \<Rightarrow> vec3"
  lookAt :: "vec3 \<Rightarrow> vec3 \<Rightarrow> vec3"
  projectZ :: "object3d \<Rightarrow> vec3 \<Rightarrow> real"
  getWorldDirection :: "object3d \<Rightarrow> vec3"

datatype object_type = Folder | Txt | Pdf | Image

record world_object = object3d +
  otype :: object_type

record movement_flags =
  forward :: bool
  backward :: bool
  left :: bool
  right :: bool
  up :: bool
  down :: bool

record config =
  speed :: real
  friction :: real
  verticalSpeed :: real
  strokeSpeed :: real
  floatSpeed :: real
  collisionDistance :: real
  selectionDistance :: real
  width :: real
  floorY :: real
  ceilingY :: real

text \<open>
  References to world objects (\<open>selectedObject\<close>, a sub-agent's \<open>target\<close>, the
  autopilot's \<open>targetObject\<close>, \<open>currentFolder\<close>) are indices into \<open>allObjects\<close>;
  \<open>None\<close> is \<open>null\<close>. The core never changes the membership of that list.
\<close>

record autopilot_state =
  active :: bool
  lastInputTime :: real
  targetObject :: "nat option"
  idleTimeout :: real
  cameraRealignInterval :: real
  lastCameraRealign :: real
  speed :: real

text \<open>
  A sub-agent (\<open>frogData\<close>). Its \<open>position\<close> is the very vector of its mesh, so the
  record extends \<open>object3d\<close>: \<open>position\<close> and the mesh's \<open>rotation\<close> are one node.
\<close>

record frog_data = object3d +
  velocity :: vec3
  acceleration :: vec3
  target :: "nat option"
  speed :: real
  maxForce :: real
  separationRadius :: real
  minSeparation :: real
  isMoving :: bool

record player = object3d +
  velocity :: vec3
  isGrounded :: bool
  jumpCount :: nat
  maxJumps :: nat
  jumpPressed :: bool
  isOnGround :: bool
  droppingThrough :: bool

record platform = object3d +
  isGround :: bool
  width :: real

record input_flags =
  left :: bool
  right :: bool
  jump :: bool
  down :: bool

text \<open>
  The fields of \<open>SwimmingTank\<close> that the simulation core reads or writes. Rendering,
  the DOM, bubbles, particles, animation mixers, name labels and the selection border
  are outside the model.
\<close>

record tank =
  frog :: "object3d option"
  frogPosition :: vec3
  velocity :: vec3
  direction :: vec3
  movement :: movement_flags
  dashCooldown :: real
  dashForce :: real
  swimTime :: real
  camera :: object3d
  cameraOffset :: vec3
  euler :: vec3
  mouseX :: real
  mouseY :: real
  config :: config
  allObjects :: "world_object list"
  selectedObject :: "nat option"
  autopilot :: "autopilot_state option"
  multiFrogMode :: bool
  otherFrogs :: "frog_data list"
  sideScrollerMode :: bool
  sideScrollerPlayer :: "player option"
  sideScrollerInput :: input_flags
  sideScrollerPlatforms :: "platform list"
  sideScrollerCamera :: "object3d option"
  currentFolder :: "nat option"

text \<open>Following a reference: an index outside the list stands for no object.\<close>

definition deref :: "tank \<Rightarrow> nat option \<Rightarrow> world_object option" where
  "deref tank r =
     (case r of
        None \<Rightarrow> None
      | Some i \<Rightarrow> if i < length (allObjects tank) then Some (allObjects tank ! i) else None)"

section \<open>frog.js: the avatar\<close>

definition updateCameraPosition :: "three \<Rightarrow> tank \<Rightarrow> tank" where
  "updateCameraPosition E tank =
     (case frog tank of
        None \<Rightarrow> tank
      | Some fr \<Rightarrow>
          let targetPosition = addV (position fr) (cameraOffset tank);
              p = lerpV (position (camera tank)) targetPosition 0.1;
              lookTarget = setY (position fr) (vy (position fr) + 4)
          in tank\<lparr>camera := (camera tank)\<lparr>position := p, rotation := lookAt E p lookTarget\<rparr>\<rparr>)"

text \<open>The raw intent vector built from the four horizontal flags.\<close>

definition intentVector :: "movement_flags \<Rightarrow> vec3" where
  "intentVector m =
     (let d0 = Vector3 0 0 0;
          d1 = (if forward m then setZ d0 (vz d0 - 1) else d0);
          d2 = (if backward m then setZ d1 (vz d1 + 1) else d1);
          d3 = (if movement_flags.left m then setX d2 (vx d2 - 1) else d2);
          d4 = (if movement_flags.right m then setX d3 (vx d3 + 1) else d3)
      in d4)"

definition hasHorizontalInput :: "movement_flags \<Rightarrow> bool" where
  "hasHorizontalInput m =
     (forward m \<or> backward m \<or> movement_flags.left m \<or> movement_flags.right m)"

text \<open>
  \<open>updateMovement\<close>, block by block: friction, movement force and vertical movement
  give the new velocity; the position is integrated and clamped to the tank bounds; the
  rotation follows the input direction or the velocity.
\<close>

definition applyFriction :: "config \<Rightarrow> bool \<Rightarrow> vec3 \<Rightarrow> real \<Rightarrow> vec3" where
  "applyFriction cfg hasInput v0 delta =
     (let v1 = (if hasInput then
                  Vector3 (vx v0 - vx v0 * friction cfg * delta * 0.2) (vy v0)
                    (vz v0 - vz v0 * friction cfg * delta * 0.2)
                else
                  let decelerationRate = friction cfg * 0.6;
                      xa = vx v0 - vx v0 * decelerationRate * delta;
                      za = vz v0 - vz v0 * decelerationRate * delta;
                      underwaterResistance = 0.3
                  in Vector3 (xa - xa * underwaterResistance * delta) (vy v0)
                       (za - za * underwaterResistance * delta))
      in setY v1 (vy v1 - vy v1 * (friction cfg * 0.5) * delta))"

definition applyMovementForce :: "three \<Rightarrow> tank \<Rightarrow> vec3 \<Rightarrow> vec3 \<Rightarrow> real \<Rightarrow> vec3" where
  "applyMovementForce E tank dir v2 delta =
     (let m = movement tank;
          cfg = config tank;
          v3 = (if hasHorizontalInput m then
                  let moveVector = applyQuaternion E (rotation (camera tank)) dir;
                      movementForce = multiplyScalar moveVector (config.speed cfg * delta)
                  in addV v2 movementForce
                else v2);
          v4 = (if up m then setY v3 (vy v3 + verticalSpeed cfg * delta) else v3)
      in if movement_flags.down m then setY v4 (vy v4 - verticalSpeed cfg * delta) else v4)"

definition clampToTankBounds :: "config \<Rightarrow> vec3 \<Rightarrow> vec3" where
  "clampToTankBounds tankConfig p0 =
     (let p1 = setX p0 (max (- config.width tankConfig) (min (config.width tankConfig) (vx p0)));
          p2 = setZ p1 (max (- config.width tankConfig) (min (config.width tankConfig) (vz p1)))
      in setY p2 (max (floorY tankConfig) (min (ceilingY tankConfig) (vy p2))))"

definition handleRotation :: "three \<Rightarrow> tank \<Rightarrow> vec3 \<Rightarrow> vec3 \<Rightarrow> vec3 \<Rightarrow> real \<Rightarrow> vec3" where
  "handleRotation E tank dir v r0 delta =
     (if hasHorizontalInput (movement tank) then
        let inputDirection = applyQuaternion E (rotation (camera tank)) dir
        in if lengthV inputDirection > 0.1 then
             let targetRotationY = atan2 (vx inputDirection) (vz inputDirection);
                 diff = wrapDiff (targetRotationY - vy r0);
                 rotationSpeed = 8.0
             in setY r0 (vy r0 + diff * rotationSpeed * delta)
           else r0
      else if lengthV v > 0.3 then
        let velocityDirection = normalizeV v;
            targetRotationY = atan2 (vx velocityDirection) (vz velocityDirection);
            diff = wrapDiff (targetRotationY - vy r0);
            rotationSpeed = 2.0
        in setY r0 (vy r0 + diff * rotationSpeed * delta)
      else r0)"

definition updateMovement :: "three \<Rightarrow> tank \<Rightarrow> real \<Rightarrow> tank" where
  "updateMovement E tank delta =
     (case frog tank of
        None \<Rightarrow> tank
      | Some fr \<Rightarrow>
          let dir = normalizeV (intentVector (movement tank));
              v = applyMovementForce E tank dir
                    (applyFriction (config tank) (hasHorizontalInput (movement tank))
                       (velocity tank) delta)
                    delta;
              cooldown = (if dashCooldown tank > 0 then dashCooldown tank - delta
                          else dashCooldown tank);
              p = clampToTankBounds (config tank) (addV (position fr) (multiplyScalar v delta));
              r = handleRotation E tank dir v (rotation fr) delta
          in tank\<lparr>velocity := v, direction := dir, dashCooldown := cooldown,
                  frog := Some (fr\<lparr>position := p, rotation := r\<rparr>), frogPosition := p\<rparr>)"

definition realignCamera :: "three \<Rightarrow> tank \<Rightarrow> tank" where
  "realignCamera E tank =
     (case frog tank of
        None \<Rightarrow> tank
      | Some fr \<Rightarrow>
          let fwd = applyQuaternion E (rotation fr) (Vector3 0 0 1);
              cameraDistance = 10;
              cameraHeight = 5
          in tank\<lparr>cameraOffset :=
                    Vector3 (- vx fwd * cameraDistance) cameraHeight (- vz fwd * cameraDistance),
                  euler := Vector3 0 0 0, mouseX := 0, mouseY := 0\<rparr>)"

text \<open>
  \<open>updateAutopilot\<close> reads the wall clock (\<open>Date.now()\<close>) and \<open>Math.random()\<close>;
  both are arguments here. The clock readings taken within one call are one value
  \<open>now\<close>. In the source \<open>direction.multiplyScalar\<close> scales \<open>direction\<close> in place,
  so the yaw target is computed from the scaled vector \<open>force\<close>.
\<close>

definition initialAutopilot :: "real \<Rightarrow> autopilot_state" where
  "initialAutopilot now =
     \<lparr>active = False, lastInputTime = now, targetObject = None, idleTimeout = 5000,
      cameraRealignInterval = 8000, lastCameraRealign = now, autopilot_state.speed = 0.3\<rparr>"

definition pickCandidate :: "nat list \<Rightarrow> real \<Rightarrow> nat option" where
  "pickCandidate candidates rnd =
     (let k = \<lfloor>rnd * real (length candidates)\<rfloor>
      in if 0 \<le> k \<and> nat k < length candidates then Some (candidates ! nat k) else None)"

definition updateAutopilot :: "three \<Rightarrow> real \<Rightarrow> real \<Rightarrow> tank \<Rightarrow> real \<Rightarrow> tank" where
  "updateAutopilot E now rnd tank delta =
     (case frog tank of
        None \<Rightarrow> tank
      | Some fr \<Rightarrow>
          if allObjects tank = [] then tank
          else
            let ap0 = (case autopilot tank of None \<Rightarrow> initialAutopilot now | Some a \<Rightarrow> a);
                timeSinceInput = now - lastInputTime ap0;
                m = movement tank;
                hasInput = (forward m \<or> backward m \<or> movement_flags.left m \<or>
                            movement_flags.right m \<or> up m \<or> movement_flags.down m)
            in if hasInput then
                 tank\<lparr>autopilot :=
                   Some (ap0\<lparr>lastInputTime := now, active := False, targetObject := None\<rparr>)\<rparr>
               else if timeSinceInput > idleTimeout ap0 then
                 let ap1 = (if \<not> active ap0 then ap0\<lparr>active := True\<rparr> else ap0);
                     needTarget =
                       (case deref tank (targetObject ap1) of
                          None \<Rightarrow> True
                        | Some ob \<Rightarrow> distanceTo (position fr) (position ob) < 5);
                     candidates =
                       filter (\<lambda>i. let dist = distanceTo (position fr) (position (allObjects tank ! i))
                                   in dist > 8 \<and> dist < 50)
                         [0..<length (allObjects tank)];
                     ap2 = (if needTarget \<and> candidates \<noteq> [] then
                              ap1\<lparr>targetObject := pickCandidate candidates rnd\<rparr>
                            else ap1);
                     tank1 =
                       (case deref tank (targetObject ap2) of
                          None \<Rightarrow> tank
                        | Some ob \<Rightarrow>
                            let tgt = position ob;
                                dir = normalizeV (subV tgt (position fr));
                                force = multiplyScalar dir (autopilot_state.speed ap2 * delta);
                                w1 = addV (velocity tank) force;
                                targetRotationY = atan2 (vx force) (vz force);
                                diff = wrapDiff (targetRotationY - vy (rotation fr));
                                r1 = setY (rotation fr) (vy (rotation fr) + diff * 2.0 * delta);
                                yDiff = vy tgt - vy (position fr);
                                w2 = setY w1 (vy w1 + yDiff * 0.1 * delta)
                            in tank\<lparr>velocity := w2, frog := Some (fr\<lparr>rotation := r1\<rparr>)\<rparr>);
                     realign = (now - lastCameraRealign ap2 > cameraRealignInterval ap2);
                     tank2 = (if realign then realignCamera E tank1 else tank1);
                     ap3 = (if realign then ap2\<lparr>lastCameraRealign := now\<rparr> else ap2)
                 in tank2\<lparr>autopilot := Some ap3, swimTime := swimTime tank2 + delta * 0.5\<rparr>
               else tank\<lparr>autopilot := Some ap0\<rparr>)"

definition updateFrogAnimation :: "tank \<Rightarrow> real \<Rightarrow> tank" where
  "updateFrogAnimation tank delta =
     (case frog tank of
        None \<Rightarrow> tank
      | Some fr \<Rightarrow>
          let m = movement tank;
              moving = (forward m \<or> backward m \<or> movement_flags.left m \<or>
                        movement_flags.right m \<or> up m \<or> movement_flags.down m);
              st = (if moving then swimTime tank + delta else swimTime tank);
              p = position fr;
              p1 = (if moving then
                      let bobSpeed = strokeSpeed (config tank) * 2;
                          bobAmplitude = 0.05
                      in setY p (vy p + sin (st * bobSpeed) * bobAmplitude * delta)
                    else
                      let floatSpeed' = floatSpeed (config tank);
                          floatAmplitude = 0.02
                      in setY p (vy p + sin (st * floatSpeed') * floatAmplitude * delta))
          in tank\<lparr>swimTime := st, frog := Some (fr\<lparr>position := p1\<rparr>), frogPosition := p1\<rparr>)"

definition performDash :: "three \<Rightarrow> tank \<Rightarrow> tank" where
  "performDash E tank =
     (case frog tank of
        None \<Rightarrow> tank
      | Some fr \<Rightarrow>
          if dashCooldown tank > 0 then tank
          else
            let m = movement tank;
                dashDirection =
                  (if hasHorizontalInput m then
                     applyQuaternion E (rotation (camera tank)) (normalizeV (intentVector m))
                   else applyQuaternion E (rotation fr) (Vector3 0 0 1))
            in tank\<lparr>velocity := addV (velocity tank) (multiplyScalar dashDirection (dashForce tank)),
                    dashCooldown := 0.5\<rparr>)"

section \<open>frog.js: the sub-agents\<close>

text \<open>
  A sub-agent is named by its index in \<open>otherFrogs\<close>; the source's test
  \<open>otherFrog === frogData\<close> is the comparison of two indices. The loops over
  \<open>tank.otherFrogs\<close> run over the indices in order.
\<close>

definition checkMinimumSeparation :: "tank \<Rightarrow> nat \<Rightarrow> bool" where
  "checkMinimumSeparation tank i =
     (let frogData = otherFrogs tank ! i
      in if distanceTo (position frogData) (frogPosition tank) < minSeparation frogData then True
         else list_ex
                (\<lambda>j. j \<noteq> i \<and>
                     distanceTo (position frogData) (position (otherFrogs tank ! j))
                       < minSeparation frogData)
                [0..<length (otherFrogs tank)])"

definition wouldCauseOverlap :: "tank \<Rightarrow> nat \<Rightarrow> vec3 \<Rightarrow> bool" where
  "wouldCauseOverlap tank i newPosition =
     (let frogData = otherFrogs tank ! i;
          minDistance = minSeparation frogData
      in if distanceTo newPosition (frogPosition tank) < minDistance then True
         else list_ex
                (\<lambda>j. j \<noteq> i \<and>
                     distanceTo newPosition (position (otherFrogs tank ! j)) < minDistance)
                [0..<length (otherFrogs tank)])"

definition calculateSeek :: "frog_data \<Rightarrow> vec3 \<Rightarrow> vec3" where
  "calculateSeek frogData targetPosition =
     (let desired =
            multiplyScalar (normalizeV (subV targetPosition (position frogData)))
              (frog_data.speed frogData);
          steer = clampLength (subV desired (frog_data.velocity frogData)) 0 (maxForce frogData)
      in steer)"

text \<open>One entity's contribution to the separation sum: the steer vector and the count.\<close>

definition repel :: "frog_data \<Rightarrow> vec3 \<Rightarrow> vec3 \<times> nat \<Rightarrow> vec3 \<times> nat" where
  "repel frogData other acc =
     (let distance = distanceTo (position frogData) other
      in if distance < separationRadius frogData \<and> distance > 0.01 then
           let repulsionStrength = 1.0 - (distance / separationRadius frogData);
               diff = multiplyScalar (normalizeV (subV (position frogData) other)) repulsionStrength
           in (addV (fst acc) diff, snd acc + 1)
         else acc)"

definition calculateSeparation :: "tank \<Rightarrow> nat \<Rightarrow> vec3" where
  "calculateSeparation tank i =
     (let frogData = otherFrogs tank ! i;
          acc0 = repel frogData (frogPosition tank) (Vector3 0 0 0, 0);
          acc1 = foldl (\<lambda>acc j. if j = i then acc
                                 else repel frogData (position (otherFrogs tank ! j)) acc)
                   acc0 [0..<length (otherFrogs tank)];
          steer = fst acc1;
          count = snd acc1
      in if count > 0 then
           let steer1 = divideScalar steer (real count)
           in if lengthV steer1 > 0 then
                clampLength
                  (subV (multiplyScalar (normalizeV steer1) (frog_data.speed frogData * 0.5))
                     (frog_data.velocity frogData))
                  0 (maxForce frogData)
              else steer1
         else steer)"

text \<open>
  The value of \<open>frogData.acceleration\<close> after the emergency check and the blend of the
  steering forces, before integration (lines 516 to 532 of \<open>frog.js\<close>).
\<close>

definition steeringAcceleration :: "tank \<Rightarrow> nat \<Rightarrow> vec3 \<Rightarrow> vec3" where
  "steeringAcceleration tank i targetPosition =
     (let frogData = otherFrogs tank ! i;
          tooClose = checkMinimumSeparation tank i;
          a0 = Vector3 0 0 0
      in if tooClose then
           let separationForce = multiplyScalar (calculateSeparation tank i) 1.5
           in addV a0 separationForce
         else
           let seekForce = multiplyScalar (calculateSeek frogData targetPosition) 1.0;
               a1 = addV a0 seekForce;
               separationForce = multiplyScalar (calculateSeparation tank i) 0.8
           in addV a1 separationForce)"

text \<open>
  \<open>updateFrogMovement\<close> for the sub-agent at index \<open>i\<close>. In the source
  \<open>frogData.acceleration.multiplyScalar(delta)\<close> scales the stored acceleration in
  place, so the field holds the acceleration times \<open>delta\<close> afterwards. \<open>limitSpeed\<close>
  is the clamp of the velocity to \<open>speed\<close>; \<open>arriveOrFace\<close> is the end of the function,
  from the arrival test on.
\<close>

definition limitSpeed :: "frog_data \<Rightarrow> vec3 \<Rightarrow> vec3" where
  "limitSpeed frogData v1 =
     (if lengthV v1 > frog_data.speed frogData then
        multiplyScalar (normalizeV v1) (frog_data.speed frogData)
      else v1)"

definition arriveOrFace :: "frog_data \<Rightarrow> vec3 \<Rightarrow> frog_data" where
  "arriveOrFace frogData targetPosition =
     (let distanceToTarget = distanceTo (position frogData) targetPosition
      in if distanceToTarget < 5.0 then
           frogData\<lparr>isMoving := False, target := None, frog_data.velocity := Vector3 0 0 0\<rparr>
         else if lengthV (frog_data.velocity frogData) > 0.1 then
           frogData\<lparr>rotation :=
             setY (rotation frogData)
               (atan2 (vx (frog_data.velocity frogData)) (vz (frog_data.velocity frogData)))\<rparr>
         else frogData)"

definition updateFrogMovement :: "tank \<Rightarrow> nat \<Rightarrow> real \<Rightarrow> tank" where
  "updateFrogMovement tank i delta =
     (let frogData = otherFrogs tank ! i
      in case deref tank (target frogData) of
           None \<Rightarrow> tank
         | Some tgt \<Rightarrow>
             let a = multiplyScalar (steeringAcceleration tank i (position tgt)) delta;
                 v2 = limitSpeed frogData (addV (frog_data.velocity frogData) a);
                 displacement = multiplyScalar v2 delta;
                 newPosition = addV (position frogData) displacement;
                 frogData1 =
                   (if \<not> wouldCauseOverlap tank i newPosition then
                      frogData\<lparr>acceleration := a, frog_data.velocity := v2,
                               position := newPosition\<rparr>
                    else
                      frogData\<lparr>acceleration := a,
                               frog_data.velocity := multiplyScalar v2 0.5\<rparr>)
             in tank\<lparr>otherFrogs :=
                      (otherFrogs tank)[i := arriveOrFace frogData1 (position tgt)]\<rparr>)"

text \<open>The body of the \<open>forEach\<close> in \<open>updateAdditionalFrogs\<close>, for the sub-agent at index \<open>i\<close>.\<close>

definition frogTick :: "real \<Rightarrow> tank \<Rightarrow> nat \<Rightarrow> tank" where
  "frogTick delta tank i =
     (let frogData = otherFrogs tank ! i
      in if deref tank (target frogData) \<noteq> None \<and> isMoving frogData then
           updateFrogMovement tank i delta
         else tank)"

definition updateAdditionalFrogs :: "tank \<Rightarrow> real \<Rightarrow> tank" where
  "updateAdditionalFrogs tank delta =
     (if \<not> multiFrogMode tank then tank
      else foldl (frogTick delta) tank [0..<length (otherFrogs tank)])"

definition makeFrogsSwimToFolder :: "tank \<Rightarrow> nat \<Rightarrow> tank" where
  "makeFrogsSwimToFolder tank folder =
     (if \<not> multiFrogMode tank then tank
      else tank\<lparr>otherFrogs :=
             map (\<lambda>frogData. frogData\<lparr>target := Some folder, isMoving := True\<rparr>)
               (otherFrogs tank)\<rparr>)"

text \<open>
  The sub-agent that the \<open>i\<close>-th load callback of \<open>createAdditionalFrogs\<close> pushes to
  \<open>otherFrogs\<close>; the two \<open>Math.random()\<close> draws, for the rotation and for the speed, are
  arguments.
\<close>

definition createdFrog :: "nat \<Rightarrow> real \<Rightarrow> real \<Rightarrow> frog_data" where
  "createdFrog i rndRotation rndSpeed =
     (let angle = (real i / 5) * pi * 2;
          radius = 18 + real i * 6;
          x = cos angle * radius;
          y = 10 + real i * 3;
          z = sin angle * radius
      in \<lparr>position = Vector3 x y z, rotation = Vector3 0 (rndRotation * pi * 2) 0,
          frog_data.velocity = Vector3 0 0 0, acceleration = Vector3 0 0 0, target = None,
          frog_data.speed = 3.0 + rndSpeed * 2.0, maxForce = 2.0, separationRadius = 4.0,
          minSeparation = 1.5, isMoving = False\<rparr>)"

section \<open>ui.js: the selection engine\<close>

text \<open>
  The running best of the loop in \<open>updateObjectSelection\<close> is \<open>None\<close> for the
  initial pair (\<open>null\<close>, \<open>-Infinity\<close>) and \<open>Some (index, score)\<close> afterwards; the two
  variables are only ever assigned together.

  The score of a candidate is \<open>None\<close> where JavaScript yields NaN. For a candidate
  that passed the distance gate this happens exactly when its distance to the avatar is
  zero: then \<open>dotProduct / distance\<close> is \<open>0 / 0\<close>, \<open>Math.max(0, NaN)\<close> is NaN, and so
  is the total. The comparison \<open>totalScore > bestScore\<close> is false for NaN. At a
  nonzero distance the distance gate makes \<open>selectionDistance\<close> positive, so both
  divisions are divisions of real numbers.
\<close>

definition totalScore :: "three \<Rightarrow> tank \<Rightarrow> vec3 \<Rightarrow> world_object \<Rightarrow> real option" where
  "totalScore E tank frogPos object =
     (let selectionDistance' = selectionDistance (config tank);
          distance = distanceTo frogPos (position object);
          heightDifference = vy (position object) - vy frogPos;
          cameraDirection = getWorldDirection E (camera tank);
          frogToObject = subV (position object) frogPos;
          dotProduct = dotV frogToObject cameraDirection
      in if distance = 0 then None
         else
           let distanceScore = (selectionDistance' - distance) / selectionDistance';
               frontScore = max 0 (dotProduct / distance);
               heightScore = (if heightDifference > 0 then min 1.0 (heightDifference / 5)
                              else max (- 2.0) (heightDifference / 2))
           in Some (distanceScore * 0.2 + frontScore * 0.3 + heightScore * 0.5))"

definition passesGates :: "three \<Rightarrow> tank \<Rightarrow> vec3 \<Rightarrow> world_object \<Rightarrow> bool" where
  "passesGates E tank frogPos object =
     (\<not> distanceTo frogPos (position object) > selectionDistance (config tank) \<and>
      \<not> projectZ E (camera tank) (position object) > 1 \<and>
      \<not> vy (position object) - vy frogPos < - 2.0)"

definition selectionStep ::
  "three \<Rightarrow> tank \<Rightarrow> vec3 \<Rightarrow> (nat \<times> real) option \<Rightarrow> nat \<Rightarrow> (nat \<times> real) option" where
  "selectionStep E tank frogPos best index =
     (let object = allObjects tank ! index
      in if distanceTo frogPos (position object) > selectionDistance (config tank) then best
         else if projectZ E (camera tank) (position object) > 1 then best
         else if vy (position object) - vy frogPos < - 2.0 then best
         else
           case totalScore E tank frogPos object of
             None \<Rightarrow> best
           | Some sc \<Rightarrow>
               (case best of
                  None \<Rightarrow> Some (index, sc)
                | Some (bestObject, bestScore) \<Rightarrow>
                    if sc > bestScore then Some (index, sc) else best))"

definition bestObject :: "three \<Rightarrow> tank \<Rightarrow> vec3 \<Rightarrow> nat option" where
  "bestObject E tank frogPos =
     map_option fst (foldl (selectionStep E tank frogPos) None [0..<length (allObjects tank)])"

definition updateObjectSelection :: "three \<Rightarrow> tank \<Rightarrow> tank" where
  "updateObjectSelection E tank =
     (case frog tank of
        None \<Rightarrow> tank
      | Some fr \<Rightarrow>
          let best = bestObject E tank (position fr)
          in if best \<noteq> selectedObject tank then
               let tank1 = tank\<lparr>selectedObject := best\<rparr>
               in (case best of
                     None \<Rightarrow> tank1
                   | Some ob \<Rightarrow> makeFrogsSwimToFolder tank1 ob)
             else tank)"

section \<open>scene.js and objects.js: the world objects and collisions\<close>

text \<open>
  The loop over \<open>allObjects\<close> in \<open>updateEnvironment\<close>; the rest of that function is
  decoration. \<open>floatObject\<close> is the body of the loop.
\<close>

definition floatObject :: "config \<Rightarrow> real \<Rightarrow> nat \<Rightarrow> world_object \<Rightarrow> world_object" where
  "floatObject cfg swimTime' index object =
     (let tankWidth = config.width cfg;
          tankFloorY = floorY cfg;
          tankCeilingY = ceilingY cfg;
          r = rotation object;
          r1 = setY r (vy r + (0.001 + real index * 0.0002));
          p = position object;
          p1 = setY p (vy p + sin (swimTime' + real index) * 0.01);
          p2 = setX p1 (max (- tankWidth) (min tankWidth (vx p1)));
          p3 = setZ p2 (max (- tankWidth) (min tankWidth (vz p2)));
          p4 = setY p3 (max (tankFloorY + 2) (min (tankCeilingY - 2) (vy p3)))
      in object\<lparr>position := p4, rotation := r1\<rparr>)"

definition updateEnvironment :: "tank \<Rightarrow> tank" where
  "updateEnvironment tank =
     tank\<lparr>allObjects :=
            map (\<lambda>(index, object). floatObject (config tank) (swimTime tank) index object)
              (enumerate 0 (allObjects tank))\<rparr>"

definition checkCollisions :: "tank \<Rightarrow> tank" where
  "checkCollisions tank =
     (case frog tank of
        None \<Rightarrow> tank
      | Some fr \<Rightarrow>
          let frogPos = position fr;
              collisionDistance' = collisionDistance (config tank)
          in tank\<lparr>velocity :=
               foldl
                 (\<lambda>v object.
                    let distance = distanceTo frogPos (position object)
                    in if distance < collisionDistance' \<and> distance > 0.1 then
                         let pushStrength = (collisionDistance' - distance) / collisionDistance';
                             maxPushForce = 0.05;
                             pushForce = pushStrength * maxPushForce;
                             pushDirection =
                               multiplyScalar (normalizeV (subV frogPos (position object))) pushForce
                         in multiplyScalar (addV v pushDirection) 0.99
                       else v)
                 (velocity tank) (allObjects tank)\<rparr>)"

section \<open>sidescroller.js\<close>

datatype error = TypeError

definition gravity :: real where "gravity = - 30"
definition jumpForce :: real where "jumpForce = 12"
definition moveSpeed :: real where "moveSpeed = 8"
definition groundY :: real where "groundY = - 5"
definition platformHeight :: real where "platformHeight = 0.5"
definition cameraHeight :: real where "cameraHeight = 5"
definition cameraDistance :: real where "cameraDistance = 20"
definition worldWidth :: real where "worldWidth = 100"
definition playerWidth :: real where "playerWidth = 1"

definition platformPositions :: "(real \<times> real) list" where
  "platformPositions =
     [(- 35, 1), (- 25, 3), (- 15, 0), (- 5, 4), (8, 1), (18, 5), (28, 2), (38, 4), (48, 1),
      (- 45, 3)]"

text \<open>
  \<open>enterSideScrollerMode\<close>: the flag, the folder, the camera, the player and the
  platforms. The platform widths are \<open>6 + Math.random() * 4\<close>; the random draws are
  the argument \<open>rs\<close>.
\<close>

definition initialPlayer :: player where
  "initialPlayer =
     \<lparr>position = Vector3 0 groundY 0, rotation = Vector3 0 0 0,
      player.velocity = Vector3 0 0 0, isGrounded = True, jumpCount = 0, maxJumps = 2,
      jumpPressed = False, isOnGround = False, droppingThrough = False\<rparr>"

definition enterSideScrollerMode :: "tank \<Rightarrow> nat \<Rightarrow> real list \<Rightarrow> tank" where
  "enterSideScrollerMode tank folder rs =
     tank\<lparr>sideScrollerMode := True,
          currentFolder := Some folder,
          sideScrollerCamera :=
            Some \<lparr>position = Vector3 0 cameraHeight cameraDistance, rotation = Vector3 0 0 0\<rparr>,
          sideScrollerPlayer := Some initialPlayer,
          sideScrollerPlatforms :=
            \<lparr>position = Vector3 0 (groundY - 1) 0, rotation = Vector3 0 0 0, isGround = True,
             platform.width = worldWidth\<rparr> #
            map (\<lambda>((x, y), r).
                   \<lparr>position = Vector3 x (groundY + y + 3) 0, rotation = Vector3 0 0 0,
                    isGround = False, platform.width = 6 + r * 4\<rparr>)
              (zip platformPositions rs)\<rparr>"

definition exitSideScrollerMode :: "tank \<Rightarrow> tank" where
  "exitSideScrollerMode tank =
     tank\<lparr>sideScrollerMode := False, currentFolder := None, sideScrollerCamera := None,
          sideScrollerPlayer := None, sideScrollerPlatforms := []\<rparr>"

text \<open>
  \<open>checkPlatformCollisions\<close>. \<open>platformStep\<close> is the body of its loop over the
  platforms; the player's bottom, left and right are read once, before the loop.
\<close>

definition platformStep :: "real \<Rightarrow> real \<Rightarrow> real \<Rightarrow> player \<Rightarrow> platform \<Rightarrow> player" where
  "platformStep playerBottom playerLeft playerRight q plat =
     (if isGround plat then q
      else
        let platTop = vy (position plat) + platformHeight / 2;
            platWidth = platform.width plat;
            platLeft = vx (position plat) - platWidth / 2;
            platRight = vx (position plat) + platWidth / 2
        in if vy (player.velocity q) \<le> 0 \<and> playerRight > platLeft \<and>
              playerLeft < platRight \<and> playerBottom \<le> platTop + 0.5 \<and>
              playerBottom \<ge> platTop - 1.5 then
             q\<lparr>position := setY (position q) platTop,
               player.velocity := setY (player.velocity q) 0,
               isGrounded := True, jumpCount := 0\<rparr>
           else q)"

definition groundCollision :: "player \<Rightarrow> player" where
  "groundCollision pl1 =
     (if vy (position pl1) < groundY then
        pl1\<lparr>position := setY (position pl1) groundY,
             player.velocity := setY (player.velocity pl1) 0,
             isGrounded := True, isOnGround := True, jumpCount := 0\<rparr>
      else pl1)"

definition checkPlatformCollisions :: "platform list \<Rightarrow> player \<Rightarrow> player" where
  "checkPlatformCollisions platforms pl =
     (let playerBottom = vy (position pl);
          playerLeft = vx (position pl) - playerWidth / 2;
          playerRight = vx (position pl) + playerWidth / 2;
          pl0 = pl\<lparr>isGrounded := False, isOnGround := False\<rparr>;
          pl1 = (if \<not> droppingThrough pl0 then
                   foldl (platformStep playerBottom playerLeft playerRight) pl0 platforms
                 else pl0)
      in groundCollision pl1)"

text \<open>The steps of \<open>updateSideScroller\<close> on the player, in the order of the source.\<close>

definition horizontalStep :: "input_flags \<Rightarrow> player \<Rightarrow> player" where
  "horizontalStep input pl =
     (let v0 = setX (player.velocity pl) 0;
          v1 = (if input_flags.left input then setX v0 (- moveSpeed) else v0);
          v2 = (if input_flags.right input then setX v1 moveSpeed else v1)
      in pl\<lparr>player.velocity := v2\<rparr>)"

definition jumpTriggered :: "input_flags \<Rightarrow> player \<Rightarrow> bool" where
  "jumpTriggered input pl =
     (jump input \<and> \<not> jumpPressed pl \<and> \<not> input_flags.down input \<and> jumpCount pl < maxJumps pl)"

definition jumpStep :: "input_flags \<Rightarrow> player \<Rightarrow> player" where
  "jumpStep input pl =
     (let pl1 = (if jumpTriggered input pl then
                   pl\<lparr>player.velocity := setY (player.velocity pl) jumpForce,
                      isGrounded := False, jumpCount := jumpCount pl + 1, jumpPressed := True\<rparr>
                 else pl)
      in if \<not> jump input then pl1\<lparr>jumpPressed := False\<rparr> else pl1)"

definition dropStep :: "input_flags \<Rightarrow> player \<Rightarrow> player" where
  "dropStep input pl =
     (let pl1 = (if input_flags.down input \<and> isGrounded pl \<and> \<not> isOnGround pl then
                   pl\<lparr>position := setY (position pl) (vy (position pl) - 0.5),
                      isGrounded := False, droppingThrough := True\<rparr>
                 else pl)
      in if \<not> input_flags.down input then pl1\<lparr>droppingThrough := False\<rparr> else pl1)"

definition gravityStep :: "real \<Rightarrow> player \<Rightarrow> player" where
  "gravityStep delta pl =
     (let pl1 = (if \<not> isGrounded pl then
                   pl\<lparr>player.velocity :=
                        setY (player.velocity pl) (vy (player.velocity pl) + gravity * delta)\<rparr>
                 else pl)
      in pl1\<lparr>position := addV (position pl1) (multiplyScalar (player.velocity pl1) delta)\<rparr>)"

definition faceStep :: "player \<Rightarrow> player" where
  "faceStep pl =
     (if vx (player.velocity pl) > 0.1 then pl\<lparr>rotation := setY (rotation pl) (pi / 2)\<rparr>
      else if vx (player.velocity pl) < - 0.1 then pl\<lparr>rotation := setY (rotation pl) (- (pi / 2))\<rparr>
      else pl)"

definition updatePlayer :: "input_flags \<Rightarrow> platform list \<Rightarrow> real \<Rightarrow> player \<Rightarrow> player" where
  "updatePlayer input platforms delta pl =
     faceStep
       (checkPlatformCollisions platforms
          (gravityStep delta (dropStep input (jumpStep input (horizontalStep input pl)))))"

definition updateSideScrollerCamera :: "player \<Rightarrow> object3d \<Rightarrow> object3d" where
  "updateSideScrollerCamera pl cam =
     (let targetX = vx (position pl);
          c1 = setX (position cam) (vx (position cam) + (targetX - vx (position cam)) * 0.1);
          targetY = max (vy (position pl) + 2) cameraHeight;
          c2 = setY c1 (vy c1 + (targetY - vy c1) * 0.05)
      in cam\<lparr>position := c2\<rparr>)"

text \<open>
  \<open>updateSideScroller\<close>. Dereferencing a \<open>null\<close> player or camera throws a
  \<open>TypeError\<close>. The player's mesh is the player's \<open>rotation\<close>; clouds, files and the
  file hint are decoration of the side-scroller scene.
\<close>

definition updateSideScroller :: "tank \<Rightarrow> real \<Rightarrow> error + tank" where
  "updateSideScroller tank delta =
     (if \<not> sideScrollerMode tank then Inr tank
      else
        case sideScrollerPlayer tank of
          None \<Rightarrow> Inl TypeError
        | Some pl \<Rightarrow>
            let pl1 = updatePlayer (sideScrollerInput tank) (sideScrollerPlatforms tank) delta pl
            in (case sideScrollerCamera tank of
                  None \<Rightarrow> Inl TypeError
                | Some cam \<Rightarrow>
                    Inr (tank\<lparr>sideScrollerPlayer := Some pl1,
                              sideScrollerCamera := Some (updateSideScrollerCamera pl1 cam)\<rparr>)))"

section \<open>main.js: the animation frame\<close>

text \<open>
  What one frame reads from outside: the clock's \<open>getDelta()\<close>, \<open>Date.now()\<close> and
  \<open>Math.random()\<close>.
\<close>

record frame =
  frameDelta :: real
  frameNow :: real
  frameRandom :: real

text \<open>
  \<open>animate\<close> returns the calls it made, in order, beside the new state. The update
  functions that only touch decoration (\<open>updateBubbleTrail\<close>,
  \<open>updateObjectBubbleStreams\<close>, \<open>checkObjectVisibility\<close>) and the renderer leave the
  modelled state as it is.
\<close>

datatype call =
  UpdateSideScroller | RenderSideScroller
  | UpdateMovement | UpdateAutopilot | UpdateFrogAnimation | UpdateAdditionalFrogs
  | UpdateCameraPosition | UpdateBubbleTrail | UpdateObjectSelection | UpdateEnvironment
  | UpdateObjectBubbleStreams | CheckCollisions | CheckObjectVisibility | RenderScene

definition openWaterChain :: "three \<Rightarrow> frame \<Rightarrow> (call \<times> (tank \<Rightarrow> tank)) list" where
  "openWaterChain E fr =
     [(UpdateMovement, \<lambda>tank. updateMovement E tank (frameDelta fr)),
      (UpdateAutopilot, \<lambda>tank. updateAutopilot E (frameNow fr) (frameRandom fr) tank (frameDelta fr)),
      (UpdateFrogAnimation, \<lambda>tank. updateFrogAnimation tank (frameDelta fr)),
      (UpdateAdditionalFrogs, \<lambda>tank. updateAdditionalFrogs tank (frameDelta fr)),
      (UpdateCameraPosition, \<lambda>tank. updateCameraPosition E tank),
      (UpdateBubbleTrail, \<lambda>tank. tank),
      (UpdateObjectSelection, \<lambda>tank. updateObjectSelection E tank),
      (UpdateEnvironment, \<lambda>tank. updateEnvironment tank),
      (UpdateObjectBubbleStreams, \<lambda>tank. tank),
      (CheckCollisions, \<lambda>tank. checkCollisions tank),
      (CheckObjectVisibility, \<lambda>tank. tank),
      (RenderScene, \<lambda>tank. tank)]"

definition runChain :: "(call \<times> (tank \<Rightarrow> tank)) list \<Rightarrow> tank \<Rightarrow> call list \<times> tank" where
  "runChain chain tank = foldl (\<lambda>(calls, tk) (c, f). (calls @ [c], f tk)) ([], tank) chain"

definition animate :: "three \<Rightarrow> frame \<Rightarrow> tank \<Rightarrow> call list \<times> (error + tank)" where
  "animate E fr tank =
     (if sideScrollerMode tank then
        (case updateSideScroller tank (frameDelta fr) of
           Inl e \<Rightarrow> ([UpdateSideScroller], Inl e)
         | Inr tank1 \<Rightarrow> ([UpdateSideScroller, RenderSideScroller], Inr tank1))
      else
        (let r = runChain (openWaterChain E fr) tank in (fst r, Inr (snd r))))"

text \<open>The state after the open-water calls of one frame, written as one composition.\<close>

definition openWaterUpdate :: "three \<Rightarrow> frame \<Rightarrow> tank \<Rightarrow> tank" where
  "openWaterUpdate E fr tank =
     checkCollisions
       (updateEnvironment
          (updateObjectSelection E
             (updateCameraPosition E
                (updateAdditionalFrogs
                   (updateFrogAnimation
                      (updateAutopilot E (frameNow fr) (frameRandom fr)
                         (updateMovement E tank (frameDelta fr)) (frameDelta fr))
                      (frameDelta fr))
                   (frameDelta fr)))))"

text \<open>A run of frames; it stops at the first frame that throws.\<close>

fun frames :: "three \<Rightarrow> frame list \<Rightarrow> tank \<Rightarrow> error + tank" where
  "frames E [] tank = Inr tank"
| "frames E (fr # frs) tank =
     (case snd (animate E fr tank) of
        Inl e \<Rightarrow> Inl e
      | Inr tank1 \<Rightarrow> frames E frs tank1)"

section \<open>controls.js: the dash key, and the frame clock\<close>

text \<open>
  The keydown handler for the \<open>Space\<close> key. In side-scroller mode it sets the jump
  intent and returns. In open water it first resets the autopilot timer, if the
  autopilot state exists, and then requests a dash. \<open>now\<close> is \<open>Date.now()\<close>.
\<close>

definition resetAutopilotTimer :: "real \<Rightarrow> tank \<Rightarrow> tank" where
  "resetAutopilotTimer now tank =
     (case autopilot tank of
        None \<Rightarrow> tank
      | Some ap \<Rightarrow> tank\<lparr>autopilot := Some (ap\<lparr>lastInputTime := now, active := False\<rparr>)\<rparr>)"

definition onKeyDownSpace :: "three \<Rightarrow> real \<Rightarrow> tank \<Rightarrow> tank" where
  "onKeyDownSpace E now tank =
     (if sideScrollerMode tank then
        tank\<lparr>sideScrollerInput := (sideScrollerInput tank)\<lparr>jump := True\<rparr>\<rparr>
      else performDash E (resetAutopilotTimer now tank))"

text \<open>
  A session as the browser runs it: presses of \<open>Space\<close> and animation frames, each at
  its time in seconds. \<open>animate\<close> takes its \<open>delta\<close> from \<open>clock.getDelta()\<close>, the
  time since the previous call of \<open>getDelta\<close>, which is the time since the previous
  frame; \<open>oldTime\<close> is the time of that frame. A press carries its time and
  \<open>Date.now()\<close>; a frame carries its time, \<open>Date.now()\<close> and \<open>Math.random()\<close>. A
  key handler runs between two frames, so the \<open>delta\<close> of the first frame after a
  press covers the time from the frame before the press.
\<close>

record session =
  sessionTank :: tank
  oldTime :: real

datatype event =
  isSpaceDown: SpaceDown (eventTime: real) (eventNow: real)
| isAnimationFrame: AnimationFrame (eventTime: real) (eventNow: real) (eventRandom: real)

definition handleEvent :: "three \<Rightarrow> event \<Rightarrow> session \<Rightarrow> error + session" where
  "handleEvent E ev s =
     (case ev of
        SpaceDown t now \<Rightarrow> Inr (s\<lparr>sessionTank := onKeyDownSpace E now (sessionTank s)\<rparr>)
      | AnimationFrame t now rnd \<Rightarrow>
          (case snd (animate E \<lparr>frameDelta = t - oldTime s, frameNow = now, frameRandom = rnd\<rparr>
                       (sessionTank s)) of
             Inl e \<Rightarrow> Inl e
           | Inr tank1 \<Rightarrow> Inr \<lparr>sessionTank = tank1, oldTime = t\<rparr>))"

text \<open>A run of events; like \<open>frames\<close>, it stops at the first frame that throws.\<close>

fun runEvents :: "three \<Rightarrow> event list \<Rightarrow> session \<Rightarrow> error + session" where
  "runEvents E [] s = Inr s"
| "runEvents E (ev # evs) s =
     (case handleEvent E ev s of
        Inl e \<Rightarrow> Inl e
      | Inr s1 \<Rightarrow> runEvents E evs s1)"

section \<open>Concrete states\<close>

text \<open>
  The state the constructor of \<open>SwimmingTank\<close> and \<open>createScene\<close> set up, before the
  avatar's model has loaded, and the same state once it has.
\<close>

definition initialConfig :: config where
  "initialConfig =
     \<lparr>config.speed = 8.0, friction = 6.0, verticalSpeed = 6.0, strokeSpeed = 4,
      floatSpeed = 0.5, collisionDistance = 2.0, selectionDistance = 4.0,
      config.width = 30, floorY = - 10, ceilingY = 15\<rparr>"

definition noMovement :: movement_flags where
  "noMovement =
     \<lparr>forward = False, backward = False, movement_flags.left = False,
      movement_flags.right = False, up = False, movement_flags.down = False\<rparr>"

definition noInput :: input_flags where
  "noInput =
     \<lparr>input_flags.left = False, input_flags.right = False, jump = False,
      input_flags.down = False\<rparr>"

definition initialTank :: tank where
  "initialTank =
     \<lparr>frog = None, frogPosition = Vector3 0 0 0, velocity = Vector3 0 0 0,
      direction = Vector3 0 0 0, movement = noMovement,
      dashCooldown = 0, dashForce = 15.0, swimTime = 0,
      camera = \<lparr>position = Vector3 0 3 6, rotation = Vector3 0 0 0\<rparr>,
      cameraOffset = Vector3 0 7 6, euler = Vector3 0 0 0, mouseX = 0, mouseY = 0,
      config = initialConfig, allObjects = [], selectedObject = None, autopilot = None,
      multiFrogMode = False, otherFrogs = [], sideScrollerMode = False,
      sideScrollerPlayer = None, sideScrollerInput = noInput,
      sideScrollerPlatforms = [], sideScrollerCamera = None, currentFolder = None\<rparr>"

definition loadedTank :: tank where
  "loadedTank =
     initialTank\<lparr>frog := Some \<lparr>position = Vector3 0 0 0, rotation = Vector3 0 pi 0\<rparr>\<rparr>"

text \<open>
  Rotating a vector by the orientation of a node with Euler angles \<open>r\<close> (three.js's
  default order XYZ): the rotation matrix that three.js builds from the angles, applied
  to \<open>v\<close>. A node turned by \<open>pi\<close> about the y axis, as the avatar is when it loads,
  maps the forward vector \<open>(0, 0, 1)\<close> to \<open>(0, 0, -1)\<close>.
\<close>

definition rotateEuler :: "vec3 \<Rightarrow> vec3 \<Rightarrow> vec3" where
  "rotateEuler r v =
     (let a = cos (vx r); b = sin (vx r);
          c = cos (vy r); d = sin (vy r);
          e = cos (vz r); f = sin (vz r)
      in Vector3 (c * e * vx v - c * f * vy v + d * vz v)
           ((a * f + b * e * d) * vx v + (a * e - b * f * d) * vy v - b * c * vz v)
           ((b * f - a * e * d) * vx v + (b * e + a * f * d) * vy v + a * c * vz v))"

text \<open>
  An instance of the library parameters for evaluating the model at concrete inputs:
  vectors are rotated by a node's Euler angles, \<open>lookAt\<close> leaves a camera unrotated,
  every point projects to depth 0, and the camera looks down the negative z axis.
\<close>

definition plainThree :: three where
  "plainThree =
     \<lparr>applyQuaternion = rotateEuler, lookAt = (\<lambda>p t. Vector3 0 0 0),
      projectZ = (\<lambda>c p. 0), getWorldDirection = (\<lambda>c. Vector3 0 0 (- 1))\<rparr>"

definition frame60 :: frame where
  "frame60 = \<lparr>frameDelta = 1 / 60, frameNow = 1000, frameRandom = 0\<rparr>"

text \<open>
  Which of the two per-frame update paths a frame's calls belong to: the side-scroller
  update, or any of the eleven update calls of the open-water chain.
\<close>

definition openWaterCalls :: "call list" where
  "openWaterCalls =
     [UpdateMovement, UpdateAutopilot, UpdateFrogAnimation, UpdateAdditionalFrogs,
      UpdateCameraPosition, UpdateBubbleTrail, UpdateObjectSelection, UpdateEnvironment,
      UpdateObjectBubbleStreams, CheckCollisions, CheckObjectVisibility]"

definition ranSideScroller :: "call list \<Rightarrow> bool" where
  "ranSideScroller calls = (UpdateSideScroller \<in> set calls)"

definition ranOpenWater :: "call list \<Rightarrow> bool" where
  "ranOpenWater calls = list_ex (\<lambda>c. c \<in> set calls) openWaterCalls"

text \<open>A folder in the water, and the state after entering it from \<open>loadedTank\<close>.\<close>

definition sampleFolder :: world_object where
  "sampleFolder = \<lparr>position = Vector3 0 5 0, rotation = Vector3 0 0 0, otype = Folder\<rparr>"

definition folderTank :: tank where
  "folderTank =
     enterSideScrollerMode (loadedTank\<lparr>allObjects := [sampleFolder]\<rparr>) 0
       [0.5, 0.5, 0.5, 0.5, 0.5, 0.5, 0.5, 0.5, 0.5, 0.5]"

text \<open>
  A sub-agent as \<open>createAdditionalFrogs\<close> builds it, at a given position and with the
  random part of its speed zero; and a flock of three of them seeking \<open>sampleFolder\<close>:
  the first two are one unit apart, the third is far from everything.
\<close>

definition subAgent :: "vec3 \<Rightarrow> frog_data" where
  "subAgent p =
     \<lparr>position = p, rotation = Vector3 0 0 0, frog_data.velocity = Vector3 0 0 0,
      acceleration = Vector3 0 0 0, target = None, frog_data.speed = 3, maxForce = 2,
      separationRadius = 4, minSeparation = 1.5, isMoving = False\<rparr>"

definition flockTank :: tank where
  "flockTank =
     makeFrogsSwimToFolder
       (loadedTank\<lparr>allObjects := [sampleFolder], multiFrogMode := True,
                   otherFrogs := [subAgent (Vector3 0 10 0), subAgent (Vector3 0 11 0),
                                  subAgent (Vector3 0 20 0)]\<rparr>)
       0"

text \<open>
  A run of side-scroller ticks on the player, each with its sampled input and its
  \<open>delta\<close>; and two inputs: jump and down held together, and jump held alone.
\<close>

definition playerRun :: "platform list \<Rightarrow> (input_flags \<times> real) list \<Rightarrow> player \<Rightarrow> player" where
  "playerRun platforms ticks pl =
     foldl (\<lambda>q (input, delta). updatePlayer input platforms delta q) pl ticks"

definition jumpAndDown :: input_flags where
  "jumpAndDown =
     \<lparr>input_flags.left = False, input_flags.right = False, jump = True,
      input_flags.down = True\<rparr>"

definition jumpOnly :: input_flags where
  "jumpOnly =
     \<lparr>input_flags.left = False, input_flags.right = False, jump = True,
      input_flags.down = False\<rparr>"

text \<open>
  The gates and the score in the specification's words, for comparison with
  \<open>passesGates\<close> and \<open>totalScore\<close>.
\<close>

definition specGates :: "three \<Rightarrow> tank \<Rightarrow> vec3 \<Rightarrow> world_object \<Rightarrow> bool" where
  "specGates E tank frogPos object =
     (distanceTo frogPos (position object) \<le> selectionDistance (config tank) \<and>
      projectZ E (camera tank) (position object) \<le> 1 \<and>
      vy frogPos - vy (position object) \<le> 2)"

definition specScore :: "three \<Rightarrow> tank \<Rightarrow> vec3 \<Rightarrow> world_object \<Rightarrow> real" where
  "specScore E tank frogPos object =
     (let distance = distanceTo frogPos (position object);
          heightDiff = vy (position object) - vy frogPos;
          distanceScore =
            (selectionDistance (config tank) - distance) / selectionDistance (config tank);
          frontScore =
            max 0 (dotV (subV (position object) frogPos) (getWorldDirection E (camera tank))
                   / distance);
          heightScore = (if heightDiff > 0 then min 1 (heightDiff / 5)
                         else max (- 2) (heightDiff / 2))
      in 0.2 * distanceScore + 0.3 * frontScore + 0.5 * heightScore)"

text \<open>
  Four objects ahead of the avatar at the origin: one near at the avatar's height, two
  at one place above and ahead, and one beyond the selection distance; and a tank whose
  only object sits exactly where the avatar is.
\<close>

definition selectionTank :: tank where
  "selectionTank =
     loadedTank\<lparr>allObjects :=
       [\<lparr>position = Vector3 0 0 (- 2), rotation = Vector3 0 0 0, otype = Txt\<rparr>,
        \<lparr>position = Vector3 0 (12 / 5) (- 16 / 5), rotation = Vector3 0 0 0, otype = Folder\<rparr>,
        \<lparr>position = Vector3 0 (12 / 5) (- 16 / 5), rotation = Vector3 0 0 0, otype = Txt\<rparr>,
        \<lparr>position = Vector3 0 0 (- 9), rotation = Vector3 0 0 0, otype = Txt\<rparr>]\<rparr>"

definition coincidentTank :: tank where
  "coincidentTank =
     loadedTank\<lparr>allObjects :=
       [\<lparr>position = Vector3 0 0 0, rotation = Vector3 0 0 0, otype = Txt\<rparr>]\<rparr>"

text \<open>The avatar at the ceiling of the tank, with the up intent pressed.\<close>

definition ceilingTank :: tank where
  "ceilingTank =
     initialTank\<lparr>frog := Some \<lparr>position = Vector3 0 15 0, rotation = Vector3 0 pi 0\<rparr>,
                  frogPosition := Vector3 0 15 0, movement := noMovement\<lparr>up := True\<rparr>\<rparr>"

text \<open>
  Separation among the sub-agents: every two of them are at least \<open>m\<close> apart, and
  all of them carry \<open>m\<close> as their \<open>minSeparation\<close>.
\<close>

definition separated :: "real \<Rightarrow> frog_data list \<Rightarrow> bool" where
  "separated m fs =
     list_all
       (\<lambda>i. list_all
              (\<lambda>j. i = j \<or> m \<le> distanceTo (position (fs ! i)) (position (fs ! j)))
              [0..<length fs])
       [0..<length fs]"

definition uniformSeparation :: "real \<Rightarrow> frog_data list \<Rightarrow> bool" where
  "uniformSeparation m fs = list_all (\<lambda>f. minSeparation f = m) fs"

text \<open>
  Flocking is on, and one sub-agent rests one and a half units ahead of the avatar: the
  avatar, turned by \<open>pi\<close> about the y axis, faces the negative z axis. The avatar has
  just dashed towards the sub-agent. And a frame of a tenth of a second.
\<close>

definition dashTank :: tank where
  "dashTank =
     performDash plainThree
       (loadedTank\<lparr>multiFrogMode := True,
                   otherFrogs := [subAgent (Vector3 0 0 (- (3 / 2)))]\<rparr>)"

definition frame10 :: frame where
  "frame10 = \<lparr>frameDelta = 1 / 10, frameNow = 1000, frameRandom = 0\<rparr>"

text \<open>A flock of three sub-agents, pairwise at least three units apart, seeking a folder.\<close>

definition spreadTank :: tank where
  "spreadTank =
     makeFrogsSwimToFolder
       (loadedTank\<lparr>allObjects := [sampleFolder], multiFrogMode := True,
                   otherFrogs := [subAgent (Vector3 0 10 0), subAgent (Vector3 0 13 0),
                                  subAgent (Vector3 0 20 0)]\<rparr>)
       0"

text \<open>
  A session at five to six frames a second, the avatar at rest in open water. \<open>Space\<close>
  is pressed 0.18 s after a frame and shortly before the next, and pressed again 0.39 s
  later, after three frames of 0.1875 s each.
\<close>

definition dashSession :: session where
  "dashSession = \<lparr>sessionTank = loadedTank, oldTime = 0\<rparr>"

definition slowFrames :: "event list" where
  "slowFrames =
     [SpaceDown (9 / 50) 180, AnimationFrame (3 / 16) 188 0, AnimationFrame (3 / 8) 375 0,
      AnimationFrame (9 / 16) 563 0]"

section \<open>Vectors and lists\<close>

lemma addV_zero_left: "addV (Vector3 0 0 0) a = a"
  by (cases a) (simp add: addV_def)

lemma distanceTo_commute: "distanceTo a b = distanceTo b a"
proof -
  have "distanceToSquared a b = distanceToSquared b a"
    by (simp add: distanceToSquared_def Let_def algebra_simps)
  then show ?thesis by (simp add: distanceTo_def)
qed

lemma lengthV_z: "lengthV (Vector3 0 0 z) = \<bar>z\<bar>"
  by (simp add: lengthV_def lengthSq_def)

lemma distanceTo_y: "distanceTo (Vector3 0 a 0) (Vector3 0 b 0) = \<bar>a - b\<bar>"
  by (simp add: distanceTo_def distanceToSquared_def Let_def)

lemma distanceTo_z: "distanceTo (Vector3 0 0 a) (Vector3 0 0 b) = \<bar>a - b\<bar>"
  by (simp add: distanceTo_def distanceToSquared_def Let_def)

lemmas vec_eval = addV_def subV_def multiplyScalar_def divideScalar_def dotV_def lengthSq_def
  lengthV_def normalizeV_def clampLength_def distanceToSquared_def distanceTo_def lerpV_def
  setX_def setY_def setZ_def real_sqrt_divide

lemma rotateEuler_zero: "rotateEuler (Vector3 0 0 0) v = v"
  by (cases v) (simp add: rotateEuler_def)

lemma rotateEuler_yaw_pi: "rotateEuler (Vector3 0 pi 0) (Vector3 x y z) = Vector3 (- x) y (- z)"
  by (simp add: rotateEuler_def)

lemma upt3: "[0..<Suc (Suc (Suc 0))] = [0, Suc 0, Suc (Suc 0)]"
  by (simp add: upt_rec)

lemma less4: "(i::nat) < 4 \<longleftrightarrow> i = 0 \<or> i = 1 \<or> i = 2 \<or> i = 3"
  by auto

section \<open>The animation frame\<close>

lemma runChain_calls_aux: "fst (foldl (\<lambda>(calls, tk) (c, f). (calls @ [c], f tk)) (l0, tank) chain) = l0 @ map fst chain"
  by (induction chain arbitrary: l0 tank) (auto split: prod.splits)

lemma runChain_calls: "fst (runChain chain tank) = map fst chain"
  by (simp add: runChain_def runChain_calls_aux)

lemma runChain_state_aux: "snd (foldl (\<lambda>(calls, tk) (c, f). (calls @ [c], f tk)) (l0, tank) chain) = foldl (\<lambda>tk cf. snd cf tk) tank chain"
  by (induction chain arbitrary: l0 tank) (auto split: prod.splits)

lemma runChain_state: "snd (runChain chain tank) = foldl (\<lambda>tk cf. snd cf tk) tank chain"
  by (simp add: runChain_def runChain_state_aux)

lemma runChain_openWater: "snd (runChain (openWaterChain E fr) tank) = openWaterUpdate E fr tank"
  by (simp add: runChain_state openWaterChain_def openWaterUpdate_def)

section \<open>What the open-water updates leave alone\<close>

lemma dashCooldown_updateMovement: "dashCooldown (updateMovement E tank delta) = (if frog tank \<noteq> None \<and> dashCooldown tank > 0 then dashCooldown tank - delta else dashCooldown tank)"
  by (simp add: updateMovement_def Let_def split: option.splits)

lemma dashCooldown_updateAutopilot: "dashCooldown (updateAutopilot E now rnd tank delta) = dashCooldown tank"
  by (simp add: updateAutopilot_def realignCamera_def Let_def split: option.splits)

lemma dashCooldown_updateFrogAnimation: "dashCooldown (updateFrogAnimation tank delta) = dashCooldown tank"
  by (simp add: updateFrogAnimation_def Let_def split: option.splits)

lemma dashCooldown_updateFrogMovement: "dashCooldown (updateFrogMovement tank i delta) = dashCooldown tank"
  by (simp add: updateFrogMovement_def Let_def split: option.splits)

lemma dashCooldown_frogTick: "dashCooldown (frogTick delta tank i) = dashCooldown tank"
  by (simp add: frogTick_def Let_def dashCooldown_updateFrogMovement)

lemma dashCooldown_frogTick_fold: "dashCooldown (foldl (frogTick delta) tank is) = dashCooldown tank"
  by (induction "is" arbitrary: tank) (simp_all add: dashCooldown_frogTick)

lemma dashCooldown_updateAdditionalFrogs: "dashCooldown (updateAdditionalFrogs tank delta) = dashCooldown tank"
  by (simp add: updateAdditionalFrogs_def dashCooldown_frogTick_fold)

lemma dashCooldown_updateCameraPosition: "dashCooldown (updateCameraPosition E tank) = dashCooldown tank"
  by (simp add: updateCameraPosition_def Let_def split: option.splits)

lemma dashCooldown_updateObjectSelection: "dashCooldown (updateObjectSelection E tank) = dashCooldown tank"
  by (simp add: updateObjectSelection_def makeFrogsSwimToFolder_def Let_def split: option.splits)

lemma dashCooldown_updateEnvironment: "dashCooldown (updateEnvironment tank) = dashCooldown tank"
  by (simp add: updateEnvironment_def)

lemma dashCooldown_checkCollisions: "dashCooldown (checkCollisions tank) = dashCooldown tank"
  by (simp add: checkCollisions_def Let_def split: option.splits)

lemma dashCooldown_openWaterUpdate: "dashCooldown (openWaterUpdate E fr tank) = (if frog tank \<noteq> None \<and> dashCooldown tank > 0 then dashCooldown tank - frameDelta fr else dashCooldown tank)"
  by (simp add: openWaterUpdate_def dashCooldown_checkCollisions dashCooldown_updateEnvironment dashCooldown_updateObjectSelection dashCooldown_updateCameraPosition dashCooldown_updateAdditionalFrogs dashCooldown_updateFrogAnimation dashCooldown_updateAutopilot dashCooldown_updateMovement)

lemma dashCooldown_updateSideScroller: "updateSideScroller tank delta = Inr tank1 \<Longrightarrow> dashCooldown tank1 = dashCooldown tank"
  by (auto simp add: updateSideScroller_def Let_def split: if_splits option.splits)

lemma dashCooldown_animate: "snd (animate E fr tank) = Inr tank1 \<Longrightarrow> 0 \<le> frameDelta fr \<Longrightarrow> dashCooldown tank1 \<ge> dashCooldown tank - frameDelta fr"
  by (auto simp add: animate_def runChain_openWater dashCooldown_openWaterUpdate Let_def dest: dashCooldown_updateSideScroller split: if_splits sum.splits)

lemma dashCooldown_frames: "\<forall>f\<in>set frs. 0 \<le> frameDelta f \<Longrightarrow> frames E frs tank = Inr tank1 \<Longrightarrow> dashCooldown tank1 \<ge> dashCooldown tank - sum_list (map frameDelta frs)"
proof (induction frs arbitrary: tank)
  case Nil
  then show ?case by simp
next
  case (Cons fr frs)
  from Cons.prems(2) obtain tk where a: "snd (animate E fr tank) = Inr tk" and b: "frames E frs tk = Inr tank1"
    by (auto split: sum.splits)
  from Cons.prems(1) have d: "0 \<le> frameDelta fr" and ds: "\<forall>f\<in>set frs. 0 \<le> frameDelta f" by simp_all
  from dashCooldown_animate[OF a d] Cons.IH[OF ds b] show ?case by simp
qed

lemma mode_updateMovement: "sideScrollerMode (updateMovement E tank delta) = sideScrollerMode tank"
  by (simp add: updateMovement_def Let_def split: option.splits)

lemma mode_updateAutopilot: "sideScrollerMode (updateAutopilot E now rnd tank delta) = sideScrollerMode tank"
  by (simp add: updateAutopilot_def realignCamera_def Let_def split: option.splits)

lemma mode_updateFrogAnimation: "sideScrollerMode (updateFrogAnimation tank delta) = sideScrollerMode tank"
  by (simp add: updateFrogAnimation_def Let_def split: option.splits)

lemma mode_updateFrogMovement: "sideScrollerMode (updateFrogMovement tank i delta) = sideScrollerMode tank"
  by (simp add: updateFrogMovement_def Let_def split: option.splits)

lemma mode_frogTick: "sideScrollerMode (frogTick delta tank i) = sideScrollerMode tank"
  by (simp add: frogTick_def Let_def mode_updateFrogMovement)

lemma mode_frogTick_fold: "sideScrollerMode (foldl (frogTick delta) tank is) = sideScrollerMode tank"
  by (induction "is" arbitrary: tank) (simp_all add: mode_frogTick)

lemma mode_updateAdditionalFrogs: "sideScrollerMode (updateAdditionalFrogs tank delta) = sideScrollerMode tank"
  by (simp add: updateAdditionalFrogs_def mode_frogTick_fold)

lemma mode_updateCameraPosition: "sideScrollerMode (updateCameraPosition E tank) = sideScrollerMode tank"
  by (simp add: updateCameraPosition_def Let_def split: option.splits)

lemma mode_updateObjectSelection: "sideScrollerMode (updateObjectSelection E tank) = sideScrollerMode tank"
  by (simp add: updateObjectSelection_def makeFrogsSwimToFolder_def Let_def split: option.splits)

lemma mode_updateEnvironment: "sideScrollerMode (updateEnvironment tank) = sideScrollerMode tank"
  by (simp add: updateEnvironment_def)

lemma mode_checkCollisions: "sideScrollerMode (checkCollisions tank) = sideScrollerMode tank"
  by (simp add: checkCollisions_def Let_def split: option.splits)

lemma mode_openWaterUpdate: "sideScrollerMode (openWaterUpdate E fr tank) = sideScrollerMode tank"
  by (simp add: openWaterUpdate_def mode_checkCollisions mode_updateEnvironment mode_updateObjectSelection mode_updateCameraPosition mode_updateAdditionalFrogs mode_updateFrogAnimation mode_updateAutopilot mode_updateMovement)

lemma mode_performDash: "sideScrollerMode (performDash E tank) = sideScrollerMode tank"
  by (simp add: performDash_def Let_def split: option.splits)

lemma frames_open_water: "\<not> sideScrollerMode tank \<Longrightarrow> \<exists>tank1. frames E frs tank = Inr tank1 \<and> \<not> sideScrollerMode tank1"
proof (induction frs arbitrary: tank)
  case Nil
  then show ?case by simp
next
  case (Cons fr frs)
  have a: "snd (animate E fr tank) = Inr (openWaterUpdate E fr tank)"
    using Cons.prems by (simp add: animate_def Let_def runChain_openWater)
  have "\<not> sideScrollerMode (openWaterUpdate E fr tank)"
    using Cons.prems by (simp add: mode_openWaterUpdate)
  from Cons.IH[OF this] a show ?case by simp
qed

lemma otherFrogs_updateMovement: "otherFrogs (updateMovement E tank delta) = otherFrogs tank"
  by (simp add: updateMovement_def Let_def split: option.splits)

lemma otherFrogs_updateAutopilot: "otherFrogs (updateAutopilot E now rnd tank delta) = otherFrogs tank"
  by (simp add: updateAutopilot_def realignCamera_def Let_def split: option.splits)

lemma otherFrogs_updateFrogAnimation: "otherFrogs (updateFrogAnimation tank delta) = otherFrogs tank"
  by (simp add: updateFrogAnimation_def Let_def split: option.splits)

lemma otherFrogs_updateCameraPosition: "otherFrogs (updateCameraPosition E tank) = otherFrogs tank"
  by (simp add: updateCameraPosition_def Let_def split: option.splits)

lemma otherFrogs_updateEnvironment: "otherFrogs (updateEnvironment tank) = otherFrogs tank"
  by (simp add: updateEnvironment_def)

lemma otherFrogs_checkCollisions: "otherFrogs (checkCollisions tank) = otherFrogs tank"
  by (simp add: checkCollisions_def Let_def split: option.splits)

lemma otherFrogs_updateObjectSelection:
  "map position (otherFrogs (updateObjectSelection E tank)) = map position (otherFrogs tank)"
  "map minSeparation (otherFrogs (updateObjectSelection E tank)) =
     map minSeparation (otherFrogs tank)"
  by (simp_all add: updateObjectSelection_def makeFrogsSwimToFolder_def Let_def o_def
        split: option.splits)

lemma sideScroller_otherFrogs:
  "updateSideScroller tank delta = Inr tank1 \<Longrightarrow> otherFrogs tank1 = otherFrogs tank"
  by (auto simp add: updateSideScroller_def Let_def split: if_splits option.splits)

lemma avatar_updateAutopilot:
  "frogPosition (updateAutopilot E now rnd tank delta) = frogPosition tank"
  "map_option position (frog (updateAutopilot E now rnd tank delta)) = map_option position (frog tank)"
  "config (updateAutopilot E now rnd tank delta) = config tank"
  by (simp_all add: updateAutopilot_def realignCamera_def Let_def split: option.splits)

lemma avatar_updateFrogMovement:
  "frogPosition (updateFrogMovement tank i delta) = frogPosition tank"
  "frog (updateFrogMovement tank i delta) = frog tank"
  "config (updateFrogMovement tank i delta) = config tank"
  by (simp_all add: updateFrogMovement_def Let_def split: option.splits)

lemma avatar_frogTick:
  "frogPosition (frogTick delta tank i) = frogPosition tank"
  "frog (frogTick delta tank i) = frog tank"
  "config (frogTick delta tank i) = config tank"
  by (simp_all add: frogTick_def Let_def avatar_updateFrogMovement)

lemma avatar_frogTick_fold:
  "frogPosition (foldl (frogTick delta) tank is) = frogPosition tank \<and>
   frog (foldl (frogTick delta) tank is) = frog tank \<and>
   config (foldl (frogTick delta) tank is) = config tank"
  by (induction "is" arbitrary: tank) (simp_all add: avatar_frogTick)

lemma avatar_updateAdditionalFrogs:
  "frogPosition (updateAdditionalFrogs tank delta) = frogPosition tank"
  "frog (updateAdditionalFrogs tank delta) = frog tank"
  "config (updateAdditionalFrogs tank delta) = config tank"
  by (simp_all add: updateAdditionalFrogs_def avatar_frogTick_fold)

lemma avatar_updateCameraPosition:
  "frogPosition (updateCameraPosition E tank) = frogPosition tank"
  "frog (updateCameraPosition E tank) = frog tank"
  "config (updateCameraPosition E tank) = config tank"
  by (simp_all add: updateCameraPosition_def Let_def split: option.splits)

lemma avatar_updateObjectSelection:
  "frogPosition (updateObjectSelection E tank) = frogPosition tank"
  "frog (updateObjectSelection E tank) = frog tank"
  "config (updateObjectSelection E tank) = config tank"
  by (simp_all add: updateObjectSelection_def makeFrogsSwimToFolder_def Let_def
        split: option.splits)

lemma avatar_updateEnvironment:
  "frogPosition (updateEnvironment tank) = frogPosition tank"
  "frog (updateEnvironment tank) = frog tank"
  "config (updateEnvironment tank) = config tank"
  by (simp_all add: updateEnvironment_def)

lemma avatar_checkCollisions:
  "frogPosition (checkCollisions tank) = frogPosition tank"
  "frog (checkCollisions tank) = frog tank"
  "config (checkCollisions tank) = config tank"
  by (simp_all add: checkCollisions_def Let_def split: option.splits)

lemma avatar_openWaterUpdate:
  "frogPosition (openWaterUpdate E fr tank) =
     frogPosition (updateFrogAnimation
       (updateAutopilot E (frameNow fr) (frameRandom fr) (updateMovement E tank (frameDelta fr))
          (frameDelta fr)) (frameDelta fr))"
  by (simp add: openWaterUpdate_def avatar_checkCollisions avatar_updateEnvironment avatar_updateObjectSelection avatar_updateCameraPosition avatar_updateAdditionalFrogs)

section \<open>Mode exclusivity\<close>

text \<open>
  Claim C6. On every animation frame exactly one of the two per-frame update paths
  runs: the calls of the frame contain the side-scroller update exactly when
  \<open>sideScrollerMode\<close> is true, and contain an open-water update call exactly when it is
  false. In side-scroller mode the only update call is \<open>updateSideScroller\<close>, whose own
  guard passes, so with the player and the camera in place it updates them; otherwise
  the calls are the eleven open-water updates in order, then the render.
\<close>

theorem mode_exclusivity:
  "(ranSideScroller (fst (animate E fr tank)) \<longleftrightarrow> sideScrollerMode tank) \<and>
   (ranOpenWater (fst (animate E fr tank)) \<longleftrightarrow> \<not> sideScrollerMode tank) \<and>
   (sideScrollerMode tank \<longrightarrow>
      (fst (animate E fr tank) = [UpdateSideScroller, RenderSideScroller] \<or>
       fst (animate E fr tank) = [UpdateSideScroller]) \<and>
      (\<forall>pl cam. sideScrollerPlayer tank = Some pl \<and> sideScrollerCamera tank = Some cam \<longrightarrow>
         fst (animate E fr tank) = [UpdateSideScroller, RenderSideScroller] \<and>
         snd (animate E fr tank) =
            Inr (tank\<lparr>sideScrollerPlayer :=
                        Some (updatePlayer (sideScrollerInput tank) (sideScrollerPlatforms tank)
                                (frameDelta fr) pl),
                      sideScrollerCamera :=
                        Some (updateSideScrollerCamera
                                (updatePlayer (sideScrollerInput tank)
                                   (sideScrollerPlatforms tank) (frameDelta fr) pl)
                                cam)\<rparr>))) \<and>
   (\<not> sideScrollerMode tank \<longrightarrow>
      fst (animate E fr tank) = openWaterCalls @ [RenderScene] \<and>
      snd (animate E fr tank) = Inr (openWaterUpdate E fr tank))"
proof -
  have ow: "\<not> sideScrollerMode tank \<Longrightarrow>
      animate E fr tank = (openWaterCalls @ [RenderScene], Inr (openWaterUpdate E fr tank))"
    by (simp add: animate_def Let_def runChain_calls runChain_openWater)
       (simp add: openWaterChain_def openWaterCalls_def)
  have ss: "sideScrollerMode tank \<Longrightarrow>
      fst (animate E fr tank) = [UpdateSideScroller, RenderSideScroller] \<or>
      fst (animate E fr tank) = [UpdateSideScroller]"
    by (simp add: animate_def split: sum.splits)
  have ss2: "sideScrollerMode tank \<Longrightarrow> sideScrollerPlayer tank = Some pl \<Longrightarrow>
      sideScrollerCamera tank = Some cam \<Longrightarrow>
      animate E fr tank =
           ([UpdateSideScroller, RenderSideScroller],
            Inr (tank\<lparr>sideScrollerPlayer :=
                        Some (updatePlayer (sideScrollerInput tank) (sideScrollerPlatforms tank)
                                (frameDelta fr) pl),
                      sideScrollerCamera :=
                        Some (updateSideScrollerCamera
                                (updatePlayer (sideScrollerInput tank)
                                   (sideScrollerPlatforms tank) (frameDelta fr) pl)
                                cam)\<rparr>))" for pl cam
    by (simp add: animate_def updateSideScroller_def Let_def)
  have a: "ranSideScroller (fst (animate E fr tank)) \<longleftrightarrow> sideScrollerMode tank"
    using ow ss by (cases "sideScrollerMode tank") (auto simp add: ranSideScroller_def openWaterCalls_def)
  have b: "ranOpenWater (fst (animate E fr tank)) \<longleftrightarrow> \<not> sideScrollerMode tank"
    using ow ss by (cases "sideScrollerMode tank") (auto simp add: ranOpenWater_def openWaterCalls_def)
  from ow have ow1: "\<not> sideScrollerMode tank \<Longrightarrow>
      fst (animate E fr tank) = openWaterCalls @ [RenderScene] \<and>
      snd (animate E fr tank) = Inr (openWaterUpdate E fr tank)"
    by simp
  from ss2 have ss3: "sideScrollerMode tank \<Longrightarrow> sideScrollerPlayer tank = Some pl \<Longrightarrow>
      sideScrollerCamera tank = Some cam \<Longrightarrow>
      fst (animate E fr tank) = [UpdateSideScroller, RenderSideScroller] \<and>
      snd (animate E fr tank) =
            Inr (tank\<lparr>sideScrollerPlayer :=
                        Some (updatePlayer (sideScrollerInput tank) (sideScrollerPlatforms tank)
                                (frameDelta fr) pl),
                      sideScrollerCamera :=
                        Some (updateSideScrollerCamera
                                (updatePlayer (sideScrollerInput tank)
                                   (sideScrollerPlatforms tank) (frameDelta fr) pl)
                                cam)\<rparr>)" for pl cam
    by simp
  from a b ow1 ss ss3 show ?thesis by blast
qed

theorem mode_exclusivity_witness:
  "\<not> sideScrollerMode loadedTank \<and> sideScrollerMode folderTank \<and>
   fst (animate plainThree frame60 loadedTank) = openWaterCalls @ [RenderScene] \<and>
   fst (animate plainThree frame60 folderTank) = [UpdateSideScroller, RenderSideScroller] \<and>
   ranOpenWater (fst (animate plainThree frame60 loadedTank)) \<and>
   \<not> ranSideScroller (fst (animate plainThree frame60 loadedTank)) \<and>
   ranSideScroller (fst (animate plainThree frame60 folderTank)) \<and>
   \<not> ranOpenWater (fst (animate plainThree frame60 folderTank))"
proof -
  have a: "\<not> sideScrollerMode loadedTank" by (simp add: loadedTank_def initialTank_def)
  have b: "sideScrollerMode folderTank" by (simp add: folderTank_def enterSideScrollerMode_def)
  have c: "sideScrollerPlayer folderTank = Some initialPlayer"
    by (simp add: folderTank_def enterSideScrollerMode_def)
  have d: "sideScrollerCamera folderTank =
      Some \<lparr>position = Vector3 0 cameraHeight cameraDistance, rotation = Vector3 0 0 0\<rparr>"
    by (simp add: folderTank_def enterSideScrollerMode_def)
  from mode_exclusivity[of plainThree frame60 loadedTank] a
  have e: "fst (animate plainThree frame60 loadedTank) = openWaterCalls @ [RenderScene] \<and>
      ranOpenWater (fst (animate plainThree frame60 loadedTank)) \<and>
      \<not> ranSideScroller (fst (animate plainThree frame60 loadedTank))"
    by blast
  from mode_exclusivity[of plainThree frame60 folderTank] b c d
  have f: "fst (animate plainThree frame60 folderTank) = [UpdateSideScroller, RenderSideScroller] \<and>
      ranSideScroller (fst (animate plainThree frame60 folderTank)) \<and>
      \<not> ranOpenWater (fst (animate plainThree frame60 folderTank))"
    by blast
  from a b e f show ?thesis by blast
qed

section \<open>Frames inside a folder\<close>

text \<open>
  Claim C9. While \<open>sideScrollerMode\<close> is true, a frame leaves the open-water state
  unchanged: the avatar's position and rotation (\<open>frog\<close>, \<open>frogPosition\<close>), its velocity,
  \<open>dashCooldown\<close>, the selected object and every sub-agent are the same after the frame;
  only the side-scroller's player and camera change. With the player and the camera in
  place the frame does not throw.
\<close>

theorem side_scroller_frame_leaves_open_water:
  assumes "sideScrollerMode tank"
  shows "(\<forall>tank1. snd (animate E fr tank) = Inr tank1 \<longrightarrow>
            frog tank1 = frog tank \<and> frogPosition tank1 = frogPosition tank \<and>
            velocity tank1 = velocity tank \<and> dashCooldown tank1 = dashCooldown tank \<and>
            selectedObject tank1 = selectedObject tank \<and> otherFrogs tank1 = otherFrogs tank \<and>
            (\<exists>pl cam. tank1 = tank\<lparr>sideScrollerPlayer := Some pl, sideScrollerCamera := Some cam\<rparr>)) \<and>
         (sideScrollerPlayer tank \<noteq> None \<and> sideScrollerCamera tank \<noteq> None \<longrightarrow>
            (\<exists>tank1. snd (animate E fr tank) = Inr tank1))"
  using assms
  by (auto simp add: animate_def updateSideScroller_def Let_def split: option.splits sum.splits)

theorem side_scroller_frame_witness:
  "sideScrollerMode folderTank \<and>
   (\<exists>tank1. snd (animate plainThree frame60 folderTank) = Inr tank1 \<and>
            frog tank1 = frog folderTank \<and> frogPosition tank1 = frogPosition folderTank \<and>
            velocity tank1 = velocity folderTank \<and> dashCooldown tank1 = dashCooldown folderTank \<and>
            selectedObject tank1 = selectedObject folderTank \<and>
            otherFrogs tank1 = otherFrogs folderTank)"
proof -
  have b: "sideScrollerMode folderTank" by (simp add: folderTank_def enterSideScrollerMode_def)
  have c: "sideScrollerPlayer folderTank \<noteq> None \<and> sideScrollerCamera folderTank \<noteq> None"
    by (simp add: folderTank_def enterSideScrollerMode_def)
  from side_scroller_frame_leaves_open_water[OF b, of plainThree frame60] b c
  show ?thesis by blast
qed

section \<open>Missing avatar\<close>

text \<open>
  Claim C8. With the avatar not loaded (\<open>frog\<close> is \<open>null\<close>), each per-tick update of
  the open-water core (movement integration, camera follow, autopilot, frog animation,
  object selection) returns the state it was given; none of them has a failing branch.
\<close>

theorem missing_avatar_noop:
  assumes "frog tank = None"
  shows "updateMovement E tank delta = tank \<and> updateCameraPosition E tank = tank \<and>
         updateAutopilot E now rnd tank delta = tank \<and> updateFrogAnimation tank delta = tank \<and>
         updateObjectSelection E tank = tank"
  using assms
  by (simp add: updateMovement_def updateCameraPosition_def updateAutopilot_def
        updateFrogAnimation_def updateObjectSelection_def)

theorem missing_avatar_noop_witness:
  "frog initialTank = None \<and> updateMovement plainThree initialTank (1 / 60) = initialTank \<and>
   updateCameraPosition plainThree initialTank = initialTank \<and>
   updateAutopilot plainThree 9000 0 initialTank (1 / 60) = initialTank \<and>
   updateFrogAnimation initialTank (1 / 60) = initialTank \<and>
   updateObjectSelection plainThree initialTank = initialTank"
  using missing_avatar_noop[of initialTank plainThree "1 / 60" 9000 0]
  by (simp add: initialTank_def)

section \<open>Autopilot\<close>

lemma updateAutopilot_noop:
  assumes "frog tank = None \<or> allObjects tank = []"
  shows "updateAutopilot E now rnd tank delta = tank"
  using assms by (cases "frog tank") (simp_all add: updateAutopilot_def)

text \<open>
  Claim C10. With an empty world-object list or with the avatar not loaded,
  \<open>updateAutopilot\<close> returns the state unchanged, whatever the clock says: the autopilot
  state is not initialised, does not activate, and no timestamp, velocity or orientation
  changes, also over any run of ticks.
\<close>

theorem autopilot_noop:
  assumes "frog tank = None \<or> allObjects tank = []"
  shows "updateAutopilot E now rnd tank delta = tank \<and>
         foldl (\<lambda>tk (now, rnd, delta). updateAutopilot E now rnd tk delta) tank ticks = tank"
proof
  show "updateAutopilot E now rnd tank delta = tank"
    using assms by (rule updateAutopilot_noop)
  show "foldl (\<lambda>tk (now, rnd, delta). updateAutopilot E now rnd tk delta) tank ticks = tank"
    using assms by (induction ticks) (auto simp add: updateAutopilot_noop)
qed

theorem autopilot_noop_witness:
  "frog loadedTank \<noteq> None \<and> allObjects loadedTank = [] \<and> autopilot loadedTank = None \<and>
   updateAutopilot plainThree 99000 0 loadedTank (1 / 60) = loadedTank \<and>
   foldl (\<lambda>tk (now, rnd, delta). updateAutopilot plainThree now rnd tk delta) loadedTank
     [(99000, 0, 1 / 60), (199000, 0.5, 1 / 60)] = loadedTank"
proof -
  have a: "allObjects loadedTank = []" by (simp add: loadedTank_def initialTank_def)
  have b: "frog loadedTank \<noteq> None" by (simp add: loadedTank_def)
  have c: "autopilot loadedTank = None" by (simp add: loadedTank_def initialTank_def)
  from a have h: "frog loadedTank = None \<or> allObjects loadedTank = []" by simp
  from autopilot_noop[OF h, of plainThree 99000 0 "1 / 60" "[(99000, 0, 1 / 60), (199000, 0.5, 1 / 60)]"] a b c
  show ?thesis by blast
qed

section \<open>Dash\<close>

lemma loaded_openWaterUpdate: "frog (openWaterUpdate E fr tank) \<noteq> None \<longleftrightarrow> frog tank \<noteq> None"
proof -
  have a: "\<And>t d. (frog (updateMovement E t d) \<noteq> None) = (frog t \<noteq> None)"
    by (simp add: updateMovement_def Let_def split: option.splits)
  have b: "\<And>t d. (frog (updateFrogAnimation t d) \<noteq> None) = (frog t \<noteq> None)"
    by (simp add: updateFrogAnimation_def Let_def split: option.splits)
  have c: "\<And>t now rnd d. (frog (updateAutopilot E now rnd t d) \<noteq> None) = (frog t \<noteq> None)"
  proof -
    fix t now rnd d
    have "map_option position (frog (updateAutopilot E now rnd t d)) = map_option position (frog t)"
      by (rule avatar_updateAutopilot)
    then show "(frog (updateAutopilot E now rnd t d) \<noteq> None) = (frog t \<noteq> None)"
      by (cases "frog (updateAutopilot E now rnd t d)"; cases "frog t") simp_all
  qed
  show ?thesis
    by (simp only: openWaterUpdate_def avatar_checkCollisions avatar_updateEnvironment
          avatar_updateObjectSelection avatar_updateCameraPosition avatar_updateAdditionalFrogs
          a b c)
qed

lemma dashCooldown_animate_eq:
  assumes "snd (animate E fr tank) = Inr tank1"
  shows "dashCooldown tank1 =
    (if \<not> sideScrollerMode tank \<and> frog tank \<noteq> None \<and> 0 < dashCooldown tank
     then dashCooldown tank - frameDelta fr else dashCooldown tank)"
proof (cases "sideScrollerMode tank")
  case True
  with assms have "updateSideScroller tank (frameDelta fr) = Inr tank1"
    by (simp add: animate_def split: sum.splits)
  from dashCooldown_updateSideScroller[OF this] True show ?thesis by simp
next
  case False
  with assms have "tank1 = openWaterUpdate E fr tank"
    by (simp add: animate_def runChain_openWater Let_def)
  with False show ?thesis by (simp add: dashCooldown_openWaterUpdate)
qed

lemma frames_cooldown_expires:
  assumes "\<not> sideScrollerMode tank" and "frog tank \<noteq> None" and "\<forall>f\<in>set frs. 0 \<le> frameDelta f"
  shows "\<exists>tank1. frames E frs tank = Inr tank1 \<and> \<not> sideScrollerMode tank1 \<and> frog tank1 \<noteq> None \<and>
           dashCooldown tank1 \<le> max 0 (dashCooldown tank - sum_list (map frameDelta frs))"
  using assms
proof (induction frs arbitrary: tank)
  case Nil
  then show ?case by simp
next
  case (Cons fr frs)
  let ?t = "openWaterUpdate E fr tank"
  have a: "snd (animate E fr tank) = Inr ?t"
    using Cons.prems(1) by (simp add: animate_def runChain_openWater Let_def)
  have m: "\<not> sideScrollerMode ?t" using Cons.prems(1) by (simp add: mode_openWaterUpdate)
  have l: "frog ?t \<noteq> None" using Cons.prems(2) loaded_openWaterUpdate[of E fr tank] by blast
  have n: "\<forall>f\<in>set frs. 0 \<le> frameDelta f" using Cons.prems(3) by simp
  have d: "0 \<le> frameDelta fr" using Cons.prems(3) by simp
  from Cons.IH[OF m l n] obtain tank1 where r: "frames E frs ?t = Inr tank1"
    and r1: "\<not> sideScrollerMode tank1" and r2: "frog tank1 \<noteq> None"
    and r3: "dashCooldown tank1 \<le> max 0 (dashCooldown ?t - sum_list (map frameDelta frs))"
    by blast
  have c: "dashCooldown ?t =
      (if 0 < dashCooldown tank then dashCooldown tank - frameDelta fr else dashCooldown tank)"
    using Cons.prems(2) by (simp add: dashCooldown_openWaterUpdate)
  have s: "0 \<le> sum_list (map frameDelta frs)" using n by (intro sum_list_nonneg) auto
  have "dashCooldown tank1 \<le> max 0 (dashCooldown tank - sum_list (map frameDelta (fr # frs)))"
    using r3 c s d by (simp split: if_splits)
  with a r r1 r2 show ?case by simp
qed

lemma resetAutopilotTimer_fields:
  "frog (resetAutopilotTimer now tank) = frog tank"
  "dashCooldown (resetAutopilotTimer now tank) = dashCooldown tank"
  "sideScrollerMode (resetAutopilotTimer now tank) = sideScrollerMode tank"
  "velocity (resetAutopilotTimer now tank) = velocity tank"
  "movement (resetAutopilotTimer now tank) = movement tank"
  "dashForce (resetAutopilotTimer now tank) = dashForce tank"
  "camera (resetAutopilotTimer now tank) = camera tank"
  by (simp_all add: resetAutopilotTimer_def split: option.splits)

lemma runEvents_frames:
  assumes "list_all isAnimationFrame evs" and "sorted (oldTime s0 # map eventTime evs)"
    and "\<not> sideScrollerMode (sessionTank s0)"
  shows "\<exists>s. runEvents E evs s0 = Inr s \<and> \<not> sideScrollerMode (sessionTank s) \<and>
           dashCooldown (sessionTank s0) - (oldTime s - oldTime s0) \<le> dashCooldown (sessionTank s) \<and>
           oldTime s0 \<le> oldTime s \<and> oldTime s \<in> set (oldTime s0 # map eventTime evs)"
  using assms
proof (induction evs arbitrary: s0)
  case Nil
  then show ?case by simp
next
  case (Cons ev evs)
  from Cons.prems(1) obtain t now rnd where ev: "ev = AnimationFrame t now rnd"
    by (cases ev) simp_all
  let ?f = "\<lparr>frameDelta = t - oldTime s0, frameNow = now, frameRandom = rnd\<rparr>"
  let ?t = "openWaterUpdate E ?f (sessionTank s0)"
  let ?s = "\<lparr>sessionTank = ?t, oldTime = t\<rparr>"
  have a: "snd (animate E ?f (sessionTank s0)) = Inr ?t"
    using Cons.prems(3) by (simp add: animate_def runChain_openWater Let_def)
  then have h: "handleEvent E ev s0 = Inr ?s" by (simp add: handleEvent_def ev)
  from Cons.prems(2) have le: "oldTime s0 \<le> t" by (simp add: ev)
  have d: "0 \<le> frameDelta ?f" using le by simp
  have m: "\<not> sideScrollerMode (sessionTank ?s)" using Cons.prems(3) by (simp add: mode_openWaterUpdate)
  have so: "sorted (oldTime ?s # map eventTime evs)" using Cons.prems(2) by (simp add: ev)
  have fr: "list_all isAnimationFrame evs" using Cons.prems(1) by simp
  from Cons.IH[OF fr so m] obtain s where r: "runEvents E evs ?s = Inr s"
    and r1: "\<not> sideScrollerMode (sessionTank s)"
    and r2: "dashCooldown (sessionTank ?s) - (oldTime s - oldTime ?s) \<le> dashCooldown (sessionTank s)"
    and r3: "oldTime ?s \<le> oldTime s" and r4: "oldTime s \<in> set (oldTime ?s # map eventTime evs)"
    by blast
  from dashCooldown_animate[OF a d] have c: "dashCooldown (sessionTank s0) - (t - oldTime s0) \<le> dashCooldown ?t"
    by simp
  have "runEvents E (ev # evs) s0 = Inr s" using h r by simp
  moreover have "dashCooldown (sessionTank s0) - (oldTime s - oldTime s0) \<le> dashCooldown (sessionTank s)"
    using r2 c by simp
  moreover have "oldTime s0 \<le> oldTime s" using r3 le by simp
  moreover have "oldTime s \<in> set (oldTime s0 # map eventTime (ev # evs))" using r4 by (auto simp add: ev)
  ultimately show ?case using r1 by blast
qed

text \<open>
  Claim C3. A dash request while \<open>dashCooldown\<close> is positive changes nothing. With
  \<open>dashCooldown\<close> at most zero and the avatar loaded, it adds the single impulse
  \<open>dashDirection * dashForce\<close> to the velocity and sets \<open>dashCooldown\<close> to 0.5. The
  cooldown runs in frame time: an animation frame in open water with the avatar loaded
  lowers a positive \<open>dashCooldown\<close> by the frame's \<open>delta\<close>, and no frame changes it
  otherwise. Hence after a dash that added an impulse, a second request changes nothing
  after any run of frames whose \<open>delta\<close> values sum to less than 0.5 seconds, and in
  open water such frames do not throw; once the \<open>delta\<close> values of the frames in open
  water sum to 0.5 seconds or more, the cooldown has expired and the next request adds
  an impulse again. In clock time: when \<open>Space\<close> is pressed in open water, then any
  frames run in time order, and \<open>Space\<close> is pressed again less than 0.5 seconds after
  the last frame that preceded the first press, the second press requests no dash that
  takes effect; it only resets the autopilot timer.
\<close>

theorem dash_cooldown:
  "(0 < dashCooldown tank \<longrightarrow> performDash E tank = tank) \<and>
   (\<forall>fr. dashCooldown tank \<le> 0 \<and> frog tank = Some fr \<longrightarrow>
      performDash E tank =
        tank\<lparr>velocity :=
               addV (velocity tank)
                 (multiplyScalar
                    (if hasHorizontalInput (movement tank) then
                       applyQuaternion E (rotation (camera tank))
                         (normalizeV (intentVector (movement tank)))
                     else applyQuaternion E (rotation fr) (Vector3 0 0 1))
                    (dashForce tank)),
             dashCooldown := 0.5\<rparr>) \<and>
   (\<forall>f tank1. snd (animate E f tank) = Inr tank1 \<longrightarrow>
      dashCooldown tank1 =
        (if \<not> sideScrollerMode tank \<and> frog tank \<noteq> None \<and> 0 < dashCooldown tank
         then dashCooldown tank - frameDelta f else dashCooldown tank)) \<and>
   (\<forall>frs. dashCooldown tank \<le> 0 \<and> frog tank \<noteq> None \<and> (\<forall>f\<in>set frs. 0 \<le> frameDelta f) \<and>
      sum_list (map frameDelta frs) < 0.5 \<longrightarrow>
      (\<forall>tank1. frames E frs (performDash E tank) = Inr tank1 \<longrightarrow> performDash E tank1 = tank1) \<and>
      (\<not> sideScrollerMode tank \<longrightarrow> (\<exists>tank1. frames E frs (performDash E tank) = Inr tank1))) \<and>
   (\<forall>frs. dashCooldown tank \<le> 0 \<and> frog tank \<noteq> None \<and> \<not> sideScrollerMode tank \<and>
      (\<forall>f\<in>set frs. 0 \<le> frameDelta f) \<and> 0.5 \<le> sum_list (map frameDelta frs) \<longrightarrow>
      (\<exists>tank1. frames E frs (performDash E tank) = Inr tank1 \<and> dashCooldown tank1 \<le> 0 \<and>
         frog tank1 \<noteq> None \<and> dashCooldown (performDash E tank1) = 0.5)) \<and>
   (\<forall>old t1 now1 evs t2 now2.
      dashCooldown tank \<le> 0 \<and> frog tank \<noteq> None \<and> \<not> sideScrollerMode tank \<and>
      list_all isAnimationFrame evs \<and> sorted (old # t1 # map eventTime evs @ [t2]) \<and>
      t2 - old < 0.5 \<longrightarrow>
      (\<exists>s. runEvents E (SpaceDown t1 now1 # evs) \<lparr>sessionTank = tank, oldTime = old\<rparr> = Inr s \<and>
           dashCooldown (onKeyDownSpace E now1 tank) = 0.5 \<and>
           onKeyDownSpace E now2 (sessionTank s) = resetAutopilotTimer now2 (sessionTank s)))"
proof (intro conjI allI impI)
  assume "0 < dashCooldown tank"
  then show "performDash E tank = tank"
    by (simp add: performDash_def split: option.splits)
next
  fix fr
  assume "dashCooldown tank \<le> 0 \<and> frog tank = Some fr"
  then show "performDash E tank =
        tank\<lparr>velocity :=
               addV (velocity tank)
                 (multiplyScalar
                    (if hasHorizontalInput (movement tank) then
                       applyQuaternion E (rotation (camera tank))
                         (normalizeV (intentVector (movement tank)))
                     else applyQuaternion E (rotation fr) (Vector3 0 0 1))
                    (dashForce tank)),
             dashCooldown := 0.5\<rparr>"
    by (simp add: performDash_def Let_def)
next
  fix f tank1
  assume "snd (animate E f tank) = Inr tank1"
  then show "dashCooldown tank1 =
        (if \<not> sideScrollerMode tank \<and> frog tank \<noteq> None \<and> 0 < dashCooldown tank
         then dashCooldown tank - frameDelta f else dashCooldown tank)"
    by (rule dashCooldown_animate_eq)
next
  fix frs tank1
  assume h: "dashCooldown tank \<le> 0 \<and> frog tank \<noteq> None \<and> (\<forall>f\<in>set frs. 0 \<le> frameDelta f) \<and>
      sum_list (map frameDelta frs) < 0.5"
    and r: "frames E frs (performDash E tank) = Inr tank1"
  from h have "dashCooldown (performDash E tank) = 0.5"
    by (auto simp add: performDash_def Let_def)
  with dashCooldown_frames[OF _ r] h have "0 < dashCooldown tank1" by simp
  then show "performDash E tank1 = tank1"
    by (simp add: performDash_def split: option.splits)
next
  fix frs
  assume "\<not> sideScrollerMode tank"
  then have "\<not> sideScrollerMode (performDash E tank)" by (simp add: mode_performDash)
  from frames_open_water[OF this] show "\<exists>tank1. frames E frs (performDash E tank) = Inr tank1"
    by blast
next
  fix frs :: "frame list"
  assume h: "dashCooldown tank \<le> 0 \<and> frog tank \<noteq> None \<and> \<not> sideScrollerMode tank \<and>
      (\<forall>f\<in>set frs. 0 \<le> frameDelta f) \<and> 0.5 \<le> sum_list (map frameDelta frs)"
  then have m: "\<not> sideScrollerMode (performDash E tank)" by (simp add: mode_performDash)
  from h have l: "frog (performDash E tank) \<noteq> None"
    by (auto simp add: performDash_def Let_def)
  from h have c: "dashCooldown (performDash E tank) = 0.5"
    by (auto simp add: performDash_def Let_def)
  from h have n: "\<forall>f\<in>set frs. 0 \<le> frameDelta f" by blast
  from frames_cooldown_expires[OF m l n, of E] obtain tank1
    where r: "frames E frs (performDash E tank) = Inr tank1" and r2: "frog tank1 \<noteq> None"
      and r3: "dashCooldown tank1 \<le> max 0 (dashCooldown (performDash E tank) - sum_list (map frameDelta frs))"
    by blast
  from r3 c h have z: "dashCooldown tank1 \<le> 0" by simp
  from z r2 have "dashCooldown (performDash E tank1) = 0.5"
    by (auto simp add: performDash_def Let_def)
  with r z r2 show "\<exists>tank1. frames E frs (performDash E tank) = Inr tank1 \<and> dashCooldown tank1 \<le> 0 \<and>
         frog tank1 \<noteq> None \<and> dashCooldown (performDash E tank1) = 0.5"
    by blast
next
  fix old t1 now1 evs t2 now2
  assume h: "dashCooldown tank \<le> 0 \<and> frog tank \<noteq> None \<and> \<not> sideScrollerMode tank \<and>
      list_all isAnimationFrame evs \<and> sorted (old # t1 # map eventTime evs @ [t2]) \<and>
      t2 - old < 0.5"
  let ?t0 = "onKeyDownSpace E now1 tank"
  let ?s0 = "\<lparr>sessionTank = ?t0, oldTime = old\<rparr>"
  from h have k: "?t0 = performDash E (resetAutopilotTimer now1 tank)"
    by (simp add: onKeyDownSpace_def)
  from h have c: "dashCooldown ?t0 = 0.5"
    unfolding k by (auto simp add: performDash_def Let_def resetAutopilotTimer_fields)
  from h have m: "\<not> sideScrollerMode (sessionTank ?s0)"
    by (simp add: k mode_performDash resetAutopilotTimer_fields)
  from h have fr: "list_all isAnimationFrame evs" by blast
  from h have so: "sorted (oldTime ?s0 # map eventTime evs)" by (simp add: sorted_append)
  from h have top: "\<forall>u\<in>set (old # map eventTime evs). u \<le> t2"
    by (auto simp add: sorted_append)
  from runEvents_frames[OF fr so m, of E] obtain s where r: "runEvents E evs ?s0 = Inr s"
    and r1: "\<not> sideScrollerMode (sessionTank s)"
    and r2: "dashCooldown (sessionTank ?s0) - (oldTime s - oldTime ?s0) \<le> dashCooldown (sessionTank s)"
    and r4: "oldTime s \<in> set (oldTime ?s0 # map eventTime evs)"
    by blast
  from r4 top have "oldTime s \<le> t2" by auto
  with r2 c h have p: "0 < dashCooldown (sessionTank s)" by simp
  have e: "runEvents E (SpaceDown t1 now1 # evs) \<lparr>sessionTank = tank, oldTime = old\<rparr> = Inr s"
    using r by (simp add: handleEvent_def)
  from p r1 have "onKeyDownSpace E now2 (sessionTank s) = resetAutopilotTimer now2 (sessionTank s)"
    by (simp add: onKeyDownSpace_def performDash_def resetAutopilotTimer_fields split: option.splits)
  with e c show "\<exists>s. runEvents E (SpaceDown t1 now1 # evs) \<lparr>sessionTank = tank, oldTime = old\<rparr> = Inr s \<and>
           dashCooldown (onKeyDownSpace E now1 tank) = 0.5 \<and>
           onKeyDownSpace E now2 (sessionTank s) = resetAutopilotTimer now2 (sessionTank s)"
    by blast
qed

theorem dash_cooldown_witness:
  "dashCooldown loadedTank \<le> 0 \<and> frog loadedTank \<noteq> None \<and> \<not> sideScrollerMode loadedTank \<and>
   0 \<le> frameDelta frame60 \<and>
   sum_list (map frameDelta [frame60, frame60]) < 0.5 \<and>
   0.5 \<le> sum_list (map frameDelta (replicate 30 frame60)) \<and>
   velocity (performDash plainThree loadedTank) = Vector3 0 0 (- 15) \<and>
   dashCooldown (performDash plainThree loadedTank) = 0.5 \<and>
   performDash plainThree (performDash plainThree loadedTank) = performDash plainThree loadedTank \<and>
   (\<exists>tank1. snd (animate plainThree frame60 (performDash plainThree loadedTank)) = Inr tank1 \<and>
            dashCooldown tank1 = 1 / 2 - 1 / 60) \<and>
   (\<exists>tank1. frames plainThree [frame60, frame60] (performDash plainThree loadedTank) = Inr tank1 \<and>
            performDash plainThree tank1 = tank1) \<and>
   (\<exists>tank1. frames plainThree (replicate 30 frame60) (performDash plainThree loadedTank) = Inr tank1 \<and>
            dashCooldown tank1 \<le> 0 \<and> frog tank1 \<noteq> None \<and>
            dashCooldown (performDash plainThree tank1) = 0.5) \<and>
   list_all isAnimationFrame [AnimationFrame (3 / 16) 188 0, AnimationFrame (3 / 8) 375 0] \<and>
   sorted (0 # 9 / 50 # map eventTime [AnimationFrame (3 / 16) 188 0, AnimationFrame (3 / 8) 375 0] @ [2 / 5 :: real]) \<and>
   (\<exists>s. runEvents plainThree
          (SpaceDown (9 / 50) 180 # [AnimationFrame (3 / 16) 188 0, AnimationFrame (3 / 8) 375 0])
          \<lparr>sessionTank = loadedTank, oldTime = 0\<rparr> = Inr s \<and>
        dashCooldown (onKeyDownSpace plainThree 180 loadedTank) = 0.5 \<and>
        onKeyDownSpace plainThree 400 (sessionTank s) = resetAutopilotTimer 400 (sessionTank s))"
proof -
  note T = dash_cooldown[of loadedTank plainThree]
  note U = dash_cooldown[of "performDash plainThree loadedTank" plainThree]
  have h1: "dashCooldown loadedTank \<le> 0" by (simp add: loadedTank_def initialTank_def)
  have h2: "frog loadedTank \<noteq> None" by (simp add: loadedTank_def)
  have h3: "\<not> sideScrollerMode loadedTank" by (simp add: loadedTank_def initialTank_def)
  have f: "frog loadedTank = Some \<lparr>position = Vector3 0 0 0, rotation = Vector3 0 pi 0\<rparr>"
    by (simp add: loadedTank_def)
  have g: "0 \<le> frameDelta frame60" by (simp add: frame60_def)
  have n2: "\<forall>f\<in>set [frame60, frame60]. 0 \<le> frameDelta f" by (simp add: frame60_def)
  have n30: "\<forall>f\<in>set (replicate 30 frame60). 0 \<le> frameDelta f" by (simp add: frame60_def)
  have s2: "sum_list (map frameDelta [frame60, frame60]) < 0.5" by (simp add: frame60_def)
  have s30: "0.5 \<le> sum_list (map frameDelta (replicate 30 frame60))"
    by (simp add: frame60_def sum_list_replicate)
  from T h1 f have v: "velocity (performDash plainThree loadedTank) = Vector3 0 0 (- 15)"
    "dashCooldown (performDash plainThree loadedTank) = 0.5"
    by (simp_all add: loadedTank_def initialTank_def plainThree_def rotateEuler_yaw_pi
          hasHorizontalInput_def noMovement_def addV_def multiplyScalar_def)
  from v(2) have p: "0 < dashCooldown (performDash plainThree loadedTank)" by simp
  from U p have i: "performDash plainThree (performDash plainThree loadedTank) =
      performDash plainThree loadedTank"
    by blast
  have m: "\<not> sideScrollerMode (performDash plainThree loadedTank)"
    using h3 by (simp add: mode_performDash)
  have l: "frog (performDash plainThree loadedTank) \<noteq> None"
    using h1 f by (simp add: performDash_def Let_def)
  have a: "snd (animate plainThree frame60 (performDash plainThree loadedTank)) =
      Inr (openWaterUpdate plainThree frame60 (performDash plainThree loadedTank))"
    using m by (simp add: animate_def runChain_openWater Let_def)
  from U a have "dashCooldown (openWaterUpdate plainThree frame60 (performDash plainThree loadedTank)) =
      (if \<not> sideScrollerMode (performDash plainThree loadedTank) \<and>
          frog (performDash plainThree loadedTank) \<noteq> None \<and>
          0 < dashCooldown (performDash plainThree loadedTank)
       then dashCooldown (performDash plainThree loadedTank) - frameDelta frame60
       else dashCooldown (performDash plainThree loadedTank))"
    by blast
  with m l p v(2) have "dashCooldown (openWaterUpdate plainThree frame60 (performDash plainThree loadedTank)) =
      1 / 2 - 1 / 60"
    by (simp add: frame60_def)
  with a have j: "\<exists>tank1. snd (animate plainThree frame60 (performDash plainThree loadedTank)) = Inr tank1 \<and>
            dashCooldown tank1 = 1 / 2 - 1 / 60"
    by blast
  from T h1 h2 h3 n2 s2 have e: "\<exists>tank1. frames plainThree [frame60, frame60] (performDash plainThree loadedTank) = Inr tank1 \<and>
            performDash plainThree tank1 = tank1"
    by blast
  from T h1 h2 h3 n30 s30 have c: "\<exists>tank1. frames plainThree (replicate 30 frame60) (performDash plainThree loadedTank) = Inr tank1 \<and>
            dashCooldown tank1 \<le> 0 \<and> frog tank1 \<noteq> None \<and>
            dashCooldown (performDash plainThree tank1) = 0.5"
    by blast
  have la: "list_all isAnimationFrame [AnimationFrame (3 / 16) 188 0, AnimationFrame (3 / 8) 375 0]"
    by simp
  have so: "sorted (0 # 9 / 50 # map eventTime [AnimationFrame (3 / 16) 188 0, AnimationFrame (3 / 8) 375 0] @ [2 / 5 :: real])"
    by simp
  have lt: "(2 / 5 :: real) - 0 < 0.5" by simp
  from T h1 h2 h3 la so lt
  have t: "\<exists>s. runEvents plainThree
          (SpaceDown (9 / 50) 180 # [AnimationFrame (3 / 16) 188 0, AnimationFrame (3 / 8) 375 0])
          \<lparr>sessionTank = loadedTank, oldTime = 0\<rparr> = Inr s \<and>
        dashCooldown (onKeyDownSpace plainThree 180 loadedTank) = 0.5 \<and>
        onKeyDownSpace plainThree 400 (sessionTank s) = resetAutopilotTimer 400 (sessionTank s)"
    by blast
  from h1 h2 h3 g s2 s30 v i j e c la so t show ?thesis by blast
qed

text \<open>
  A frame with no world objects, no sub-agents and no key held only moves the avatar
  and the camera. While the avatar, turned by \<open>pi\<close> about the y axis, coasts along the
  negative z axis, which is the way it faces, it keeps its orientation.
\<close>

lemma quiet_frame:
  assumes "allObjects t = []" and "\<not> multiFrogMode t" and "selectedObject t = None"
  shows "openWaterUpdate E f t =
     updateCameraPosition E (updateFrogAnimation (updateMovement E t (frameDelta f)) (frameDelta f))"
proof -
  let ?t1 = "updateMovement E t (frameDelta f)"
  have a1: "allObjects ?t1 = []" "\<not> multiFrogMode ?t1" "selectedObject ?t1 = None"
    using assms by (simp_all add: updateMovement_def Let_def split: option.splits)
  have b: "updateAutopilot E (frameNow f) (frameRandom f) ?t1 (frameDelta f) = ?t1"
    by (rule updateAutopilot_noop) (simp add: a1)
  let ?t2 = "updateFrogAnimation ?t1 (frameDelta f)"
  have a2: "allObjects ?t2 = []" "\<not> multiFrogMode ?t2" "selectedObject ?t2 = None"
    using a1 by (simp_all add: updateFrogAnimation_def Let_def split: option.splits)
  have c: "updateAdditionalFrogs ?t2 (frameDelta f) = ?t2"
    using a2 by (simp add: updateAdditionalFrogs_def)
  let ?t3 = "updateCameraPosition E ?t2"
  have a3: "allObjects ?t3 = []" "selectedObject ?t3 = None"
    using a2 by (simp_all add: updateCameraPosition_def Let_def split: option.splits)
  have d: "updateObjectSelection E ?t3 = ?t3"
    using a3 by (simp add: updateObjectSelection_def bestObject_def Let_def split: option.splits)
  have e: "updateEnvironment ?t3 = ?t3"
    using a3 by (simp add: updateEnvironment_def)
  have g: "checkCollisions ?t3 = ?t3"
    using a3 by (simp add: checkCollisions_def Let_def split: option.splits)
  show ?thesis
    by (simp add: openWaterUpdate_def b c d e g)
qed

lemma handleRotation_coasting:
  assumes "\<not> hasHorizontalInput (movement t)" and "w \<le> 0" and "vy r0 = pi"
  shows "handleRotation E t dir (Vector3 0 0 w) r0 d = r0"
proof (cases "lengthV (Vector3 0 0 w) > 0.3")
  case False
  with assms show ?thesis by (simp add: handleRotation_def)
next
  case True
  then have w: "w < 0" using assms(2) by (simp add: lengthV_z)
  then have n: "normalizeV (Vector3 0 0 w) = Vector3 0 0 (- 1)"
    by (simp add: normalizeV_def lengthV_z divideScalar_def multiplyScalar_def)
  have a: "atan2 0 (- 1) = pi" by (simp add: atan2_def)
  from True assms show ?thesis
    by (cases r0) (simp add: handleRotation_def n a wrapDiff_def setY_def Let_def)
qed

lemma coasting_frame:
  assumes "frog t = Some fr" and "rotation fr = Vector3 0 pi 0" and "movement t = noMovement"
    and "allObjects t = []" and "\<not> multiFrogMode t" and "selectedObject t = None"
    and "velocity t = Vector3 0 0 w" and "w \<le> 0" and "config t = initialConfig"
    and "0 \<le> frameDelta f" and "frameDelta f \<le> 1 / 4"
  shows "\<exists>fr1. frog (openWaterUpdate E f t) = Some fr1 \<and> rotation fr1 = Vector3 0 pi 0"
    and "movement (openWaterUpdate E f t) = noMovement"
    and "allObjects (openWaterUpdate E f t) = []"
    and "\<not> multiFrogMode (openWaterUpdate E f t)"
    and "selectedObject (openWaterUpdate E f t) = None"
    and "velocity (openWaterUpdate E f t) =
           Vector3 0 0 (w * (1 - 18 / 5 * frameDelta f) * (1 - 3 / 10 * frameDelta f))"
    and "w * (1 - 18 / 5 * frameDelta f) * (1 - 3 / 10 * frameDelta f) \<le> 0"
    and "config (openWaterUpdate E f t) = initialConfig"
    and "dashForce (openWaterUpdate E f t) = dashForce t"
    and "autopilot (openWaterUpdate E f t) = autopilot t"
proof -
  let ?d = "frameDelta f"
  let ?w = "w * (1 - 18 / 5 * ?d) * (1 - 3 / 10 * ?d)"
  have q: "openWaterUpdate E f t = updateCameraPosition E (updateFrogAnimation (updateMovement E t ?d) ?d)"
    using assms(4,5,6) by (rule quiet_frame)
  have h: "\<not> hasHorizontalInput (movement t)"
    by (simp add: assms(3) hasHorizontalInput_def noMovement_def)
  have v: "applyMovementForce E t (normalizeV (intentVector (movement t)))
             (applyFriction (config t) (hasHorizontalInput (movement t)) (velocity t) ?d) ?d =
           Vector3 0 0 ?w"
    using h by (simp add: applyMovementForce_def applyFriction_def assms(3,7,9) initialConfig_def
          noMovement_def hasHorizontalInput_def setY_def Let_def field_simps)
  have "0 \<le> (1 - 18 / 5 * ?d) * (1 - 3 / 10 * ?d)"
    using assms(10,11) by (intro mult_nonneg_nonneg) simp_all
  with assms(8) have s: "?w \<le> 0" by (simp add: mult.assoc mult_nonpos_nonneg)
  show "?w \<le> 0" by (rule s)
  have py: "vy (rotation fr) = pi" by (simp add: assms(2))
  have r: "handleRotation E t (normalizeV (intentVector (movement t))) (Vector3 0 0 ?w) (rotation fr) ?d = rotation fr"
    using h s py by (rule handleRotation_coasting)
  have m: "updateMovement E t ?d =
      t\<lparr>velocity := Vector3 0 0 ?w, direction := normalizeV (intentVector (movement t)),
        dashCooldown := (if dashCooldown t > 0 then dashCooldown t - ?d else dashCooldown t),
        frog := Some (fr\<lparr>position := clampToTankBounds (config t) (addV (position fr) (multiplyScalar (Vector3 0 0 ?w) ?d)),
                         rotation := rotation fr\<rparr>),
        frogPosition := clampToTankBounds (config t) (addV (position fr) (multiplyScalar (Vector3 0 0 ?w) ?d))\<rparr>"
    by (simp only: updateMovement_def assms(1) option.case Let_def v r)
  show "\<exists>fr1. frog (openWaterUpdate E f t) = Some fr1 \<and> rotation fr1 = Vector3 0 pi 0"
    by (simp add: q m updateCameraPosition_def updateFrogAnimation_def assms(2) Let_def)
  show "movement (openWaterUpdate E f t) = noMovement"
    by (simp add: q m updateCameraPosition_def updateFrogAnimation_def assms(3) Let_def)
  show "allObjects (openWaterUpdate E f t) = []"
    by (simp add: q m updateCameraPosition_def updateFrogAnimation_def assms(4) Let_def)
  show "\<not> multiFrogMode (openWaterUpdate E f t)"
    by (simp add: q m updateCameraPosition_def updateFrogAnimation_def assms(5) Let_def)
  show "selectedObject (openWaterUpdate E f t) = None"
    by (simp add: q m updateCameraPosition_def updateFrogAnimation_def assms(6) Let_def)
  show "velocity (openWaterUpdate E f t) = Vector3 0 0 ?w"
    by (simp add: q m updateCameraPosition_def updateFrogAnimation_def Let_def)
  show "config (openWaterUpdate E f t) = initialConfig"
    by (simp add: q m updateCameraPosition_def updateFrogAnimation_def assms(9) Let_def)
  show "dashForce (openWaterUpdate E f t) = dashForce t"
    by (simp add: q m updateCameraPosition_def updateFrogAnimation_def Let_def)
  show "autopilot (openWaterUpdate E f t) = autopilot t"
    by (simp add: q m updateCameraPosition_def updateFrogAnimation_def Let_def)
qed

lemma dashed_fields:
  "frog (onKeyDownSpace plainThree now loadedTank) =
     Some \<lparr>position = Vector3 0 0 0, rotation = Vector3 0 pi 0\<rparr>"
  "movement (onKeyDownSpace plainThree now loadedTank) = noMovement"
  "allObjects (onKeyDownSpace plainThree now loadedTank) = []"
  "\<not> multiFrogMode (onKeyDownSpace plainThree now loadedTank)"
  "selectedObject (onKeyDownSpace plainThree now loadedTank) = None"
  "velocity (onKeyDownSpace plainThree now loadedTank) = Vector3 0 0 (- 15)"
  "config (onKeyDownSpace plainThree now loadedTank) = initialConfig"
  "dashForce (onKeyDownSpace plainThree now loadedTank) = 15"
  "autopilot (onKeyDownSpace plainThree now loadedTank) = None"
  "dashCooldown (onKeyDownSpace plainThree now loadedTank) = 1 / 2"
  "\<not> sideScrollerMode (onKeyDownSpace plainThree now loadedTank)"
  by (simp_all add: onKeyDownSpace_def resetAutopilotTimer_def performDash_def loadedTank_def
        initialTank_def plainThree_def rotateEuler_yaw_pi hasHorizontalInput_def noMovement_def
        addV_def multiplyScalar_def Let_def)

text \<open>
  The claim as stated, with the 0.5 seconds taken between the two requests, fails. The
  \<open>delta\<close> of the first frame after a request covers the time since the previous
  frame, most of which may lie before the request. Here \<open>Space\<close> is pressed 0.18 s
  after a frame, three frames of 0.1875 s follow, and \<open>Space\<close> is pressed again at
  0.57 s, which is 0.39 s after the first press: the frames have taken 0.5625 s off the
  cooldown, so it stands at \<open>-0.0625\<close>, and the second press adds a second impulse of
  15 to the velocity and starts the cooldown again.
\<close>

theorem second_dash_within_half_second:
  "(57 / 100 - 9 / 50 :: real) < 1 / 2 \<and>
   velocity (onKeyDownSpace plainThree 180 loadedTank) = Vector3 0 0 (- 15) \<and>
   dashCooldown (onKeyDownSpace plainThree 180 loadedTank) = 1 / 2 \<and>
   (\<exists>s s2. runEvents plainThree slowFrames dashSession = Inr s \<and>
      runEvents plainThree (slowFrames @ [SpaceDown (57 / 100) 570]) dashSession = Inr s2 \<and>
      oldTime s = 9 / 16 \<and>
      dashCooldown (sessionTank s) = - (1 / 16) \<and>
      velocity (sessionTank s) = Vector3 0 0 (- 15 * (1963 / 6400) ^ 3) \<and>
      velocity (sessionTank s2) = Vector3 0 0 (- 15 * (1963 / 6400) ^ 3 - 15) \<and>
      dashCooldown (sessionTank s2) = 1 / 2)"
proof -
  let ?f1 = "\<lparr>frameDelta = 3 / 16, frameNow = 188, frameRandom = 0\<rparr> :: frame"
  let ?f2 = "\<lparr>frameDelta = 3 / 16, frameNow = 375, frameRandom = 0\<rparr> :: frame"
  let ?f3 = "\<lparr>frameDelta = 3 / 16, frameNow = 563, frameRandom = 0\<rparr> :: frame"
  let ?t0 = "onKeyDownSpace plainThree 180 loadedTank"
  let ?t1 = "openWaterUpdate plainThree ?f1 ?t0"
  let ?t2 = "openWaterUpdate plainThree ?f2 ?t1"
  let ?t3 = "openWaterUpdate plainThree ?f3 ?t2"
  let ?s = "\<lparr>sessionTank = ?t3, oldTime = 9 / 16\<rparr>"
  let ?s2 = "\<lparr>sessionTank = onKeyDownSpace plainThree 570 ?t3, oldTime = 9 / 16\<rparr>"
  have d: "0 \<le> frameDelta ?f1" "frameDelta ?f1 \<le> 1 / 4" "0 \<le> frameDelta ?f2"
    "frameDelta ?f2 \<le> 1 / 4" "0 \<le> frameDelta ?f3" "frameDelta ?f3 \<le> 1 / 4"
    by simp_all
  note df = dashed_fields[of 180]
  note c1 = coasting_frame[OF df(1) _ df(2,3,4,5,6) _ df(7) d(1,2)]
  have w0: "(- 15 :: real) \<le> 0" by simp
  have r0: "rotation \<lparr>position = Vector3 0 0 0, rotation = Vector3 0 pi 0\<rparr> = Vector3 0 pi 0"
    by simp
  from c1(1)[OF r0 w0] obtain fr1 where g1: "frog ?t1 = Some fr1" "rotation fr1 = Vector3 0 pi 0"
    by blast
  note e1 = c1(2-10)[OF r0 w0]
  note c2 = coasting_frame[OF g1 e1(1,2,3,4,5,6,7) d(3,4)]
  from c2(1) obtain fr2 where g2: "frog ?t2 = Some fr2" "rotation fr2 = Vector3 0 pi 0"
    by blast
  note c3 = coasting_frame[OF g2 c2(2,3,4,5,6,7,8) d(5,6)]
  from c3(1) obtain fr3 where g3: "frog ?t3 = Some fr3" "rotation fr3 = Vector3 0 pi 0"
    by blast
  have m0: "\<not> sideScrollerMode ?t0" by (rule dashed_fields)
  have m1: "\<not> sideScrollerMode ?t1" using m0 by (simp add: mode_openWaterUpdate)
  have m2: "\<not> sideScrollerMode ?t2" using m1 by (simp add: mode_openWaterUpdate)
  have m3: "\<not> sideScrollerMode ?t3" using m2 by (simp add: mode_openWaterUpdate)
  have a1: "snd (animate plainThree ?f1 ?t0) = Inr ?t1"
    using m0 by (simp add: animate_def runChain_openWater Let_def)
  have a2: "snd (animate plainThree ?f2 ?t1) = Inr ?t2"
    using m1 by (simp add: animate_def runChain_openWater Let_def)
  have a3: "snd (animate plainThree ?f3 ?t2) = Inr ?t3"
    using m2 by (simp add: animate_def runChain_openWater Let_def)
  have h0: "handleEvent plainThree (SpaceDown (9 / 50) 180) dashSession =
      Inr \<lparr>sessionTank = ?t0, oldTime = 0\<rparr>"
    by (simp add: handleEvent_def dashSession_def)
  have h1: "handleEvent plainThree (AnimationFrame (3 / 16) 188 0) \<lparr>sessionTank = ?t0, oldTime = 0\<rparr> =
      Inr \<lparr>sessionTank = ?t1, oldTime = 3 / 16\<rparr>"
    using a1 by (simp add: handleEvent_def)
  have h2: "handleEvent plainThree (AnimationFrame (3 / 8) 375 0) \<lparr>sessionTank = ?t1, oldTime = 3 / 16\<rparr> =
      Inr \<lparr>sessionTank = ?t2, oldTime = 3 / 8\<rparr>"
    using a2 by (simp add: handleEvent_def)
  have h3: "handleEvent plainThree (AnimationFrame (9 / 16) 563 0) \<lparr>sessionTank = ?t2, oldTime = 3 / 8\<rparr> =
      Inr ?s"
    using a3 by (simp add: handleEvent_def)
  have h4: "handleEvent plainThree (SpaceDown (57 / 100) 570) ?s = Inr ?s2"
    by (simp add: handleEvent_def)
  have run: "runEvents plainThree slowFrames dashSession = Inr ?s"
    by (simp only: slowFrames_def runEvents.simps h0 h1 h2 h3 sum.case)
  have run2: "runEvents plainThree (slowFrames @ [SpaceDown (57 / 100) 570]) dashSession = Inr ?s2"
    by (simp only: slowFrames_def append.simps runEvents.simps h0 h1 h2 h3 h4 sum.case)
  have l0: "frog ?t0 \<noteq> None" by (simp add: dashed_fields)
  have l1: "frog ?t1 \<noteq> None" using g1 by simp
  have l2: "frog ?t2 \<noteq> None" using g2 by simp
  have k1: "dashCooldown ?t1 = 5 / 16"
    using l0 by (simp add: dashCooldown_openWaterUpdate dashed_fields)
  have k2: "dashCooldown ?t2 = 1 / 8"
    using l1 by (simp add: dashCooldown_openWaterUpdate[of plainThree ?f2] k1)
  have k3: "dashCooldown ?t3 = - (1 / 16)"
    using l2 by (simp add: dashCooldown_openWaterUpdate[of plainThree ?f3] k2)
  have v3: "velocity ?t3 = Vector3 0 0 (- 15 * (1963 / 6400) ^ 3)"
    by (simp add: c3(6) power3_eq_cube)
  have mv: "movement ?t3 = noMovement" by (rule c3(2))
  have df: "dashForce ?t3 = 15" by (simp add: c3(9) c2(9) e1(8) dashed_fields)
  have p: "performDash plainThree (resetAutopilotTimer 570 ?t3) =
      (resetAutopilotTimer 570 ?t3)\<lparr>velocity := addV (velocity ?t3) (Vector3 0 0 (- 15)),
         dashCooldown := 1 / 2\<rparr>"
    using g3 k3 mv df
    by (simp add: performDash_def resetAutopilotTimer_fields hasHorizontalInput_def noMovement_def
          plainThree_def rotateEuler_yaw_pi multiplyScalar_def Let_def)
  have o: "onKeyDownSpace plainThree 570 ?t3 =
      (resetAutopilotTimer 570 ?t3)\<lparr>velocity := addV (velocity ?t3) (Vector3 0 0 (- 15)),
         dashCooldown := 1 / 2\<rparr>"
    using m3 p by (simp add: onKeyDownSpace_def)
  have v4: "velocity (sessionTank ?s2) = Vector3 0 0 (- 15 * (1963 / 6400) ^ 3 - 15)"
    by (simp add: o v3 addV_def)
  have k4: "dashCooldown (sessionTank ?s2) = 1 / 2" by (simp add: o)
  have x: "(57 / 100 - 9 / 50 :: real) < 1 / 2" by simp
  have y: "velocity ?t0 = Vector3 0 0 (- 15)" "dashCooldown ?t0 = 1 / 2"
    by (rule dashed_fields)+
  have z: "oldTime ?s = 9 / 16" "dashCooldown (sessionTank ?s) = - (1 / 16)"
    "velocity (sessionTank ?s) = Vector3 0 0 (- 15 * (1963 / 6400) ^ 3)"
    using k3 v3 by simp_all
  from x y run run2 z v4 k4 show ?thesis by blast
qed

section \<open>Tank bounds\<close>

text \<open>
  The clamp of \<open>updateMovement\<close> does what its comment says: right after movement
  integration the avatar is inside the tank, provided the bounds are ordered.
\<close>

lemma clampToTankBounds_in_bounds:
  assumes "0 \<le> config.width cfg" and "floorY cfg \<le> ceilingY cfg"
  shows "- config.width cfg \<le> vx (clampToTankBounds cfg p) \<and>
         vx (clampToTankBounds cfg p) \<le> config.width cfg \<and>
         - config.width cfg \<le> vz (clampToTankBounds cfg p) \<and>
         vz (clampToTankBounds cfg p) \<le> config.width cfg \<and>
         floorY cfg \<le> vy (clampToTankBounds cfg p) \<and>
         vy (clampToTankBounds cfg p) \<le> ceilingY cfg"
  using assms by (simp add: clampToTankBounds_def setX_def setY_def setZ_def Let_def)

lemma updateMovement_position:
  "frog tank = Some fr \<Longrightarrow>
   frogPosition (updateMovement E tank delta) =
     clampToTankBounds (config tank)
       (addV (position fr) (multiplyScalar (velocity (updateMovement E tank delta)) delta)) \<and>
   map_option position (frog (updateMovement E tank delta)) =
     Some (frogPosition (updateMovement E tank delta)) \<and>
   config (updateMovement E tank delta) = config tank"
  by (simp add: updateMovement_def Let_def)

lemma updateMovement_in_bounds:
  assumes "frog tank = Some fr" and "0 \<le> config.width (config tank)"
    and "floorY (config tank) \<le> ceilingY (config tank)"
  shows "- config.width (config tank) \<le> vx (frogPosition (updateMovement E tank delta)) \<and>
         vx (frogPosition (updateMovement E tank delta)) \<le> config.width (config tank) \<and>
         - config.width (config tank) \<le> vz (frogPosition (updateMovement E tank delta)) \<and>
         vz (frogPosition (updateMovement E tank delta)) \<le> config.width (config tank) \<and>
         floorY (config tank) \<le> vy (frogPosition (updateMovement E tank delta)) \<and>
         vy (frogPosition (updateMovement E tank delta)) \<le> ceilingY (config tank)"
  using updateMovement_position[OF assms(1), of E delta]
    clampToTankBounds_in_bounds[OF assms(2,3)]
  by simp

lemma animation_offset:
  assumes "frog tank = Some fr" and "0 \<le> delta"
  shows "vx (frogPosition (updateFrogAnimation tank delta)) = vx (position fr) \<and>
         vz (frogPosition (updateFrogAnimation tank delta)) = vz (position fr) \<and>
         \<bar>vy (frogPosition (updateFrogAnimation tank delta)) - vy (position fr)\<bar> \<le> 0.05 * delta"
proof -
  have s: "\<bar>sin x * a * delta\<bar> \<le> a * delta" if "0 \<le> a" for x a :: real
  proof -
    have "\<bar>sin x * a * delta\<bar> = \<bar>sin x\<bar> * (a * delta)"
      using that assms(2) by (simp add: abs_mult)
    also have "\<dots> \<le> 1 * (a * delta)"
      using that assms(2) by (intro mult_right_mono) simp_all
    finally show ?thesis by simp
  qed
  have "\<bar>sin x * 0.05 * delta\<bar> \<le> 0.05 * delta" for x :: real
    using s[of "0.05" x] by simp
  moreover have "\<bar>sin x * 0.02 * delta\<bar> \<le> 0.05 * delta" for x :: real
  proof -
    have "\<bar>sin x * 0.02 * delta\<bar> \<le> 0.02 * delta" using s[of "0.02" x] by simp
    also have "\<dots> \<le> 0.05 * delta" using assms(2) by simp
    finally show ?thesis .
  qed
  ultimately show ?thesis
    using assms(1) by (simp add: updateFrogAnimation_def Let_def setY_def)
qed

text \<open>
  At the end of an open-water frame the horizontal components are still inside the
  bounds, and the vertical component is off by at most the bob of
  \<open>updateFrogAnimation\<close>, which runs after the clamp: 0.05 times \<open>delta\<close>.
\<close>

lemma end_of_frame_position:
  assumes "frog tank = Some fr" and "0 \<le> frameDelta f"
    and "0 \<le> config.width (config tank)" and "floorY (config tank) \<le> ceilingY (config tank)"
  shows "- config.width (config tank) \<le> vx (frogPosition (openWaterUpdate E f tank)) \<and>
         vx (frogPosition (openWaterUpdate E f tank)) \<le> config.width (config tank) \<and>
         - config.width (config tank) \<le> vz (frogPosition (openWaterUpdate E f tank)) \<and>
         vz (frogPosition (openWaterUpdate E f tank)) \<le> config.width (config tank) \<and>
         floorY (config tank) - 0.05 * frameDelta f \<le> vy (frogPosition (openWaterUpdate E f tank)) \<and>
         vy (frogPosition (openWaterUpdate E f tank)) \<le> ceilingY (config tank) + 0.05 * frameDelta f"
proof -
  let ?t1 = "updateMovement E tank (frameDelta f)"
  let ?t2 = "updateAutopilot E (frameNow f) (frameRandom f) ?t1 (frameDelta f)"
  note p = updateMovement_position[OF assms(1), of E "frameDelta f"]
  from p have q: "map_option position (frog ?t1) = Some (frogPosition ?t1)" by blast
  have "map_option position (frog ?t2) = Some (frogPosition ?t1)"
    by (simp only: avatar_updateAutopilot(2) q)
  then obtain fr2 where f2: "frog ?t2 = Some fr2" and p2: "position fr2 = frogPosition ?t1"
    by (cases "frog ?t2") auto
  note a = animation_offset[OF f2 assms(2)]
  note b = updateMovement_in_bounds[OF assms(1,3,4), of E "frameDelta f"]
  let ?q = "frogPosition (updateFrogAnimation ?t2 (frameDelta f))"
  from a p2 have x: "vx ?q = vx (frogPosition ?t1)" and z: "vz ?q = vz (frogPosition ?t1)"
    and y: "\<bar>vy ?q - vy (frogPosition ?t1)\<bar> \<le> 0.05 * frameDelta f"
    by simp_all
  from y have y1: "vy (frogPosition ?t1) - 0.05 * frameDelta f \<le> vy ?q"
    and y2: "vy ?q \<le> vy (frogPosition ?t1) + 0.05 * frameDelta f"
    by linarith+
  from b x z y1 y2 show ?thesis
    unfolding avatar_openWaterUpdate by (intro conjI) linarith+
qed

lemma ceiling_movement:
  "updateMovement plainThree ceilingTank (1 / 60) =
     ceilingTank\<lparr>velocity := Vector3 0 (1 / 10) 0\<rparr>"
  by (simp add: updateMovement_def ceilingTank_def initialTank_def initialConfig_def
        noMovement_def plainThree_def applyFriction_def applyMovementForce_def
        clampToTankBounds_def handleRotation_def hasHorizontalInput_def intentVector_def
        vec_eval Let_def)

lemma ceiling_fields:
  "allObjects ceilingTank = []" "\<not> multiFrogMode ceilingTank" "\<not> sideScrollerMode ceilingTank"
  "selectedObject ceilingTank = None" "ceilingY (config ceilingTank) = 15"
  by (simp_all add: ceilingTank_def initialTank_def initialConfig_def)

lemma ceiling_animation:
  "updateFrogAnimation (ceilingTank\<lparr>velocity := Vector3 0 (1 / 10) 0\<rparr>) (1 / 60) =
     ceilingTank\<lparr>velocity := Vector3 0 (1 / 10) 0, swimTime := 1 / 60,
       frog := Some \<lparr>position = Vector3 0 (15 + sin (2 / 15) / 1200) 0, rotation = Vector3 0 pi 0\<rparr>,
       frogPosition := Vector3 0 (15 + sin (2 / 15) / 1200) 0\<rparr>"
  by (simp add: updateFrogAnimation_def ceilingTank_def initialTank_def initialConfig_def
        noMovement_def vec_eval Let_def)

lemma ceiling_frame:
  "frogPosition (openWaterUpdate plainThree frame60 ceilingTank) =
     Vector3 0 (15 + sin (2 / 15) / 1200) 0"
  by (simp add: openWaterUpdate_def frame60_def ceiling_movement ceiling_fields
        updateAutopilot_noop ceiling_animation updateAdditionalFrogs_def
        updateCameraPosition_def updateObjectSelection_def bestObject_def
        updateEnvironment_def checkCollisions_def Let_def)

lemma sin_2_15: "0 < sin (2 / 15 :: real)"
proof -
  have "(2 / 15 :: real) < pi" using pi_ge_two by simp
  then show ?thesis by (simp add: sin_gt_zero)
qed

text \<open>
  Claim C2 at a failing input. The avatar is at the ceiling with the up intent pressed.
  \<open>updateMovement\<close> clamps the position to the ceiling; \<open>updateFrogAnimation\<close> then adds
  its bob to the vertical component, and nothing clamps again: at the end of the frame
  the avatar is above \<open>ceilingY\<close>.
\<close>

theorem bob_escapes_clamp:
  "frog ceilingTank = Some \<lparr>position = Vector3 0 15 0, rotation = Vector3 0 pi 0\<rparr> \<and>
   up (movement ceilingTank) \<and>
   snd (animate plainThree frame60 ceilingTank) =
     Inr (openWaterUpdate plainThree frame60 ceilingTank) \<and>
   frogPosition (updateMovement plainThree ceilingTank (frameDelta frame60)) = Vector3 0 15 0 \<and>
   frogPosition (openWaterUpdate plainThree frame60 ceilingTank) =
     Vector3 0 (15 + sin (2 / 15) / 1200) 0 \<and>
   ceilingY (config ceilingTank) < vy (frogPosition (openWaterUpdate plainThree frame60 ceilingTank))"
proof -
  have a: "frog ceilingTank = Some \<lparr>position = Vector3 0 15 0, rotation = Vector3 0 pi 0\<rparr>"
    and b: "up (movement ceilingTank)"
    by (simp_all add: ceilingTank_def noMovement_def)
  have c: "snd (animate plainThree frame60 ceilingTank) =
     Inr (openWaterUpdate plainThree frame60 ceilingTank)"
    by (simp add: animate_def ceiling_fields runChain_openWater Let_def)
  have d: "frogPosition (updateMovement plainThree ceilingTank (frameDelta frame60)) = Vector3 0 15 0"
    by (simp add: frame60_def ceiling_movement) (simp add: ceilingTank_def)
  have e: "ceilingY (config ceilingTank) < vy (frogPosition (openWaterUpdate plainThree frame60 ceilingTank))"
    using sin_2_15 by (simp add: ceiling_frame ceiling_fields)
  from a b c d e ceiling_frame show ?thesis by blast
qed

section \<open>Sub-agent steering\<close>

lemma checkMinimumSeparation_iff:
  "checkMinimumSeparation tank i \<longleftrightarrow>
     distanceTo (position (otherFrogs tank ! i)) (frogPosition tank)
       < minSeparation (otherFrogs tank ! i) \<or>
     (\<exists>j < length (otherFrogs tank). j \<noteq> i \<and>
        distanceTo (position (otherFrogs tank ! i)) (position (otherFrogs tank ! j))
          < minSeparation (otherFrogs tank ! i))"
  by (auto simp add: checkMinimumSeparation_def Let_def list_ex_iff)

lemma arriveOrFace_fields:
  "acceleration (arriveOrFace fd tgt) = acceleration fd"
  "position (arriveOrFace fd tgt) = position fd"
  "minSeparation (arriveOrFace fd tgt) = minSeparation fd"
  by (simp_all add: arriveOrFace_def Let_def)

lemma updateFrogMovement_acceleration:
  assumes "i < length (otherFrogs tank)"
    and "deref tank (target (otherFrogs tank ! i)) = Some tgt"
  shows "acceleration (otherFrogs (updateFrogMovement tank i delta) ! i) =
           multiplyScalar (steeringAcceleration tank i (position tgt)) delta"
  using assms by (simp add: updateFrogMovement_def Let_def arriveOrFace_fields)

text \<open>
  Claim C7. For a sub-agent tick with a target and \<open>isMoving\<close>: the emergency check
  holds exactly when the agent is closer than \<open>minSeparation\<close> to the avatar or to some
  other sub-agent; then the acceleration accumulated for the tick is 1.5 times the
  separation force and nothing else, and otherwise it is 1.0 times the seek force
  \<open>clamp(normalize(target - position) * speed - velocity, maxForce)\<close> plus 0.8 times the
  separation force. The tick integrates that acceleration: the stored field ends as the
  acceleration times \<open>delta\<close>.
\<close>

theorem steering_blend:
  assumes "i < length (otherFrogs tank)"
    and "deref tank (target (otherFrogs tank ! i)) = Some tgt"
    and "isMoving (otherFrogs tank ! i)"
  shows "(checkMinimumSeparation tank i \<longleftrightarrow>
            distanceTo (position (otherFrogs tank ! i)) (frogPosition tank)
              < minSeparation (otherFrogs tank ! i) \<or>
            (\<exists>j < length (otherFrogs tank). j \<noteq> i \<and>
               distanceTo (position (otherFrogs tank ! i)) (position (otherFrogs tank ! j))
                 < minSeparation (otherFrogs tank ! i))) \<and>
         steeringAcceleration tank i (position tgt) =
           (if checkMinimumSeparation tank i then
              multiplyScalar (calculateSeparation tank i) 1.5
            else
              addV
                (multiplyScalar
                   (clampLength
                      (subV
                         (multiplyScalar
                            (normalizeV (subV (position tgt) (position (otherFrogs tank ! i))))
                            (frog_data.speed (otherFrogs tank ! i)))
                         (frog_data.velocity (otherFrogs tank ! i)))
                      0 (maxForce (otherFrogs tank ! i)))
                   1.0)
                (multiplyScalar (calculateSeparation tank i) 0.8)) \<and>
         acceleration (otherFrogs (frogTick delta tank i) ! i) =
           multiplyScalar (steeringAcceleration tank i (position tgt)) delta"
proof (intro conjI)
  show "checkMinimumSeparation tank i \<longleftrightarrow>
            distanceTo (position (otherFrogs tank ! i)) (frogPosition tank)
              < minSeparation (otherFrogs tank ! i) \<or>
            (\<exists>j < length (otherFrogs tank). j \<noteq> i \<and>
               distanceTo (position (otherFrogs tank ! i)) (position (otherFrogs tank ! j))
                 < minSeparation (otherFrogs tank ! i))"
    by (rule checkMinimumSeparation_iff)
  show "steeringAcceleration tank i (position tgt) =
           (if checkMinimumSeparation tank i then
              multiplyScalar (calculateSeparation tank i) 1.5
            else
              addV
                (multiplyScalar
                   (clampLength
                      (subV
                         (multiplyScalar
                            (normalizeV (subV (position tgt) (position (otherFrogs tank ! i))))
                            (frog_data.speed (otherFrogs tank ! i)))
                         (frog_data.velocity (otherFrogs tank ! i)))
                      0 (maxForce (otherFrogs tank ! i)))
                   1.0)
                (multiplyScalar (calculateSeparation tank i) 0.8))"
    by (simp add: steeringAcceleration_def calculateSeek_def Let_def addV_zero_left)
  show "acceleration (otherFrogs (frogTick delta tank i) ! i) =
           multiplyScalar (steeringAcceleration tank i (position tgt)) delta"
    using assms by (simp add: frogTick_def updateFrogMovement_acceleration)
qed

lemma flock_frogs: "otherFrogs flockTank =
  [(subAgent (Vector3 0 10 0))\<lparr>target := Some 0, isMoving := True\<rparr>,
   (subAgent (Vector3 0 11 0))\<lparr>target := Some 0, isMoving := True\<rparr>,
   (subAgent (Vector3 0 20 0))\<lparr>target := Some 0, isMoving := True\<rparr>]"
  by (simp add: flockTank_def makeFrogsSwimToFolder_def)

lemma flock_fields: "frogPosition flockTank = Vector3 0 0 0" "allObjects flockTank = [sampleFolder]"
  by (simp_all add: flockTank_def makeFrogsSwimToFolder_def loadedTank_def initialTank_def)

lemma flock_tooClose_0: "checkMinimumSeparation flockTank 0"
  by (simp add: checkMinimumSeparation_def flock_frogs flock_fields subAgent_def vec_eval Let_def upt3)

lemma flock_tooClose_2: "\<not> checkMinimumSeparation flockTank 2"
  by (simp add: checkMinimumSeparation_def flock_frogs flock_fields subAgent_def vec_eval Let_def upt3 eval_nat_numeral)

lemma flock_separation_0: "calculateSeparation flockTank 0 = Vector3 0 (- 3 / 2) 0"
  by (simp add: calculateSeparation_def repel_def flock_frogs flock_fields subAgent_def vec_eval Let_def upt3)

lemma flock_separation_2: "calculateSeparation flockTank 2 = Vector3 0 0 0"
  by (simp add: calculateSeparation_def repel_def flock_frogs flock_fields subAgent_def vec_eval Let_def upt3 eval_nat_numeral)

theorem steering_blend_witness:
  "checkMinimumSeparation flockTank 0 \<and>
   steeringAcceleration flockTank 0 (position sampleFolder) = Vector3 0 (- 9 / 4) 0 \<and>
   acceleration (otherFrogs (frogTick (1 / 60) flockTank 0) ! 0) = Vector3 0 (- 3 / 80) 0 \<and>
   \<not> checkMinimumSeparation flockTank 2 \<and>
   steeringAcceleration flockTank 2 (position sampleFolder) = Vector3 0 (- 2) 0 \<and>
   acceleration (otherFrogs (frogTick (1 / 60) flockTank 2) ! 2) = Vector3 0 (- 1 / 30) 0"
proof -
  have l: "0 < length (otherFrogs flockTank)" "2 < length (otherFrogs flockTank)"
    by (simp_all add: flock_frogs)
  have t: "deref flockTank (target (otherFrogs flockTank ! 0)) = Some sampleFolder"
    "deref flockTank (target (otherFrogs flockTank ! 2)) = Some sampleFolder"
    by (simp_all add: deref_def flock_frogs flock_fields subAgent_def eval_nat_numeral)
  have m: "isMoving (otherFrogs flockTank ! 0)" "isMoving (otherFrogs flockTank ! 2)"
    by (simp_all add: flock_frogs subAgent_def eval_nat_numeral)
  have f0: "otherFrogs flockTank ! 0 = (subAgent (Vector3 0 10 0))\<lparr>target := Some 0, isMoving := True\<rparr>"
    by (simp add: flock_frogs)
  have f2: "otherFrogs flockTank ! 2 = (subAgent (Vector3 0 20 0))\<lparr>target := Some 0, isMoving := True\<rparr>"
    by (simp add: flock_frogs eval_nat_numeral)
  note A = steering_blend[OF l(1) t(1) m(1), of "1 / 60"]
  note B = steering_blend[OF l(2) t(2) m(2), of "1 / 60"]
  have a0: "steeringAcceleration flockTank 0 (position sampleFolder) = Vector3 0 (- 9 / 4) 0"
    using A flock_tooClose_0 by (simp add: flock_separation_0 multiplyScalar_def)
  have a2: "steeringAcceleration flockTank 2 (position sampleFolder) = Vector3 0 (- 2) 0"
    using B flock_tooClose_2 by (simp add: flock_separation_2 f2 subAgent_def sampleFolder_def vec_eval)
  from A a0 have b0: "acceleration (otherFrogs (frogTick (1 / 60) flockTank 0) ! 0) = Vector3 0 (- 3 / 80) 0"
    by (simp add: multiplyScalar_def)
  from B a2 have b2: "acceleration (otherFrogs (frogTick (1 / 60) flockTank 2) ! 2) = Vector3 0 (- 1 / 30) 0"
    by (simp add: multiplyScalar_def)
  from flock_tooClose_0 flock_tooClose_2 a0 a2 b0 b2 show ?thesis by blast
qed

section \<open>Separation of the sub-agents\<close>

lemma separated_iff:
  "separated m fs \<longleftrightarrow>
     (\<forall>i<length fs. \<forall>j<length fs. i \<noteq> j \<longrightarrow>
        m \<le> distanceTo (position (fs ! i)) (position (fs ! j)))"
proof -
  have "separated m fs \<longleftrightarrow>
     (\<forall>i. i < length fs \<longrightarrow> (\<forall>j. j < length fs \<longrightarrow>
        i = j \<or> m \<le> distanceTo (position (fs ! i)) (position (fs ! j))))"
    by (simp add: separated_def list_all_iff Ball_def)
  then show ?thesis by blast
qed

lemma uniformSeparation_iff:
  "uniformSeparation m fs \<longleftrightarrow> (\<forall>i<length fs. minSeparation (fs ! i) = m)"
  by (simp add: uniformSeparation_def list_all_length)

lemma wouldCauseOverlap_iff:
  "wouldCauseOverlap tank i newPosition \<longleftrightarrow>
     distanceTo newPosition (frogPosition tank) < minSeparation (otherFrogs tank ! i) \<or>
     (\<exists>j < length (otherFrogs tank). j \<noteq> i \<and>
        distanceTo newPosition (position (otherFrogs tank ! j))
          < minSeparation (otherFrogs tank ! i))"
  by (auto simp add: wouldCauseOverlap_def Let_def list_ex_iff)

lemma distanceTo_ge_height: "\<bar>vy a - vy b\<bar> \<le> distanceTo a b"
proof -
  have "(vy a - vy b) * (vy a - vy b) \<le> distanceToSquared a b"
    by (simp add: distanceToSquared_def Let_def)
  then have "sqrt ((vy a - vy b) * (vy a - vy b)) \<le> distanceTo a b"
    unfolding distanceTo_def by (rule real_sqrt_le_mono)
  then show ?thesis by simp
qed

text \<open>
  The sub-agents that \<open>createAdditionalFrogs\<close> creates, one for each index and in
  whatever order their models load, start separated: their heights differ by at least
  three units.
\<close>

lemma created_separated:
  assumes "distinct (map fst cs)"
  shows "separated (3 / 2) (map (\<lambda>(i, a, b). createdFrog i a b) cs) \<and>
         uniformSeparation (3 / 2) (map (\<lambda>(i, a, b). createdFrog i a b) cs)"
proof
  show "uniformSeparation (3 / 2) (map (\<lambda>(i, a, b). createdFrog i a b) cs)"
    by (auto simp add: uniformSeparation_def list_all_iff createdFrog_def Let_def)
  show "separated (3 / 2) (map (\<lambda>(i, a, b). createdFrog i a b) cs)"
    unfolding separated_iff
  proof (intro allI impI)
    fix k l
    assume k: "k < length (map (\<lambda>(i, a, b). createdFrog i a b) cs)"
      and l: "l < length (map (\<lambda>(i, a, b). createdFrog i a b) cs)" and kl: "k \<noteq> l"
    obtain i a b where ck: "cs ! k = (i, a, b)" by (cases "cs ! k")
    obtain j c d where cl: "cs ! l = (j, c, d)" by (cases "cs ! l")
    from k l have k': "k < length (map fst cs)" and l': "l < length (map fst cs)" by simp_all
    from assms k' l' kl have "map fst cs ! k \<noteq> map fst cs ! l"
      using nth_eq_iff_index_eq by blast
    with k l ck cl have ij: "i \<noteq> j" by simp
    then have "3 \<le> \<bar>(10 + real i * 3) - (10 + real j * 3)\<bar>"
      by (cases "i < j") (simp_all add: abs_if)
    also have "\<dots> = \<bar>vy (position (createdFrog i a b)) - vy (position (createdFrog j c d))\<bar>"
      by (simp add: createdFrog_def Let_def)
    also have "\<dots> \<le> distanceTo (position (createdFrog i a b)) (position (createdFrog j c d))"
      by (rule distanceTo_ge_height)
    finally show "3 / 2 \<le> distanceTo (position (map (\<lambda>(i, a, b). createdFrog i a b) cs ! k))
        (position (map (\<lambda>(i, a, b). createdFrog i a b) cs ! l))"
      using k l ck cl by simp
  qed
qed

text \<open>What one sub-agent tick does to the list of sub-agents.\<close>

lemma frogTick_effect:
  assumes "i < length (otherFrogs tank)"
  shows "otherFrogs (frogTick delta tank i) =
           (otherFrogs tank)[i := otherFrogs (frogTick delta tank i) ! i] \<and>
         minSeparation (otherFrogs (frogTick delta tank i) ! i) =
           minSeparation (otherFrogs tank ! i) \<and>
         (position (otherFrogs (frogTick delta tank i) ! i) = position (otherFrogs tank ! i) \<or>
          \<not> wouldCauseOverlap tank i (position (otherFrogs (frogTick delta tank i) ! i)))"
proof (cases "deref tank (target (otherFrogs tank ! i)) \<noteq> None \<and> isMoving (otherFrogs tank ! i)")
  case False
  then have "frogTick delta tank i = tank" by (auto simp add: frogTick_def Let_def)
  then show ?thesis by simp
next
  case True
  then obtain tgt where t: "deref tank (target (otherFrogs tank ! i)) = Some tgt" by auto
  with True have e: "frogTick delta tank i = updateFrogMovement tank i delta"
    by (simp add: frogTick_def Let_def)
  show ?thesis
    unfolding e using t assms
    by (simp add: updateFrogMovement_def Let_def arriveOrFace_fields)
qed

lemma separated_update:
  assumes i: "i < length fs" and s: "separated m fs"
    and p: "position fd1 = position (fs ! i) \<or>
            (\<forall>j<length fs. j \<noteq> i \<longrightarrow> m \<le> distanceTo (position fd1) (position (fs ! j)))"
  shows "separated m (fs[i := fd1])"
  unfolding separated_iff
proof (intro allI impI)
  fix a b
  assume a: "a < length (fs[i := fd1])" and b: "b < length (fs[i := fd1])" and ab: "a \<noteq> b"
  then have a': "a < length fs" and b': "b < length fs" by simp_all
  from s a' b' ab have old: "m \<le> distanceTo (position (fs ! a)) (position (fs ! b))"
    by (simp add: separated_iff)
  show "m \<le> distanceTo (position (fs[i := fd1] ! a)) (position (fs[i := fd1] ! b))"
  proof (cases "position fd1 = position (fs ! i)")
    case True
    have "position (fs[i := fd1] ! k) = position (fs ! k)" if "k < length fs" for k
      using that True by (cases "k = i") simp_all
    with a' b' old show ?thesis by simp
  next
    case False
    with p have q: "\<forall>j<length fs. j \<noteq> i \<longrightarrow> m \<le> distanceTo (position fd1) (position (fs ! j))"
      by blast
    show ?thesis
    proof (cases "a = i")
      case True
      with ab have "b \<noteq> i" by simp
      with True q b' i show ?thesis by simp
    next
      case na: False
      show ?thesis
      proof (cases "b = i")
        case True
        with na q a' i have "m \<le> distanceTo (position fd1) (position (fs ! a))" by simp
        with True na i show ?thesis by (simp add: distanceTo_commute)
      next
        case False
        with na old show ?thesis by simp
      qed
    qed
  qed
qed

lemma frogTick_separated:
  assumes i: "i < length (otherFrogs tank)"
    and u: "uniformSeparation m (otherFrogs tank)"
    and s: "separated m (otherFrogs tank)"
  shows "separated m (otherFrogs (frogTick delta tank i)) \<and>
         uniformSeparation m (otherFrogs (frogTick delta tank i)) \<and>
         length (otherFrogs (frogTick delta tank i)) = length (otherFrogs tank)"
proof -
  let ?fs = "otherFrogs tank"
  let ?fd1 = "otherFrogs (frogTick delta tank i) ! i"
  note e = frogTick_effect[OF i, of delta]
  from e have l: "otherFrogs (frogTick delta tank i) = ?fs[i := ?fd1]" by blast
  from e u i have ms: "minSeparation ?fd1 = m" by (simp add: uniformSeparation_iff)
  from u i have mi: "minSeparation (?fs ! i) = m" by (simp add: uniformSeparation_iff)
  from e have "position ?fd1 = position (?fs ! i) \<or> \<not> wouldCauseOverlap tank i (position ?fd1)"
    by blast
  then have p: "position ?fd1 = position (?fs ! i) \<or>
            (\<forall>j<length ?fs. j \<noteq> i \<longrightarrow> m \<le> distanceTo (position ?fd1) (position (?fs ! j)))"
  proof
    assume "position ?fd1 = position (?fs ! i)"
    then show ?thesis by (rule disjI1)
  next
    assume "\<not> wouldCauseOverlap tank i (position ?fd1)"
    then have "\<forall>j<length ?fs. j \<noteq> i \<longrightarrow>
        \<not> distanceTo (position ?fd1) (position (?fs ! j)) < minSeparation (?fs ! i)"
      unfolding wouldCauseOverlap_iff by blast
    then have "\<forall>j<length ?fs. j \<noteq> i \<longrightarrow> m \<le> distanceTo (position ?fd1) (position (?fs ! j))"
      by (simp add: mi not_less)
    then show ?thesis by (rule disjI2)
  qed
  from separated_update[OF i s p] have a: "separated m (?fs[i := ?fd1])" .
  have b: "uniformSeparation m (?fs[i := ?fd1])"
    unfolding uniformSeparation_iff
  proof (intro allI impI)
    fix k assume "k < length (?fs[i := ?fd1])"
    then have "k < length ?fs" by simp
    with u ms show "minSeparation (?fs[i := ?fd1] ! k) = m"
      by (cases "k = i") (simp_all add: uniformSeparation_iff)
  qed
  have c: "length (?fs[i := ?fd1]) = length ?fs" by simp
  from a b c show ?thesis by (subst l, subst l, subst l) blast
qed

lemma frogTick_avatar:
  assumes i: "i < length (otherFrogs tank)"
  shows "position (otherFrogs (frogTick delta tank i) ! i) = position (otherFrogs tank ! i) \<or>
         minSeparation (otherFrogs tank ! i)
           \<le> distanceTo (position (otherFrogs (frogTick delta tank i) ! i)) (frogPosition tank)"
  using frogTick_effect[OF i, of delta] unfolding wouldCauseOverlap_iff not_less[symmetric]
  by blast

lemma fold_separated:
  assumes "\<forall>i\<in>set is. i < length (otherFrogs tank)"
    and "uniformSeparation m (otherFrogs tank)" and "separated m (otherFrogs tank)"
  shows "separated m (otherFrogs (foldl (frogTick delta) tank is)) \<and>
         uniformSeparation m (otherFrogs (foldl (frogTick delta) tank is)) \<and>
         length (otherFrogs (foldl (frogTick delta) tank is)) = length (otherFrogs tank)"
  using assms
proof (induction "is" arbitrary: tank)
  case Nil
  then show ?case by simp
next
  case (Cons i "is")
  from Cons.prems have i: "i < length (otherFrogs tank)" by simp
  note t = frogTick_separated[OF i Cons.prems(2,3), of delta]
  from t Cons.prems(1) have "\<forall>k\<in>set is. k < length (otherFrogs (frogTick delta tank i))"
    by simp
  from Cons.IH[OF this] t show ?case by simp
qed

lemma updateAdditionalFrogs_separated:
  assumes "uniformSeparation m (otherFrogs tank)" and "separated m (otherFrogs tank)"
  shows "separated m (otherFrogs (updateAdditionalFrogs tank delta)) \<and>
         uniformSeparation m (otherFrogs (updateAdditionalFrogs tank delta))"
proof (cases "multiFrogMode tank")
  case False
  with assms show ?thesis by (simp add: updateAdditionalFrogs_def)
next
  case True
  have "\<forall>i\<in>set [0..<length (otherFrogs tank)]. i < length (otherFrogs tank)" by simp
  from fold_separated[OF this assms, of delta] True show ?thesis
    by (simp add: updateAdditionalFrogs_def)
qed

lemma separated_cong:
  assumes "map position fs1 = map position fs"
  shows "separated m fs1 = separated m fs"
proof -
  from assms have l: "length fs1 = length fs" by (metis length_map)
  have "position (fs1 ! i) = position (fs ! i)" if "i < length fs" for i
    using that l assms by (metis nth_map)
  with l show ?thesis by (simp add: separated_iff)
qed

lemma uniformSeparation_cong:
  assumes "map minSeparation fs1 = map minSeparation fs"
  shows "uniformSeparation m fs1 = uniformSeparation m fs"
proof -
  from assms have l: "length fs1 = length fs" by (metis length_map)
  have "minSeparation (fs1 ! i) = minSeparation (fs ! i)" if "i < length fs" for i
    using that l assms by (metis nth_map)
  with l show ?thesis by (simp add: uniformSeparation_iff)
qed

lemma selection_separated:
  assumes "uniformSeparation m (otherFrogs tank)" and "separated m (otherFrogs tank)"
  shows "separated m (otherFrogs (updateObjectSelection E tank)) \<and>
         uniformSeparation m (otherFrogs (updateObjectSelection E tank))"
  using assms separated_cong[OF otherFrogs_updateObjectSelection(1), of m E tank]
    uniformSeparation_cong[OF otherFrogs_updateObjectSelection(2), of m E tank]
  by simp

lemma openWater_separated:
  assumes "uniformSeparation m (otherFrogs tank)" and "separated m (otherFrogs tank)"
  shows "separated m (otherFrogs (openWaterUpdate E fr tank)) \<and>
         uniformSeparation m (otherFrogs (openWaterUpdate E fr tank))"
proof -
  let ?t3 = "updateFrogAnimation
      (updateAutopilot E (frameNow fr) (frameRandom fr) (updateMovement E tank (frameDelta fr))
         (frameDelta fr)) (frameDelta fr)"
  have "otherFrogs ?t3 = otherFrogs tank" by (simp add: otherFrogs_updateFrogAnimation otherFrogs_updateAutopilot otherFrogs_updateMovement)
  with assms have a: "uniformSeparation m (otherFrogs ?t3)" and b: "separated m (otherFrogs ?t3)"
    by simp_all
  let ?t5 = "updateCameraPosition E (updateAdditionalFrogs ?t3 (frameDelta fr))"
  from updateAdditionalFrogs_separated[OF a b, of "frameDelta fr"]
  have c: "uniformSeparation m (otherFrogs ?t5)" and d: "separated m (otherFrogs ?t5)"
    by (simp_all add: otherFrogs_updateCameraPosition)
  from selection_separated[OF c d, of E] show ?thesis
    by (simp add: openWaterUpdate_def otherFrogs_checkCollisions otherFrogs_updateEnvironment)
qed

lemma animate_separated:
  assumes "uniformSeparation m (otherFrogs tank)" and "separated m (otherFrogs tank)"
    and "snd (animate E fr tank) = Inr tank1"
  shows "separated m (otherFrogs tank1) \<and> uniformSeparation m (otherFrogs tank1)"
proof (cases "sideScrollerMode tank")
  case True
  with assms(3) have "updateSideScroller tank (frameDelta fr) = Inr tank1"
    by (simp add: animate_def split: sum.splits)
  from sideScroller_otherFrogs[OF this] assms(1,2) show ?thesis by simp
next
  case False
  with assms(3) have "tank1 = openWaterUpdate E fr tank"
    by (simp add: animate_def Let_def runChain_openWater)
  with openWater_separated[OF assms(1,2)] show ?thesis by simp
qed

lemma frames_separated:
  assumes "uniformSeparation m (otherFrogs tank)" and "separated m (otherFrogs tank)"
    and "frames E frs tank = Inr tank1"
  shows "separated m (otherFrogs tank1) \<and> uniformSeparation m (otherFrogs tank1)"
  using assms
proof (induction frs arbitrary: tank)
  case Nil
  then show ?case by simp
next
  case (Cons fr frs)
  from Cons.prems(3) obtain tk where a: "snd (animate E fr tank) = Inr tk"
    and b: "frames E frs tk = Inr tank1"
    by (auto split: sum.splits)
  from animate_separated[OF Cons.prems(1,2) a] Cons.IH[OF _ _ b] show ?case by blast
qed

text \<open>
  Claim C1, as amended. Over every sequence of frames, sub-agents that all carry the
  same \<open>minSeparation\<close> \<open>m\<close> and start pairwise at least \<open>m\<close> apart stay pairwise at
  least \<open>m\<close> apart: the overlap guard rejects every move of a sub-agent that would end
  closer than that to another one, and nothing else moves a sub-agent. In open-water
  mode the frames do not throw. Against the avatar the guard covers the sub-agent's own
  step only: a sub-agent tick either leaves the sub-agent where it was or ends at least
  \<open>m\<close> from the avatar's position. No exact arithmetic slack is needed.
\<close>

theorem sub_agent_separation:
  assumes "uniformSeparation m (otherFrogs tank)" and "separated m (otherFrogs tank)"
  shows "(\<forall>tank1. frames E frs tank = Inr tank1 \<longrightarrow>
            separated m (otherFrogs tank1) \<and> uniformSeparation m (otherFrogs tank1)) \<and>
         (\<not> sideScrollerMode tank \<longrightarrow> (\<exists>tank1. frames E frs tank = Inr tank1)) \<and>
         (\<forall>i<length (otherFrogs tank).
            position (otherFrogs (frogTick delta tank i) ! i) = position (otherFrogs tank ! i) \<or>
            m \<le> distanceTo (position (otherFrogs (frogTick delta tank i) ! i))
                  (frogPosition tank))"
proof (intro conjI allI impI)
  fix tank1 assume "frames E frs tank = Inr tank1"
  from frames_separated[OF assms this]
  show "separated m (otherFrogs tank1)" and "uniformSeparation m (otherFrogs tank1)"
    by simp_all
next
  assume "\<not> sideScrollerMode tank"
  from frames_open_water[OF this] show "\<exists>tank1. frames E frs tank = Inr tank1" by blast
next
  fix i assume i: "i < length (otherFrogs tank)"
  with assms(1) have "minSeparation (otherFrogs tank ! i) = m"
    by (simp add: uniformSeparation_iff)
  with frogTick_avatar[OF i, of delta]
  show "position (otherFrogs (frogTick delta tank i) ! i) = position (otherFrogs tank ! i) \<or>
            m \<le> distanceTo (position (otherFrogs (frogTick delta tank i) ! i))
                  (frogPosition tank)"
    by simp
qed

lemma spread_frogs: "otherFrogs spreadTank =
  [(subAgent (Vector3 0 10 0))\<lparr>target := Some 0, isMoving := True\<rparr>,
   (subAgent (Vector3 0 13 0))\<lparr>target := Some 0, isMoving := True\<rparr>,
   (subAgent (Vector3 0 20 0))\<lparr>target := Some 0, isMoving := True\<rparr>]"
  by (simp add: spreadTank_def makeFrogsSwimToFolder_def)

lemma spread_separated: "separated (3 / 2) (otherFrogs spreadTank)"
  by (simp add: separated_def spread_frogs subAgent_def distanceTo_y upt3)

lemma spread_uniform: "uniformSeparation (3 / 2) (otherFrogs spreadTank)"
  by (simp add: uniformSeparation_def spread_frogs subAgent_def)

theorem sub_agent_separation_witness:
  "multiFrogMode spreadTank \<and> length (otherFrogs spreadTank) = 3 \<and>
   uniformSeparation (3 / 2) (otherFrogs spreadTank) \<and>
   separated (3 / 2) (otherFrogs spreadTank) \<and>
   (\<exists>tank1. frames plainThree [frame60, frame60, frame60] spreadTank = Inr tank1 \<and>
            separated (3 / 2) (otherFrogs tank1) \<and>
            uniformSeparation (3 / 2) (otherFrogs tank1)) \<and>
   (position (otherFrogs (frogTick (1 / 60) spreadTank 0) ! 0) =
      position (otherFrogs spreadTank ! 0) \<or>
    3 / 2 \<le> distanceTo (position (otherFrogs (frogTick (1 / 60) spreadTank 0) ! 0))
               (frogPosition spreadTank))"
proof -
  have m: "multiFrogMode spreadTank" "\<not> sideScrollerMode spreadTank"
    by (simp_all add: spreadTank_def makeFrogsSwimToFolder_def loadedTank_def initialTank_def)
  have l: "length (otherFrogs spreadTank) = 3" by (simp add: spread_frogs)
  note T = sub_agent_separation[OF spread_uniform spread_separated,
      of plainThree "[frame60, frame60, frame60]" "1 / 60"]
  from T m(2) obtain tank1 where f: "frames plainThree [frame60, frame60, frame60] spreadTank = Inr tank1"
    by blast
  with T have s: "separated (3 / 2) (otherFrogs tank1) \<and> uniformSeparation (3 / 2) (otherFrogs tank1)"
    by blast
  from T l have p: "position (otherFrogs (frogTick (1 / 60) spreadTank 0) ! 0) =
      position (otherFrogs spreadTank ! 0) \<or>
    3 / 2 \<le> distanceTo (position (otherFrogs (frogTick (1 / 60) spreadTank 0) ! 0))
               (frogPosition spreadTank)"
    by simp
  from m(1) l spread_uniform spread_separated f s p show ?thesis by blast
qed

lemma dash_fields:
  "multiFrogMode dashTank" "otherFrogs dashTank = [subAgent (Vector3 0 0 (- (3 / 2)))]"
  "frogPosition dashTank = Vector3 0 0 0" "allObjects dashTank = []"
  "\<not> sideScrollerMode dashTank" "selectedObject dashTank = None"
  "velocity dashTank = Vector3 0 0 (- 15)"
  "frog dashTank = Some \<lparr>position = Vector3 0 0 0, rotation = Vector3 0 pi 0\<rparr>"
  "movement dashTank = noMovement" "config dashTank = initialConfig"
  "swimTime dashTank = 0"
  by (simp_all add: dashTank_def performDash_def loadedTank_def initialTank_def plainThree_def
        rotateEuler_yaw_pi hasHorizontalInput_def noMovement_def addV_def multiplyScalar_def
        Let_def)

lemma dash_movement:
  "frogPosition (updateMovement plainThree dashTank (1 / 10)) = Vector3 0 0 (- (582 / 625))"
  "map_option position (frog (updateMovement plainThree dashTank (1 / 10))) =
     Some (Vector3 0 0 (- (582 / 625)))"
  "movement (updateMovement plainThree dashTank (1 / 10)) = noMovement"
  "allObjects (updateMovement plainThree dashTank (1 / 10)) = []"
  "swimTime (updateMovement plainThree dashTank (1 / 10)) = 0"
  "config (updateMovement plainThree dashTank (1 / 10)) = initialConfig"
  by (simp_all add: updateMovement_def dash_fields initialConfig_def noMovement_def
        plainThree_def applyFriction_def applyMovementForce_def clampToTankBounds_def
        hasHorizontalInput_def intentVector_def addV_def multiplyScalar_def setX_def setY_def
        setZ_def Let_def)

lemma dash_frame_position:
  "frogPosition (openWaterUpdate plainThree frame10 dashTank) = Vector3 0 0 (- (582 / 625))"
proof -
  let ?t1 = "updateMovement plainThree dashTank (1 / 10)"
  have a: "updateAutopilot plainThree 1000 0 ?t1 (1 / 10) = ?t1"
    by (rule updateAutopilot_noop) (simp add: dash_movement)
  from dash_movement(2) obtain fr1 where f: "frog ?t1 = Some fr1"
    and p: "position fr1 = Vector3 0 0 (- (582 / 625))"
    by (cases "frog ?t1") auto
  have "frogPosition (updateFrogAnimation ?t1 (1 / 10)) = Vector3 0 0 (- (582 / 625))"
    using f p by (simp add: updateFrogAnimation_def dash_movement noMovement_def setY_def Let_def)
  then show ?thesis
    by (simp add: avatar_openWaterUpdate frame10_def a)
qed

lemma dash_frame_frogs:
  "otherFrogs (openWaterUpdate plainThree frame10 dashTank) = [subAgent (Vector3 0 0 (- (3 / 2)))]"
proof -
  let ?t3 = "updateFrogAnimation
      (updateAutopilot plainThree (frameNow frame10) (frameRandom frame10)
         (updateMovement plainThree dashTank (frameDelta frame10)) (frameDelta frame10))
      (frameDelta frame10)"
  have o: "otherFrogs ?t3 = [subAgent (Vector3 0 0 (- (3 / 2)))]"
    by (simp add: otherFrogs_updateFrogAnimation otherFrogs_updateAutopilot otherFrogs_updateMovement dash_fields)
  have "frogTick (frameDelta frame10) ?t3 0 = ?t3"
    by (simp add: frogTick_def o subAgent_def deref_def Let_def)
  then have u: "updateAdditionalFrogs ?t3 (frameDelta frame10) = ?t3"
    by (simp add: updateAdditionalFrogs_def o)
  have "otherFrogs (updateObjectSelection plainThree (updateCameraPosition plainThree ?t3)) =
      otherFrogs ?t3"
  proof -
    have "allObjects (updateCameraPosition plainThree ?t3) = []"
      by (simp add: updateCameraPosition_def updateFrogAnimation_def updateAutopilot_def
            updateMovement_def dash_fields Let_def split: option.splits)
    moreover have "selectedObject (updateCameraPosition plainThree ?t3) = None"
      by (simp add: updateCameraPosition_def updateFrogAnimation_def updateAutopilot_def
            updateMovement_def dash_fields Let_def split: option.splits)
    ultimately show ?thesis
      by (simp add: updateObjectSelection_def bestObject_def otherFrogs_updateCameraPosition Let_def split: option.splits)
  qed
  then show ?thesis
    by (simp add: openWaterUpdate_def otherFrogs_checkCollisions otherFrogs_updateEnvironment u o)
qed

text \<open>
  The claim as stated fails between the avatar and a sub-agent: nothing checks the
  avatar's own movement. A sub-agent rests exactly \<open>minSeparation\<close> ahead of the avatar,
  which faces the negative z axis; the avatar dashes forward, and after one frame of a
  tenth of a second the two are 0.5688 apart, more than 0.9 below \<open>minSeparation\<close>.
\<close>

theorem avatar_dashes_into_sub_agent:
  "multiFrogMode dashTank \<and>
   otherFrogs dashTank = [subAgent (Vector3 0 0 (- (3 / 2)))] \<and>
   minSeparation (subAgent (Vector3 0 0 (- (3 / 2)))) = 3 / 2 \<and>
   distanceTo (position (otherFrogs dashTank ! 0)) (frogPosition dashTank) = 3 / 2 \<and>
   snd (animate plainThree frame10 dashTank) = Inr (openWaterUpdate plainThree frame10 dashTank) \<and>
   otherFrogs (openWaterUpdate plainThree frame10 dashTank) = [subAgent (Vector3 0 0 (- (3 / 2)))] \<and>
   frogPosition (openWaterUpdate plainThree frame10 dashTank) = Vector3 0 0 (- (582 / 625)) \<and>
   distanceTo (position (otherFrogs (openWaterUpdate plainThree frame10 dashTank) ! 0))
     (frogPosition (openWaterUpdate plainThree frame10 dashTank)) = 711 / 1250 \<and>
   (711 / 1250 :: real) < 3 / 2 - 9 / 10"
proof -
  have a: "minSeparation (subAgent (Vector3 0 0 (- (3 / 2)))) = 3 / 2"
    by (simp add: subAgent_def)
  have b: "distanceTo (position (otherFrogs dashTank ! 0)) (frogPosition dashTank) = 3 / 2"
    by (simp add: dash_fields subAgent_def distanceTo_z)
  have c: "snd (animate plainThree frame10 dashTank) =
      Inr (openWaterUpdate plainThree frame10 dashTank)"
    by (simp add: animate_def dash_fields runChain_openWater Let_def)
  have d: "distanceTo (position (otherFrogs (openWaterUpdate plainThree frame10 dashTank) ! 0))
     (frogPosition (openWaterUpdate plainThree frame10 dashTank)) = 711 / 1250"
    by (simp add: dash_frame_frogs dash_frame_position subAgent_def distanceTo_z)
  have e: "(711 / 1250 :: real) < 3 / 2 - 9 / 10" by simp
  from dash_fields(1,2) a b c dash_frame_frogs dash_frame_position d e show ?thesis by blast
qed

section \<open>Selection\<close>

lemma passesGates_spec: "passesGates E tank p ob = specGates E tank p ob"
  by (auto simp add: passesGates_def specGates_def)

lemma totalScore_spec:
  "distanceTo p (position ob) \<noteq> 0 \<Longrightarrow> totalScore E tank p ob = Some (specScore E tank p ob)"
  by (simp add: totalScore_def specScore_def Let_def)

lemma selectionStep_alt:
  "selectionStep E tank p best i =
     (if passesGates E tank p (allObjects tank ! i) then
        (case totalScore E tank p (allObjects tank ! i) of
           None \<Rightarrow> best
         | Some sc \<Rightarrow>
             (case best of
                None \<Rightarrow> Some (i, sc)
              | Some (b, bs) \<Rightarrow> if sc > bs then Some (i, sc) else best))
      else best)"
  by (simp add: selectionStep_def passesGates_def Let_def)

text \<open>The invariant of the selection loop after the first \<open>k\<close> objects.\<close>

lemma selection_loop:
  "case foldl (selectionStep E tank p) None [0..<k] of
     None \<Rightarrow>
       (\<forall>j<k. \<not> (passesGates E tank p (allObjects tank ! j) \<and>
                   totalScore E tank p (allObjects tank ! j) \<noteq> None))
   | Some (b, bs) \<Rightarrow>
       b < k \<and> passesGates E tank p (allObjects tank ! b) \<and>
       totalScore E tank p (allObjects tank ! b) = Some bs \<and>
       (\<forall>j<k. passesGates E tank p (allObjects tank ! j) \<longrightarrow>
          (\<forall>s. totalScore E tank p (allObjects tank ! j) = Some s \<longrightarrow> s \<le> bs)) \<and>
       (\<forall>j<b. passesGates E tank p (allObjects tank ! j) \<longrightarrow>
          (\<forall>s. totalScore E tank p (allObjects tank ! j) = Some s \<longrightarrow> s < bs))"
proof (induction k)
  case 0
  then show ?case by simp
next
  case (Suc k)
  show ?case
  proof (cases "foldl (selectionStep E tank p) None [0..<k]")
    case None
    with Suc show ?thesis
      by (auto simp add: selectionStep_alt less_Suc_eq split: option.splits)
  next
    case (Some r)
    obtain b bs where r: "r = (b, bs)" by (cases r)
    from Suc Some r show ?thesis
      by (auto simp add: selectionStep_alt less_Suc_eq split: option.splits)
  qed
qed

lemma updateObjectSelection_selected:
  "frog tank = Some fr \<Longrightarrow>
   selectedObject (updateObjectSelection E tank) = bestObject E tank (position fr)"
  by (simp add: updateObjectSelection_def makeFrogsSwimToFolder_def Let_def split: option.splits)

text \<open>
  Claim C4, as amended. On a tick with the avatar loaded and no gate-passing object
  exactly at the avatar's position, the focused object after \<open>updateObjectSelection\<close> is
  the first world object, in list order, that maximizes
  \<open>0.2 * distanceScore + 0.3 * frontScore + 0.5 * heightScore\<close> over the objects passing
  the three gates (distance at most \<open>selectionDistance\<close>, projected depth at most 1, at
  most 2 units below the avatar): it passes the gates, no gate-passing object scores
  higher, and every gate-passing object before it scores strictly lower. The focus is
  \<open>null\<close> when no object passes the gates.
\<close>

theorem focus_first_maximizer:
  assumes "frog tank = Some fr"
    and "\<forall>i<length (allObjects tank).
           specGates E tank (position fr) (allObjects tank ! i) \<longrightarrow>
           distanceTo (position fr) (position (allObjects tank ! i)) \<noteq> 0"
  shows "case selectedObject (updateObjectSelection E tank) of
           None \<Rightarrow>
             (\<forall>i<length (allObjects tank).
                \<not> specGates E tank (position fr) (allObjects tank ! i))
         | Some b \<Rightarrow>
             b < length (allObjects tank) \<and>
             specGates E tank (position fr) (allObjects tank ! b) \<and>
             (\<forall>j<length (allObjects tank).
                specGates E tank (position fr) (allObjects tank ! j) \<longrightarrow>
                specScore E tank (position fr) (allObjects tank ! j)
                  \<le> specScore E tank (position fr) (allObjects tank ! b)) \<and>
             (\<forall>j<b.
                specGates E tank (position fr) (allObjects tank ! j) \<longrightarrow>
                specScore E tank (position fr) (allObjects tank ! j)
                  < specScore E tank (position fr) (allObjects tank ! b))"
proof -
  let ?n = "length (allObjects tank)"
  let ?p = "position fr"
  note inv = selection_loop[where E=E and tank=tank and p="?p" and k="?n"]
  have sel: "selectedObject (updateObjectSelection E tank) =
      map_option fst (foldl (selectionStep E tank ?p) None [0..<?n])"
    using assms(1) by (simp add: updateObjectSelection_selected bestObject_def)
  have sc: "\<And>j. j < ?n \<Longrightarrow> specGates E tank ?p (allObjects tank ! j) \<Longrightarrow>
      totalScore E tank ?p (allObjects tank ! j) = Some (specScore E tank ?p (allObjects tank ! j))"
    using assms(2) by (simp add: totalScore_spec)
  show ?thesis
  proof (cases "foldl (selectionStep E tank ?p) None [0..<?n]")
    case None
    with inv have "\<forall>j<?n. \<not> (specGates E tank ?p (allObjects tank ! j) \<and>
                   totalScore E tank ?p (allObjects tank ! j) \<noteq> None)"
      by (simp add: passesGates_spec)
    with sc have "\<forall>j<?n. \<not> specGates E tank ?p (allObjects tank ! j)" by auto
    with None sel show ?thesis by simp
  next
    case (Some r)
    obtain b bs where r: "r = (b, bs)" by (cases r)
    from inv Some r have b: "b < ?n" and g: "specGates E tank ?p (allObjects tank ! b)"
      and s: "totalScore E tank ?p (allObjects tank ! b) = Some bs"
      and m: "\<forall>j<?n. specGates E tank ?p (allObjects tank ! j) \<longrightarrow>
          (\<forall>s. totalScore E tank ?p (allObjects tank ! j) = Some s \<longrightarrow> s \<le> bs)"
      and f: "\<forall>j<b. specGates E tank ?p (allObjects tank ! j) \<longrightarrow>
          (\<forall>s. totalScore E tank ?p (allObjects tank ! j) = Some s \<longrightarrow> s < bs)"
      by (simp_all add: passesGates_spec)
    from sc[OF b g] s have bs: "bs = specScore E tank ?p (allObjects tank ! b)" by simp
    have m': "\<forall>j<?n. specGates E tank ?p (allObjects tank ! j) \<longrightarrow>
                specScore E tank ?p (allObjects tank ! j) \<le> bs"
      using m sc by blast
    have f': "\<forall>j<b. specGates E tank ?p (allObjects tank ! j) \<longrightarrow>
                specScore E tank ?p (allObjects tank ! j) < bs"
    proof (intro allI impI)
      fix j assume "j < b" and gj: "specGates E tank ?p (allObjects tank ! j)"
      with b have "j < ?n" by simp
      from sc[OF this gj] f \<open>j < b\<close> gj show "specScore E tank ?p (allObjects tank ! j) < bs"
        by blast
    qed
    from Some r sel have "selectedObject (updateObjectSelection E tank) = Some b" by simp
    with b g m' f' bs show ?thesis by simp
  qed
qed

lemma selectionTank_fields:
  "frog selectionTank = Some \<lparr>position = Vector3 0 0 0, rotation = Vector3 0 pi 0\<rparr>"
  "length (allObjects selectionTank) = 4"
  by (simp_all add: selectionTank_def loadedTank_def)

lemma selectionTank_gates:
  "specGates plainThree selectionTank (Vector3 0 0 0) (allObjects selectionTank ! 0)"
  "specGates plainThree selectionTank (Vector3 0 0 0) (allObjects selectionTank ! 1)"
  "specGates plainThree selectionTank (Vector3 0 0 0) (allObjects selectionTank ! 2)"
  "\<not> specGates plainThree selectionTank (Vector3 0 0 0) (allObjects selectionTank ! 3)"
  by (simp_all add: specGates_def selectionTank_def loadedTank_def initialTank_def
        initialConfig_def plainThree_def vec_eval eval_nat_numeral)

lemma selectionTank_scores:
  "specScore plainThree selectionTank (Vector3 0 0 0) (allObjects selectionTank ! 0) = 2 / 5"
  "specScore plainThree selectionTank (Vector3 0 0 0) (allObjects selectionTank ! 1) = 12 / 25"
  "specScore plainThree selectionTank (Vector3 0 0 0) (allObjects selectionTank ! 2) = 12 / 25"
  by (simp_all add: specScore_def selectionTank_def loadedTank_def initialTank_def
        initialConfig_def plainThree_def vec_eval eval_nat_numeral Let_def)

lemma selectionTank_distances:
  "distanceTo (Vector3 0 0 0) (position (allObjects selectionTank ! 0)) = 2"
  "distanceTo (Vector3 0 0 0) (position (allObjects selectionTank ! 1)) = 4"
  "distanceTo (Vector3 0 0 0) (position (allObjects selectionTank ! 2)) = 4"
  by (simp_all add: selectionTank_def vec_eval eval_nat_numeral)

theorem focus_first_maximizer_witness:
  "frog selectionTank = Some \<lparr>position = Vector3 0 0 0, rotation = Vector3 0 pi 0\<rparr> \<and>
   specGates plainThree selectionTank (Vector3 0 0 0) (allObjects selectionTank ! 0) \<and>
   specGates plainThree selectionTank (Vector3 0 0 0) (allObjects selectionTank ! 1) \<and>
   specGates plainThree selectionTank (Vector3 0 0 0) (allObjects selectionTank ! 2) \<and>
   specScore plainThree selectionTank (Vector3 0 0 0) (allObjects selectionTank ! 0) = 2 / 5 \<and>
   specScore plainThree selectionTank (Vector3 0 0 0) (allObjects selectionTank ! 1) = 12 / 25 \<and>
   specScore plainThree selectionTank (Vector3 0 0 0) (allObjects selectionTank ! 2) = 12 / 25 \<and>
   selectedObject (updateObjectSelection plainThree selectionTank) = Some 1"
proof -
  let ?fr = "\<lparr>position = Vector3 0 0 0, rotation = Vector3 0 pi 0\<rparr>"
  have h: "\<forall>i<length (allObjects selectionTank).
           specGates plainThree selectionTank (position ?fr) (allObjects selectionTank ! i) \<longrightarrow>
           distanceTo (position ?fr) (position (allObjects selectionTank ! i)) \<noteq> 0"
    using selectionTank_gates selectionTank_distances by (auto simp add: selectionTank_fields less4)
  note T = focus_first_maximizer[OF selectionTank_fields(1) h]
  show ?thesis
  proof (cases "selectedObject (updateObjectSelection plainThree selectionTank)")
    case None
    with T have "\<not> specGates plainThree selectionTank (Vector3 0 0 0) (allObjects selectionTank ! 0)"
      by (simp add: selectionTank_fields)
    with selectionTank_gates(1) show ?thesis by simp
  next
    case (Some b)
    with T have b: "b < 4"
      and g: "specGates plainThree selectionTank (Vector3 0 0 0) (allObjects selectionTank ! b)"
      and m: "\<forall>j<4. specGates plainThree selectionTank (Vector3 0 0 0) (allObjects selectionTank ! j) \<longrightarrow>
                specScore plainThree selectionTank (Vector3 0 0 0) (allObjects selectionTank ! j)
                  \<le> specScore plainThree selectionTank (Vector3 0 0 0) (allObjects selectionTank ! b)"
      and f: "\<forall>j<b. specGates plainThree selectionTank (Vector3 0 0 0) (allObjects selectionTank ! j) \<longrightarrow>
                specScore plainThree selectionTank (Vector3 0 0 0) (allObjects selectionTank ! j)
                  < specScore plainThree selectionTank (Vector3 0 0 0) (allObjects selectionTank ! b)"
      by (simp_all add: selectionTank_fields)
    from b have "b = 0 \<or> b = 1 \<or> b = 2 \<or> b = 3" by (simp add: less4)
    then have "b = 1"
    proof (elim disjE)
      assume "b = 0"
      with m[rule_format, of 1] selectionTank_gates(2) selectionTank_scores show ?thesis by simp
    next
      assume "b = 1" then show ?thesis .
    next
      assume "b = 2"
      with f[rule_format, of 1] selectionTank_gates(2) selectionTank_scores show ?thesis by simp
    next
      assume "b = 3"
      with g selectionTank_gates(4) show ?thesis by simp
    qed
    with Some selectionTank_gates selectionTank_scores selectionTank_fields(1) show ?thesis by simp
  qed
qed

text \<open>
  The claim as stated fails where an object sits exactly at the avatar's position: it
  passes all three gates, its score is NaN (\<open>0 / 0\<close>), the comparison with the running
  best is false, and the focus stays \<open>null\<close> although a candidate exists.
\<close>

theorem coincident_object_not_focused:
  "frog coincidentTank = Some \<lparr>position = Vector3 0 0 0, rotation = Vector3 0 pi 0\<rparr> \<and>
   length (allObjects coincidentTank) = 1 \<and>
   specGates plainThree coincidentTank (Vector3 0 0 0) (allObjects coincidentTank ! 0) \<and>
   selectedObject (updateObjectSelection plainThree coincidentTank) = None"
  by (simp add: coincidentTank_def loadedTank_def initialTank_def initialConfig_def
        plainThree_def specGates_def updateObjectSelection_def bestObject_def
        selectionStep_def totalScore_def vec_eval Let_def)

section \<open>Side-scroller jump\<close>

lemma platformStep_latch:
  "jumpPressed (platformStep pb pleft pr q plat) = jumpPressed q"
  "maxJumps (platformStep pb pleft pr q plat) = maxJumps q"
  by (simp_all add: platformStep_def Let_def)

lemma platformFold_latch:
  "jumpPressed (foldl (platformStep pb pleft pr) q platforms) = jumpPressed q \<and>
   maxJumps (foldl (platformStep pb pleft pr) q platforms) = maxJumps q"
  by (induction platforms arbitrary: q) (simp_all add: platformStep_latch)

lemma checkPlatformCollisions_latch:
  "jumpPressed (checkPlatformCollisions platforms pl) = jumpPressed pl"
  "maxJumps (checkPlatformCollisions platforms pl) = maxJumps pl"
  by (simp_all add: checkPlatformCollisions_def groundCollision_def Let_def platformFold_latch)

lemma faceStep_latch:
  "jumpPressed (faceStep pl) = jumpPressed pl" "maxJumps (faceStep pl) = maxJumps pl"
  by (simp_all add: faceStep_def)

lemma gravityStep_latch:
  "jumpPressed (gravityStep delta pl) = jumpPressed pl"
  "maxJumps (gravityStep delta pl) = maxJumps pl"
  by (simp_all add: gravityStep_def Let_def)

lemma dropStep_latch:
  "jumpPressed (dropStep input pl) = jumpPressed pl" "maxJumps (dropStep input pl) = maxJumps pl"
  by (simp_all add: dropStep_def Let_def)

lemma horizontalStep_latch:
  "jumpPressed (horizontalStep input pl) = jumpPressed pl"
  "maxJumps (horizontalStep input pl) = maxJumps pl"
  "jumpCount (horizontalStep input pl) = jumpCount pl"
  by (simp_all add: horizontalStep_def Let_def)

lemma jumpTriggered_horizontal:
  "jumpTriggered input (horizontalStep input' pl) = jumpTriggered input pl"
  by (simp add: jumpTriggered_def horizontalStep_latch)

lemma jumpStep_latch:
  "jumpPressed (jumpStep input pl) = (jump input \<and> (jumpPressed pl \<or> jumpTriggered input pl))"
  "maxJumps (jumpStep input pl) = maxJumps pl"
  by (auto simp add: jumpStep_def Let_def)

lemma updatePlayer_jumpPressed:
  "jumpPressed (updatePlayer input platforms delta pl) =
     (jump input \<and> (jumpPressed pl \<or> jumpTriggered input pl))"
  by (simp add: updatePlayer_def faceStep_latch checkPlatformCollisions_latch gravityStep_latch dropStep_latch
        jumpStep_latch horizontalStep_latch jumpTriggered_horizontal)

lemma updatePlayer_maxJumps:
  "maxJumps (updatePlayer input platforms delta pl) = maxJumps pl"
  by (simp add: updatePlayer_def faceStep_latch checkPlatformCollisions_latch gravityStep_latch dropStep_latch
        jumpStep_latch horizontalStep_latch)

lemma playerRun_latch:
  "jumpPressed pl \<Longrightarrow> \<forall>t\<in>set ticks. jump (fst t) \<Longrightarrow> jumpPressed (playerRun platforms ticks pl)"
proof (induction ticks arbitrary: pl)
  case Nil
  then show ?case by (simp add: playerRun_def)
next
  case (Cons t ticks)
  obtain input delta where t: "t = (input, delta)" by (cases t)
  from Cons.prems t have "jumpPressed (updatePlayer input platforms delta pl)"
    by (simp add: updatePlayer_jumpPressed)
  from Cons.IH[OF this] Cons.prems(2) have "jumpPressed (playerRun platforms ticks (updatePlayer input platforms delta pl))"
    by simp
  then show ?case
    by (simp add: playerRun_def t)
qed

lemma jumpStep_blocked:
  assumes "\<not> jumpCount pl < maxJumps pl"
  shows "jumpStep (input\<lparr>jump := True\<rparr>) pl = pl"
    and "jumpStep (input\<lparr>jump := False\<rparr>) pl = pl\<lparr>jumpPressed := False\<rparr>"
  using assms by (simp_all add: jumpStep_def jumpTriggered_def Let_def)

lemma steps_ignore_jump_input:
  "horizontalStep (input\<lparr>jump := b\<rparr>) pl = horizontalStep input pl"
  "dropStep (input\<lparr>jump := b\<rparr>) pl = dropStep input pl"
  by (simp_all add: horizontalStep_def dropStep_def)

lemma dropStep_commute:
  "dropStep input (pl\<lparr>jumpPressed := b\<rparr>) = (dropStep input pl)\<lparr>jumpPressed := b\<rparr>"
  by (simp add: dropStep_def Let_def)

lemma gravityStep_commute:
  "gravityStep delta (pl\<lparr>jumpPressed := b\<rparr>) = (gravityStep delta pl)\<lparr>jumpPressed := b\<rparr>"
  by (simp add: gravityStep_def Let_def)

lemma platformStep_commute:
  "platformStep pb pleft pr (q\<lparr>jumpPressed := b\<rparr>) plat =
   (platformStep pb pleft pr q plat)\<lparr>jumpPressed := b\<rparr>"
  by (simp add: platformStep_def Let_def)

lemma platformFold_commute:
  "foldl (platformStep pb pleft pr) (q\<lparr>jumpPressed := b\<rparr>) platforms =
   (foldl (platformStep pb pleft pr) q platforms)\<lparr>jumpPressed := b\<rparr>"
  by (induction platforms arbitrary: q) (simp_all add: platformStep_commute)

lemma groundCollision_commute:
  "groundCollision (pl\<lparr>jumpPressed := b\<rparr>) = (groundCollision pl)\<lparr>jumpPressed := b\<rparr>"
  by (simp add: groundCollision_def)

lemma checkPlatformCollisions_commute:
  "checkPlatformCollisions platforms (pl\<lparr>jumpPressed := b\<rparr>) =
   (checkPlatformCollisions platforms pl)\<lparr>jumpPressed := b\<rparr>"
proof -
  have r: "pl\<lparr>jumpPressed := b, isGrounded := False, isOnGround := False\<rparr> =
        (pl\<lparr>isGrounded := False, isOnGround := False\<rparr>)\<lparr>jumpPressed := b\<rparr>"
    by simp
  show ?thesis
    by (simp add: checkPlatformCollisions_def Let_def)
       (simp only: r platformFold_commute groundCollision_commute simp_thms)
qed

lemma faceStep_commute:
  "faceStep (pl\<lparr>jumpPressed := b\<rparr>) = (faceStep pl)\<lparr>jumpPressed := b\<rparr>"
  by (simp add: faceStep_def)

lemma third_attempt:
  assumes "\<not> jumpCount pl < maxJumps pl"
  shows "(updatePlayer (input\<lparr>jump := False\<rparr>) platforms delta pl)\<lparr>jumpPressed := jumpPressed pl\<rparr> =
         updatePlayer (input\<lparr>jump := True\<rparr>) platforms delta pl"
proof -
  have a: "jumpStep (input\<lparr>jump := True\<rparr>) (horizontalStep input pl) = horizontalStep input pl"
    using assms by (simp add: jumpStep_blocked horizontalStep_latch)
  have b: "jumpStep (input\<lparr>jump := False\<rparr>) (horizontalStep input pl) =
           (horizontalStep input pl)\<lparr>jumpPressed := False\<rparr>"
    using assms by (simp add: jumpStep_blocked horizontalStep_latch)
  have c: "(horizontalStep input pl)\<lparr>jumpPressed := jumpPressed pl\<rparr> = horizontalStep input pl"
    by (simp add: horizontalStep_def Let_def)
  have "(updatePlayer (input\<lparr>jump := False\<rparr>) platforms delta pl)\<lparr>jumpPressed := jumpPressed pl\<rparr> =
     faceStep (checkPlatformCollisions platforms (gravityStep delta (dropStep input
       ((horizontalStep input pl)\<lparr>jumpPressed := False, jumpPressed := jumpPressed pl\<rparr>))))"
    by (simp add: updatePlayer_def steps_ignore_jump_input b dropStep_commute
          gravityStep_commute checkPlatformCollisions_commute faceStep_commute)
  also have "\<dots> = updatePlayer (input\<lparr>jump := True\<rparr>) platforms delta pl"
    using c by (simp add: updatePlayer_def steps_ignore_jump_input a)
  finally show ?thesis .
qed

lemma jump_tick_velocity:
  assumes "jumpTriggered input pl"
  shows "vy (player.velocity (gravityStep delta (dropStep input (jumpStep input (horizontalStep input pl))))) =
         jumpForce + gravity * delta"
  using assms
  by (simp add: gravityStep_def dropStep_def jumpStep_def jumpTriggered_horizontal Let_def setY_def)

text \<open>
  Claim C5, as amended. In side-scroller mode a jump is triggered exactly when the jump
  intent is set, the latch \<open>jumpPressed\<close> is clear, down is not pressed and
  \<open>jumpCount < maxJumps\<close>, where \<open>maxJumps\<close> is 2 from \<open>enterSideScrollerMode\<close> on and
  no tick changes it. A triggered jump sets the vertical velocity to the jump impulse
  (the same tick's gravity is then applied to it) and increments \<open>jumpCount\<close>; it sets
  the latch, and while the intent stays held over the following ticks no jump is
  triggered again. A tick without a trigger leaves velocity and \<open>jumpCount\<close> to the
  other steps. With \<open>jumpCount\<close> at \<open>maxJumps\<close>, a tick with the jump intent set gives
  the same player as a tick without it, the latch apart: the attempt leaves the velocity
  unchanged.
\<close>

theorem jump_latch:
  "(jumpTriggered input pl \<longleftrightarrow>
      jump input \<and> \<not> jumpPressed pl \<and> \<not> input_flags.down input \<and> jumpCount pl < maxJumps pl) \<and>
   maxJumps initialPlayer = 2 \<and>
   maxJumps (updatePlayer input platforms delta pl) = maxJumps pl \<and>
   (jumpTriggered input pl \<longrightarrow>
      vy (player.velocity (jumpStep input pl)) = jumpForce \<and>
      jumpCount (jumpStep input pl) = jumpCount pl + 1 \<and>
      vy (player.velocity
            (gravityStep delta (dropStep input (jumpStep input (horizontalStep input pl))))) =
        jumpForce + gravity * delta \<and>
      (\<forall>ticks. (\<forall>t\<in>set ticks. jump (fst t)) \<longrightarrow>
         (\<forall>input1. \<not> jumpTriggered input1
                      (playerRun platforms ticks (updatePlayer input platforms delta pl))))) \<and>
   (\<not> jumpTriggered input pl \<longrightarrow>
      player.velocity (jumpStep input pl) = player.velocity pl \<and>
      jumpCount (jumpStep input pl) = jumpCount pl) \<and>
   (\<not> jumpCount pl < maxJumps pl \<longrightarrow>
      updatePlayer (input\<lparr>jump := True\<rparr>) platforms delta pl =
        (updatePlayer (input\<lparr>jump := False\<rparr>) platforms delta pl)
          \<lparr>jumpPressed := jumpPressed pl\<rparr> \<and>
      player.velocity (updatePlayer (input\<lparr>jump := True\<rparr>) platforms delta pl) =
        player.velocity (updatePlayer (input\<lparr>jump := False\<rparr>) platforms delta pl))"
proof (intro conjI impI allI)
  show "jumpTriggered input pl \<longleftrightarrow>
      jump input \<and> \<not> jumpPressed pl \<and> \<not> input_flags.down input \<and> jumpCount pl < maxJumps pl"
    by (simp add: jumpTriggered_def)
  show "maxJumps initialPlayer = 2" by (simp add: initialPlayer_def)
  show "maxJumps (updatePlayer input platforms delta pl) = maxJumps pl"
    by (rule updatePlayer_maxJumps)
next
  assume t: "jumpTriggered input pl"
  then show "vy (player.velocity (jumpStep input pl)) = jumpForce"
    by (simp add: jumpStep_def Let_def setY_def)
  from t show "jumpCount (jumpStep input pl) = jumpCount pl + 1"
    by (simp add: jumpStep_def Let_def)
  from t show "vy (player.velocity
            (gravityStep delta (dropStep input (jumpStep input (horizontalStep input pl))))) =
        jumpForce + gravity * delta"
    by (rule jump_tick_velocity)
next
  fix ticks :: "(input_flags \<times> real) list" and input1 :: input_flags
  assume t: "jumpTriggered input pl" and h: "\<forall>t\<in>set ticks. jump (fst t)"
  from t have "jumpPressed (updatePlayer input platforms delta pl)"
    by (simp add: updatePlayer_jumpPressed jumpTriggered_def)
  from playerRun_latch[OF this h]
  show "\<not> jumpTriggered input1 (playerRun platforms ticks (updatePlayer input platforms delta pl))"
    by (simp add: jumpTriggered_def)
next
  assume n: "\<not> jumpTriggered input pl"
  then show "player.velocity (jumpStep input pl) = player.velocity pl"
    by (simp add: jumpStep_def Let_def)
  from n show "jumpCount (jumpStep input pl) = jumpCount pl"
    by (simp add: jumpStep_def Let_def)
next
  assume b: "\<not> jumpCount pl < maxJumps pl"
  from third_attempt[OF b, of input platforms delta]
  show e: "updatePlayer (input\<lparr>jump := True\<rparr>) platforms delta pl =
        (updatePlayer (input\<lparr>jump := False\<rparr>) platforms delta pl)
          \<lparr>jumpPressed := jumpPressed pl\<rparr>"
    by simp
  show "player.velocity (updatePlayer (input\<lparr>jump := True\<rparr>) platforms delta pl) =
        player.velocity (updatePlayer (input\<lparr>jump := False\<rparr>) platforms delta pl)"
    by (subst e) simp
qed

lemmas ss_consts = gravity_def jumpForce_def moveSpeed_def groundY_def platformHeight_def
  cameraHeight_def cameraDistance_def worldWidth_def playerWidth_def

lemma afterHeldDown:
  "updatePlayer jumpAndDown (sideScrollerPlatforms folderTank) (1 / 60) initialPlayer =
     initialPlayer\<lparr>isGrounded := True, isOnGround := True, droppingThrough := True\<rparr>"
  by (simp add: folderTank_def enterSideScrollerMode_def platformPositions_def ss_consts
        updatePlayer_def horizontalStep_def jumpStep_def jumpTriggered_def dropStep_def
        gravityStep_def checkPlatformCollisions_def platformStep_def groundCollision_def
        faceStep_def jumpAndDown_def initialPlayer_def vec_eval Let_def)

lemma afterHeldThenJump:
  "updatePlayer jumpOnly (sideScrollerPlatforms folderTank) (1 / 60)
     (initialPlayer\<lparr>isGrounded := True, isOnGround := True, droppingThrough := True\<rparr>) =
   initialPlayer\<lparr>position := Vector3 0 (- 5 + 23 / 120) 0,
                 player.velocity := Vector3 0 (23 / 2) 0, isGrounded := False,
                 isOnGround := False, jumpCount := 1, jumpPressed := True\<rparr>"
  by (simp add: folderTank_def enterSideScrollerMode_def platformPositions_def ss_consts
        updatePlayer_def horizontalStep_def jumpStep_def jumpTriggered_def dropStep_def
        gravityStep_def checkPlatformCollisions_def platformStep_def groundCollision_def
        faceStep_def jumpOnly_def initialPlayer_def vec_eval Let_def)

theorem jump_latch_witness:
  "jumpTriggered jumpOnly initialPlayer \<and>
   vy (player.velocity (jumpStep jumpOnly initialPlayer)) = 12 \<and>
   jumpCount (jumpStep jumpOnly initialPlayer) = 1 \<and>
   \<not> jumpTriggered jumpOnly
       (playerRun (sideScrollerPlatforms folderTank) [(jumpOnly, 1 / 60), (jumpOnly, 1 / 60)]
          (updatePlayer jumpOnly (sideScrollerPlatforms folderTank) (1 / 60) initialPlayer)) \<and>
   \<not> jumpTriggered jumpAndDown initialPlayer \<and>
   jumpCount (jumpStep jumpAndDown initialPlayer) = 0 \<and>
   \<not> jumpCount (initialPlayer\<lparr>jumpCount := 2\<rparr>) < maxJumps (initialPlayer\<lparr>jumpCount := 2\<rparr>) \<and>
   player.velocity
     (updatePlayer (jumpOnly\<lparr>jump := True\<rparr>) (sideScrollerPlatforms folderTank) (1 / 60)
        (initialPlayer\<lparr>jumpCount := 2\<rparr>)) =
   player.velocity
     (updatePlayer (jumpOnly\<lparr>jump := False\<rparr>) (sideScrollerPlatforms folderTank) (1 / 60)
        (initialPlayer\<lparr>jumpCount := 2\<rparr>))"
proof -
  note A = jump_latch[of jumpOnly initialPlayer "sideScrollerPlatforms folderTank" "1 / 60"]
  note B = jump_latch[of jumpAndDown initialPlayer "sideScrollerPlatforms folderTank" "1 / 60"]
  note C = jump_latch[of jumpOnly "initialPlayer\<lparr>jumpCount := 2\<rparr>"
      "sideScrollerPlatforms folderTank" "1 / 60"]
  have t: "jumpTriggered jumpOnly initialPlayer"
    by (simp add: jumpTriggered_def jumpOnly_def initialPlayer_def)
  have h: "\<forall>t\<in>set [(jumpOnly, 1 / 60 :: real), (jumpOnly, 1 / 60)]. jump (fst t)"
    by (simp add: jumpOnly_def)
  have n: "\<not> jumpTriggered jumpAndDown initialPlayer"
    by (simp add: jumpTriggered_def jumpAndDown_def)
  have b: "\<not> jumpCount (initialPlayer\<lparr>jumpCount := 2\<rparr>) < maxJumps (initialPlayer\<lparr>jumpCount := 2\<rparr>)"
    by (simp add: initialPlayer_def)
  from A t have a1: "vy (player.velocity (jumpStep jumpOnly initialPlayer)) = 12"
    by (simp add: jumpForce_def)
  from A t have a2: "jumpCount (jumpStep jumpOnly initialPlayer) = 1"
    by (simp add: initialPlayer_def)
  from A t h have a3: "\<not> jumpTriggered jumpOnly
       (playerRun (sideScrollerPlatforms folderTank) [(jumpOnly, 1 / 60), (jumpOnly, 1 / 60)]
          (updatePlayer jumpOnly (sideScrollerPlatforms folderTank) (1 / 60) initialPlayer))"
    by blast
  from B n have b1: "jumpCount (jumpStep jumpAndDown initialPlayer) = 0"
    by (simp add: initialPlayer_def)
  from C b have c1: "player.velocity
     (updatePlayer (jumpOnly\<lparr>jump := True\<rparr>) (sideScrollerPlatforms folderTank) (1 / 60)
        (initialPlayer\<lparr>jumpCount := 2\<rparr>)) =
   player.velocity
     (updatePlayer (jumpOnly\<lparr>jump := False\<rparr>) (sideScrollerPlatforms folderTank) (1 / 60)
        (initialPlayer\<lparr>jumpCount := 2\<rparr>))"
    by blast
  from t a1 a2 a3 n b1 b c1 show ?thesis by blast
qed

text \<open>
  The claim as stated, a jump only on a rising edge of the intent, fails: with jump and
  down held in one tick (no jump is triggered, and the latch stays clear) and down
  released in the next while jump is still held, the second tick triggers a jump.
\<close>

theorem jump_without_rising_edge:
  "sideScrollerMode folderTank \<and> sideScrollerPlayer folderTank = Some initialPlayer \<and>
   jump jumpAndDown \<and> jump jumpOnly \<and>
   \<not> jumpTriggered jumpAndDown initialPlayer \<and>
   jumpTriggered jumpOnly
     (updatePlayer jumpAndDown (sideScrollerPlatforms folderTank) (1 / 60) initialPlayer) \<and>
   player.velocity
     (updatePlayer jumpOnly (sideScrollerPlatforms folderTank) (1 / 60)
        (updatePlayer jumpAndDown (sideScrollerPlatforms folderTank) (1 / 60) initialPlayer)) =
     Vector3 0 (23 / 2) 0"
proof -
  have a: "sideScrollerMode folderTank \<and> sideScrollerPlayer folderTank = Some initialPlayer"
    by (simp add: folderTank_def enterSideScrollerMode_def)
  have b: "jump jumpAndDown \<and> jump jumpOnly \<and> \<not> jumpTriggered jumpAndDown initialPlayer"
    by (simp add: jumpAndDown_def jumpOnly_def jumpTriggered_def)
  have c: "jumpTriggered jumpOnly
     (updatePlayer jumpAndDown (sideScrollerPlatforms folderTank) (1 / 60) initialPlayer)"
    by (simp add: afterHeldDown) (simp add: jumpTriggered_def jumpOnly_def initialPlayer_def)
  have d: "player.velocity
     (updatePlayer jumpOnly (sideScrollerPlatforms folderTank) (1 / 60)
        (updatePlayer jumpAndDown (sideScrollerPlatforms folderTank) (1 / 60) initialPlayer)) =
     Vector3 0 (23 / 2) 0"
    by (simp add: afterHeldDown afterHeldThenJump)
  from a b c d show ?thesis by blast
qed


end
